theory Spec2Isabelle
  imports Complex_Main
begin

section \<open>Floating-point values\<close>

text \<open>
  The shapes of \<^verbatim>\<open>src/pbrt/shapes.h\<close> compute with the C++ type \<^verbatim>\<open>Float\<close>.
  A \<open>Float\<close> is modelled as a real number or one of the three IEEE special values.
  Arithmetic on finite values is exact: rounding is not modelled, and the two signed
  zeros are one value (a quotient \<open>x / 0\<close> with \<open>x > 0\<close> is \<open>Infinity\<close>).
  The special values follow IEEE 754: they are what the tests \<^verbatim>\<open>std::isinf\<close>, the
  default argument \<^verbatim>\<open>tMax = Infinity\<close> and every division by zero of the source
  see, and every comparison with \<open>NaN\<close> is false.
\<close>

datatype Float = Finite real | Infinity | NegInfinity | NaN

instantiation Float :: "{zero,one,plus,minus,uminus,times,inverse,abs,ord}"
begin

definition zero_Float :: Float where
  "zero_Float = Finite 0"

definition one_Float :: Float where
  "one_Float = Finite 1"

fun uminus_Float :: "Float \<Rightarrow> Float" where
  "uminus_Float (Finite a) = Finite (- a)"
| "uminus_Float Infinity = NegInfinity"
| "uminus_Float NegInfinity = Infinity"
| "uminus_Float NaN = NaN"

fun abs_Float :: "Float \<Rightarrow> Float" where
  "abs_Float (Finite a) = Finite \<bar>a\<bar>"
| "abs_Float Infinity = Infinity"
| "abs_Float NegInfinity = Infinity"
| "abs_Float NaN = NaN"

fun plus_Float :: "Float \<Rightarrow> Float \<Rightarrow> Float" where
  "plus_Float (Finite a) (Finite b) = Finite (a + b)"
| "plus_Float NaN _ = NaN"
| "plus_Float _ NaN = NaN"
| "plus_Float Infinity NegInfinity = NaN"
| "plus_Float NegInfinity Infinity = NaN"
| "plus_Float Infinity _ = Infinity"
| "plus_Float _ Infinity = Infinity"
| "plus_Float NegInfinity _ = NegInfinity"
| "plus_Float _ NegInfinity = NegInfinity"

definition minus_Float :: "Float \<Rightarrow> Float \<Rightarrow> Float" where
  "minus_Float a b = a + (- b)"

fun times_Float :: "Float \<Rightarrow> Float \<Rightarrow> Float" where
  "times_Float (Finite a) (Finite b) = Finite (a * b)"
| "times_Float NaN _ = NaN"
| "times_Float _ NaN = NaN"
| "times_Float Infinity (Finite b) =
     (if b = 0 then NaN else if 0 < b then Infinity else NegInfinity)"
| "times_Float NegInfinity (Finite b) =
     (if b = 0 then NaN else if 0 < b then NegInfinity else Infinity)"
| "times_Float (Finite a) Infinity =
     (if a = 0 then NaN else if 0 < a then Infinity else NegInfinity)"
| "times_Float (Finite a) NegInfinity =
     (if a = 0 then NaN else if 0 < a then NegInfinity else Infinity)"
| "times_Float Infinity Infinity = Infinity"
| "times_Float NegInfinity NegInfinity = Infinity"
| "times_Float Infinity NegInfinity = NegInfinity"
| "times_Float NegInfinity Infinity = NegInfinity"

fun divide_Float :: "Float \<Rightarrow> Float \<Rightarrow> Float" where
  "divide_Float (Finite a) (Finite b) =
     (if b = 0 then (if a = 0 then NaN else if 0 < a then Infinity else NegInfinity)
      else Finite (a / b))"
| "divide_Float NaN _ = NaN"
| "divide_Float _ NaN = NaN"
| "divide_Float (Finite a) Infinity = Finite 0"
| "divide_Float (Finite a) NegInfinity = Finite 0"
| "divide_Float Infinity (Finite b) = (if b < 0 then NegInfinity else Infinity)"
| "divide_Float NegInfinity (Finite b) = (if b < 0 then Infinity else NegInfinity)"
| "divide_Float Infinity Infinity = NaN"
| "divide_Float Infinity NegInfinity = NaN"
| "divide_Float NegInfinity Infinity = NaN"
| "divide_Float NegInfinity NegInfinity = NaN"

fun inverse_Float :: "Float \<Rightarrow> Float" where
  "inverse_Float (Finite b) = (if b = 0 then Infinity else Finite (1 / b))"
| "inverse_Float Infinity = Finite 0"
| "inverse_Float NegInfinity = Finite 0"
| "inverse_Float NaN = NaN"

fun less_Float :: "Float \<Rightarrow> Float \<Rightarrow> bool" where
  "less_Float (Finite a) (Finite b) = (a < b)"
| "less_Float NaN _ = False"
| "less_Float _ NaN = False"
| "less_Float Infinity _ = False"
| "less_Float _ NegInfinity = False"
| "less_Float NegInfinity _ = True"
| "less_Float _ Infinity = True"

fun less_eq_Float :: "Float \<Rightarrow> Float \<Rightarrow> bool" where
  "less_eq_Float (Finite a) (Finite b) = (a \<le> b)"
| "less_eq_Float NaN _ = False"
| "less_eq_Float _ NaN = False"
| "less_eq_Float NegInfinity _ = True"
| "less_eq_Float _ Infinity = True"
| "less_eq_Float Infinity _ = False"
| "less_eq_Float _ NegInfinity = False"

instance ..

end

text \<open>The C++ operator \<^verbatim>\<open>==\<close> on floats: false as soon as one side is \<open>NaN\<close>.\<close>

definition feq :: "Float \<Rightarrow> Float \<Rightarrow> bool" where
  "feq a b = (a \<noteq> NaN \<and> b \<noteq> NaN \<and> a = b)"

definition Pi :: Float where
  "Pi = Finite pi"

text \<open>The functions of the C++ standard library that the shapes call.\<close>

fun std_isinf :: "Float \<Rightarrow> bool" where
  "std_isinf Infinity = True"
| "std_isinf NegInfinity = True"
| "std_isinf _ = False"

fun std_sqrt :: "Float \<Rightarrow> Float" where
  "std_sqrt (Finite a) = (if a < 0 then NaN else Finite (sqrt a))"
| "std_sqrt Infinity = Infinity"
| "std_sqrt _ = NaN"

definition std_max :: "Float \<Rightarrow> Float \<Rightarrow> Float" where
  "std_max a b = (if a < b then b else a)"

definition std_min :: "Float \<Rightarrow> Float \<Rightarrow> Float" where
  "std_min a b = (if b < a then b else a)"

fun std_cos :: "Float \<Rightarrow> Float" where
  "std_cos (Finite a) = Finite (cos a)"
| "std_cos _ = NaN"

fun std_sin :: "Float \<Rightarrow> Float" where
  "std_sin (Finite a) = Finite (sin a)"
| "std_sin _ = NaN"

fun std_acos :: "Float \<Rightarrow> Float" where
  "std_acos (Finite a) = (if a < -1 \<or> 1 < a then NaN else Finite (arccos a))"
| "std_acos _ = NaN"

text \<open>
  \<^verbatim>\<open>std::atan2(y, x)\<close>: the angle of the point \<open>(x, y)\<close> in \<open>(-\<pi>, \<pi>]\<close>, with the values
  the C standard fixes for infinite arguments.
\<close>

definition atan2_real :: "real \<Rightarrow> real \<Rightarrow> real" where
  "atan2_real y x =
     (if 0 < x then arctan (y / x)
      else if x < 0 then (if 0 \<le> y then arctan (y / x) + pi else arctan (y / x) - pi)
      else if 0 < y then pi / 2
      else if y < 0 then - pi / 2
      else 0)"

fun std_atan2 :: "Float \<Rightarrow> Float \<Rightarrow> Float" where
  "std_atan2 (Finite y) (Finite x) = Finite (atan2_real y x)"
| "std_atan2 NaN _ = NaN"
| "std_atan2 _ NaN = NaN"
| "std_atan2 (Finite y) Infinity = Finite 0"
| "std_atan2 (Finite y) NegInfinity = (if y < 0 then Finite (- pi) else Finite pi)"
| "std_atan2 Infinity (Finite x) = Finite (pi / 2)"
| "std_atan2 NegInfinity (Finite x) = Finite (- pi / 2)"
| "std_atan2 Infinity Infinity = Finite (pi / 4)"
| "std_atan2 NegInfinity Infinity = Finite (- pi / 4)"
| "std_atan2 Infinity NegInfinity = Finite (3 * pi / 4)"
| "std_atan2 NegInfinity NegInfinity = Finite (- 3 * pi / 4)"



text \<open>
  A float that is not negative: a finite value \<open>\<ge> 0\<close>, \<open>Infinity\<close> or \<open>NaN\<close>. Squares,
  sums of squares and their quotients are of this kind whatever their arguments are.
\<close>

fun notNegative :: "Float \<Rightarrow> bool" where
  "notNegative (Finite a) = (0 \<le> a)"
| "notNegative Infinity = True"
| "notNegative NegInfinity = False"
| "notNegative NaN = True"

fun isFinite :: "Float \<Rightarrow> bool" where
  "isFinite (Finite a) = True"
| "isFinite _ = False"

section \<open>Numeric helpers of pbrt\<close>

text \<open>
  Modelled from the spec: the scalar helpers of \<^verbatim>\<open>pbrt/util/math.h\<close> and
  \<^verbatim>\<open>pbrt/util/float.h\<close> are not among the sources. The spec (sections 4 and 9, and the
  glossary) uses them with these meanings: \<open>\<gamma>(n) = n\<epsilon> / (1 - n\<epsilon>)\<close>,
  \<open>DifferenceOfProducts(a,b,c,d) = a b - c d\<close>, \<open>Lerp\<close>, \<open>Clamp\<close>, and the square roots
  and arc cosines that clamp their argument first.
\<close>

definition Sqr :: "Float \<Rightarrow> Float" where
  "Sqr v = v * v"

definition Clamp :: "Float \<Rightarrow> Float \<Rightarrow> Float \<Rightarrow> Float" where
  "Clamp val low high = (if val < low then low else if high < val then high else val)"

definition Lerp :: "Float \<Rightarrow> Float \<Rightarrow> Float \<Rightarrow> Float" where
  "Lerp t a b = (Finite 1 - t) * a + t * b"

definition Radians :: "Float \<Rightarrow> Float" where
  "Radians deg = (Pi / Finite 180) * deg"

definition SafeSqrt :: "Float \<Rightarrow> Float" where
  "SafeSqrt v = std_sqrt (std_max (Finite 0) v)"

definition SafeACos :: "Float \<Rightarrow> Float" where
  "SafeACos v = std_acos (Clamp v (Finite (-1)) (Finite 1))"

definition DifferenceOfProducts :: "Float \<Rightarrow> Float \<Rightarrow> Float \<Rightarrow> Float \<Rightarrow> Float" where
  "DifferenceOfProducts a b c d = a * b - c * d"

definition gamma :: "Float \<Rightarrow> nat \<Rightarrow> Float" where
  "gamma eps n = (Finite (real n) * eps) / (Finite 1 - Finite (real n) * eps)"

section \<open>Vectors, points and normals\<close>

text \<open>
  Modelled from the spec: the classes \<^verbatim>\<open>Point3f\<close>, \<^verbatim>\<open>Vector3f\<close>, \<^verbatim>\<open>Normal3f\<close> and
  \<^verbatim>\<open>Point2f\<close> of \<^verbatim>\<open>pbrt/util/vecmath.h\<close> are not among the sources. The spec uses
  them as triples and pairs of \<open>F\<close> with the usual dot product, cross product, length
  and normalisation.
\<close>

datatype Vector3f = Vector3f (vx: Float) (vy: Float) (vz: Float)

type_synonym Point3f = Vector3f
type_synonym Normal3f = Vector3f
type_synonym Point2f = "Float \<times> Float"

instantiation Vector3f :: "{zero,plus,minus,uminus}"
begin

definition zero_Vector3f :: Vector3f where
  "zero_Vector3f = Vector3f (Finite 0) (Finite 0) (Finite 0)"

definition plus_Vector3f :: "Vector3f \<Rightarrow> Vector3f \<Rightarrow> Vector3f" where
  "plus_Vector3f a b = Vector3f (vx a + vx b) (vy a + vy b) (vz a + vz b)"

definition minus_Vector3f :: "Vector3f \<Rightarrow> Vector3f \<Rightarrow> Vector3f" where
  "minus_Vector3f a b = Vector3f (vx a - vx b) (vy a - vy b) (vz a - vz b)"

definition uminus_Vector3f :: "Vector3f \<Rightarrow> Vector3f" where
  "uminus_Vector3f a = Vector3f (- vx a) (- vy a) (- vz a)"

instance ..

end

definition isFinite3 :: "Vector3f \<Rightarrow> bool" where
  "isFinite3 v = (isFinite (vx v) \<and> isFinite (vy v) \<and> isFinite (vz v))"

text \<open>\<^verbatim>\<open>s * v\<close> and \<^verbatim>\<open>v / s\<close> for a scalar \<open>s\<close>.\<close>

definition scale :: "Float \<Rightarrow> Vector3f \<Rightarrow> Vector3f" where
  "scale s v = Vector3f (s * vx v) (s * vy v) (s * vz v)"

definition vdiv :: "Vector3f \<Rightarrow> Float \<Rightarrow> Vector3f" where
  "vdiv v s = Vector3f (vx v / s) (vy v / s) (vz v / s)"

text \<open>The comparison \<^verbatim>\<open>==\<close> of two tuples compares the components as floats.\<close>

definition veq :: "Vector3f \<Rightarrow> Vector3f \<Rightarrow> bool" where
  "veq a b = (feq (vx a) (vx b) \<and> feq (vy a) (vy b) \<and> feq (vz a) (vz b))"

definition Dot :: "Vector3f \<Rightarrow> Vector3f \<Rightarrow> Float" where
  "Dot a b = vx a * vx b + vy a * vy b + vz a * vz b"

definition AbsDot :: "Vector3f \<Rightarrow> Vector3f \<Rightarrow> Float" where
  "AbsDot a b = \<bar>Dot a b\<bar>"

definition Cross :: "Vector3f \<Rightarrow> Vector3f \<Rightarrow> Vector3f" where
  "Cross a b =
     Vector3f (DifferenceOfProducts (vy a) (vz b) (vz a) (vy b))
              (DifferenceOfProducts (vz a) (vx b) (vx a) (vz b))
              (DifferenceOfProducts (vx a) (vy b) (vy a) (vx b))"

definition LengthSquared :: "Vector3f \<Rightarrow> Float" where
  "LengthSquared v = Sqr (vx v) + Sqr (vy v) + Sqr (vz v)"

definition Length :: "Vector3f \<Rightarrow> Float" where
  "Length v = std_sqrt (LengthSquared v)"

definition Normalize :: "Vector3f \<Rightarrow> Vector3f" where
  "Normalize v = vdiv v (Length v)"

definition DistanceSquared :: "Point3f \<Rightarrow> Point3f \<Rightarrow> Float" where
  "DistanceSquared p1 p2 = LengthSquared (p1 - p2)"

definition Distance :: "Point3f \<Rightarrow> Point3f \<Rightarrow> Float" where
  "Distance p1 p2 = Length (p1 - p2)"

definition Abs :: "Vector3f \<Rightarrow> Vector3f" where
  "Abs v = Vector3f (abs (vx v)) (abs (vy v)) (abs (vz v))"

definition FaceForward :: "Normal3f \<Rightarrow> Vector3f \<Rightarrow> Normal3f" where
  "FaceForward n v = (if Dot n v < Finite 0 then - n else n)"







section \<open>Float intervals and points with error bounds\<close>

text \<open>
  Modelled from the spec: \<^verbatim>\<open>FloatInterval\<close>, \<^verbatim>\<open>Point3fi\<close> and \<^verbatim>\<open>Vector3fi\<close> are not
  among the sources. Section 3 of the spec: a float interval is a pair \<open>(lo, hi)\<close> closed
  under \<open>+\<close>, \<open>-\<close>, \<open>\<times>\<close>, \<open>\<div>\<close>, with a square root, whose cast to \<open>F\<close> is its midpoint;
  a point with error is a point and a per-axis absolute error. The outward rounding
  of the bounds is not modelled: the bounds are those of exact interval arithmetic.
  A quotient by an interval that contains zero is the whole line.
\<close>

datatype FloatInterval = FloatInterval (LowerBound: Float) (UpperBound: Float)

definition FI :: "Float \<Rightarrow> FloatInterval" where
  "FI v = FloatInterval v v"

definition InRange :: "Float \<Rightarrow> FloatInterval \<Rightarrow> bool" where
  "InRange v i = (LowerBound i \<le> v \<and> v \<le> UpperBound i)"

definition min4 :: "Float \<Rightarrow> Float \<Rightarrow> Float \<Rightarrow> Float \<Rightarrow> Float" where
  "min4 a b c d = std_min (std_min (std_min a b) c) d"

definition max4 :: "Float \<Rightarrow> Float \<Rightarrow> Float \<Rightarrow> Float \<Rightarrow> Float" where
  "max4 a b c d = std_max (std_max (std_max a b) c) d"

instantiation FloatInterval :: "{plus,minus,uminus,times,inverse}"
begin

definition plus_FloatInterval :: "FloatInterval \<Rightarrow> FloatInterval \<Rightarrow> FloatInterval" where
  "plus_FloatInterval a b =
     FloatInterval (LowerBound a + LowerBound b) (UpperBound a + UpperBound b)"

definition minus_FloatInterval :: "FloatInterval \<Rightarrow> FloatInterval \<Rightarrow> FloatInterval" where
  "minus_FloatInterval a b =
     FloatInterval (LowerBound a - UpperBound b) (UpperBound a - LowerBound b)"

definition uminus_FloatInterval :: "FloatInterval \<Rightarrow> FloatInterval" where
  "uminus_FloatInterval a = FloatInterval (- UpperBound a) (- LowerBound a)"

definition times_FloatInterval :: "FloatInterval \<Rightarrow> FloatInterval \<Rightarrow> FloatInterval" where
  "times_FloatInterval a b =
     FloatInterval
       (min4 (LowerBound a * LowerBound b) (UpperBound a * LowerBound b)
             (LowerBound a * UpperBound b) (UpperBound a * UpperBound b))
       (max4 (LowerBound a * LowerBound b) (UpperBound a * LowerBound b)
             (LowerBound a * UpperBound b) (UpperBound a * UpperBound b))"

definition divide_FloatInterval :: "FloatInterval \<Rightarrow> FloatInterval \<Rightarrow> FloatInterval" where
  "divide_FloatInterval a b =
     (if InRange (Finite 0) b then FloatInterval NegInfinity Infinity
      else FloatInterval
        (min4 (LowerBound a / LowerBound b) (UpperBound a / LowerBound b)
              (LowerBound a / UpperBound b) (UpperBound a / UpperBound b))
        (max4 (LowerBound a / LowerBound b) (UpperBound a / LowerBound b)
              (LowerBound a / UpperBound b) (UpperBound a / UpperBound b)))"

definition inverse_FloatInterval :: "FloatInterval \<Rightarrow> FloatInterval" where
  "inverse_FloatInterval b =
     (if InRange (Finite 0) b then FloatInterval NegInfinity Infinity
      else FloatInterval
        (std_min (Finite 1 / LowerBound b) (Finite 1 / UpperBound b))
        (std_max (Finite 1 / LowerBound b) (Finite 1 / UpperBound b)))"

instance ..

end

definition Midpoint :: "FloatInterval \<Rightarrow> Float" where
  "Midpoint i = (LowerBound i + UpperBound i) / Finite 2"

definition Width :: "FloatInterval \<Rightarrow> Float" where
  "Width i = UpperBound i - LowerBound i"

text \<open>\<^verbatim>\<open>operator==\<close> of two intervals compares both bounds as floats.\<close>

definition fi_eq :: "FloatInterval \<Rightarrow> FloatInterval \<Rightarrow> bool" where
  "fi_eq a b = (feq (LowerBound a) (LowerBound b) \<and> feq (UpperBound a) (UpperBound b))"

definition Sqr_fi :: "FloatInterval \<Rightarrow> FloatInterval" where
  "Sqr_fi i =
     (let alow = abs (LowerBound i); ahigh = abs (UpperBound i);
          lo = (if ahigh < alow then ahigh else alow);
          hi = (if ahigh < alow then alow else ahigh)
      in if InRange (Finite 0) i then FloatInterval (Finite 0) (hi * hi)
         else FloatInterval (lo * lo) (hi * hi))"

definition Sqrt_fi :: "FloatInterval \<Rightarrow> FloatInterval" where
  "Sqrt_fi i = FloatInterval (std_sqrt (LowerBound i)) (std_sqrt (UpperBound i))"

definition SumSquares2 :: "FloatInterval \<Rightarrow> FloatInterval \<Rightarrow> FloatInterval" where
  "SumSquares2 a b = Sqr_fi a + Sqr_fi b"

definition SumSquares3 ::
  "FloatInterval \<Rightarrow> FloatInterval \<Rightarrow> FloatInterval \<Rightarrow> FloatInterval" where
  "SumSquares3 a b c = Sqr_fi a + Sqr_fi b + Sqr_fi c"

datatype Point3fi = Point3fi (ix: FloatInterval) (iy: FloatInterval) (iz: FloatInterval)

type_synonym Vector3fi = Point3fi

text \<open>\<^verbatim>\<open>Point3fi(p)\<close>: the point without error.\<close>

definition Point3fi_of :: "Point3f \<Rightarrow> Point3fi" where
  "Point3fi_of p = Point3fi (FI (vx p)) (FI (vy p)) (FI (vz p))"

definition FromValueAndError :: "Float \<Rightarrow> Float \<Rightarrow> FloatInterval" where
  "FromValueAndError v err =
     (if feq err (Finite 0) then FloatInterval v v else FloatInterval (v - err) (v + err))"

text \<open>\<^verbatim>\<open>Point3fi(p, e)\<close>: the point \<open>p\<close> with the error vector \<open>e\<close>.\<close>

definition Point3fi_err :: "Point3f \<Rightarrow> Vector3f \<Rightarrow> Point3fi" where
  "Point3fi_err p e =
     Point3fi (FromValueAndError (vx p) (vx e)) (FromValueAndError (vy p) (vy e))
              (FromValueAndError (vz p) (vz e))"

text \<open>\<^verbatim>\<open>Point3f(pi)\<close>: the midpoints; \<^verbatim>\<open>pi.Error()\<close>: the half widths.\<close>

definition Point3f_of :: "Point3fi \<Rightarrow> Point3f" where
  "Point3f_of q = Vector3f (Midpoint (ix q)) (Midpoint (iy q)) (Midpoint (iz q))"

definition Error :: "Point3fi \<Rightarrow> Vector3f" where
  "Error q =
     Vector3f (Width (ix q) / Finite 2) (Width (iy q) / Finite 2) (Width (iz q) / Finite 2)"

section \<open>Rays, interactions, samples\<close>

text \<open>
  The structures of \<^verbatim>\<open>shapes.h\<close>, and those of \<^verbatim>\<open>pbrt/ray.h\<close> and
  \<^verbatim>\<open>pbrt/interaction.h\<close> that it fills in. A field carries the name of its structure as
  a prefix (\<open>ray_o\<close> is \<^verbatim>\<open>ray.o\<close>, \<open>intr_pi\<close> is \<^verbatim>\<open>intr.pi\<close>).
\<close>

record Ray =
  ray_o :: Point3f
  ray_d :: Vector3f
  ray_time :: Float
  ray_medium :: "nat option"

text \<open>\<^verbatim>\<open>ray(t)\<close>: the point at parameter \<open>t\<close>.\<close>

definition Ray_at :: "Ray \<Rightarrow> Float \<Rightarrow> Point3f" where
  "Ray_at r t = ray_o r + scale t (ray_d r)"

record Interaction =
  intr_pi :: Point3fi
  intr_time :: Float
  intr_wo :: Vector3f
  intr_n :: Normal3f
  intr_uv :: Point2f

definition intr_p :: "'a Interaction_scheme \<Rightarrow> Point3f" where
  "intr_p i = Point3f_of (intr_pi i)"

text \<open>\<^verbatim>\<open>Interaction(pi, n, time)\<close>, with \<^verbatim>\<open>time = 0\<close> when it is left out.\<close>

definition mkInteraction :: "Point3fi \<Rightarrow> Normal3f \<Rightarrow> Float \<Rightarrow> Interaction" where
  "mkInteraction q n t =
     \<lparr>intr_pi = q, intr_time = t, intr_wo = 0, intr_n = n, intr_uv = (Finite 0, Finite 0)\<rparr>"

record SurfaceInteraction = Interaction +
  si_dpdu :: Vector3f
  si_dpdv :: Vector3f
  si_dndu :: Normal3f
  si_dndv :: Normal3f
  shading_n :: Normal3f
  shading_dpdu :: Vector3f
  shading_dpdv :: Vector3f
  shading_dndu :: Normal3f
  shading_dndv :: Normal3f
  si_faceIndex :: int

text \<open>
  Modelled from the spec: the constructor of \<^verbatim>\<open>SurfaceInteraction\<close> is not among the
  sources. Section 3 of the spec: the geometric normal is
  \<open>normalize(\<partial>p/\<partial>u \<times> \<partial>p/\<partial>v)\<close>, flipped when the last argument
  (\<^verbatim>\<open>reverseOrientation ^ transformSwapsHandedness\<close>) is set, and the shading frame
  starts as the geometric one.
\<close>

definition mkSurfaceInteraction ::
  "Point3fi \<Rightarrow> Point2f \<Rightarrow> Vector3f \<Rightarrow> Vector3f \<Rightarrow> Vector3f \<Rightarrow> Normal3f \<Rightarrow> Normal3f
   \<Rightarrow> Float \<Rightarrow> bool \<Rightarrow> int \<Rightarrow> SurfaceInteraction" where
  "mkSurfaceInteraction q uv wo dpdu dpdv dndu dndv t flipNormal faceIndex =
     (let n0 = Normalize (Cross dpdu dpdv);
          n = (if flipNormal then - n0 else n0)
      in \<lparr>intr_pi = q, intr_time = t, intr_wo = wo, intr_n = n, intr_uv = uv,
          si_dpdu = dpdu, si_dpdv = dpdv, si_dndu = dndu, si_dndv = dndv,
          shading_n = n, shading_dpdu = dpdu, shading_dpdv = dpdv,
          shading_dndu = dndu, shading_dndv = dndv, si_faceIndex = faceIndex\<rparr>)"

text \<open>
  The class \<^verbatim>\<open>Transform\<close> of \<^verbatim>\<open>pbrt/util/transform.h\<close> is not among the sources. A
  transform is taken as what the shapes use of it: its action on points, vectors,
  normals, their interval versions and surface interactions, and whether it swaps
  handedness.
\<close>

record Transform =
  applyP :: "Point3f \<Rightarrow> Point3f"
  applyV :: "Vector3f \<Rightarrow> Vector3f"
  applyN :: "Normal3f \<Rightarrow> Normal3f"
  applyPi :: "Point3fi \<Rightarrow> Point3fi"
  applyVi :: "Vector3fi \<Rightarrow> Vector3fi"
  applySI :: "SurfaceInteraction \<Rightarrow> SurfaceInteraction"
  SwapsHandedness :: bool

record ShapeSample =
  ss_intr :: Interaction
  ss_pdf :: Float

record ShapeSampleContext =
  ctx_pi :: Point3fi
  ctx_n :: Normal3f
  ctx_ns :: Normal3f
  ctx_time :: Float

record ShapeIntersection =
  isect_intr :: SurfaceInteraction
  isect_tHit :: Float

record QuadricIntersection =
  qi_tHit :: Float
  qi_pObj :: Point3f
  qi_phi :: Float

text \<open>
  Modelled from the spec: \<^verbatim>\<open>DirectionCone\<close> is not among the sources. Section 6 of the
  spec: normal bounds are a cone \<open>(axis, cos\<theta>)\<close>, and section 8 asks that the cone
  contain a normal. The entire sphere is the cone of \<open>cos\<theta> = -1\<close>; an empty cone
  has \<open>cos\<theta> = \<infinity>\<close>.
\<close>

record DirectionCone =
  cone_w :: Vector3f
  cone_cosTheta :: Float

definition EntireSphere :: DirectionCone where
  "EntireSphere = \<lparr>cone_w = Vector3f (Finite 0) (Finite 0) (Finite 1),
                    cone_cosTheta = Finite (-1)\<rparr>"

definition IsEmpty :: "DirectionCone \<Rightarrow> bool" where
  "IsEmpty c = feq (cone_cosTheta c) Infinity"

definition Inside :: "DirectionCone \<Rightarrow> Vector3f \<Rightarrow> bool" where
  "Inside c w = (\<not> IsEmpty c \<and> cone_cosTheta c \<le> Dot (cone_w c) (Normalize w))"

text \<open>
  Modelled from the spec: \<^verbatim>\<open>Frame\<close> and \<^verbatim>\<open>SphericalDirection\<close> of
  \<^verbatim>\<open>pbrt/util/vecmath.h\<close> are not among the sources. A frame is three axes;
  \<open>FromLocal\<close> maps local coordinates to the combination of the axes, and
  \<open>SphericalDirection\<close> is the unit vector of the given polar angle and azimuth.
\<close>

record Frame =
  frame_x :: Vector3f
  frame_y :: Vector3f
  frame_z :: Vector3f

definition FromLocal :: "Frame \<Rightarrow> Vector3f \<Rightarrow> Vector3f" where
  "FromLocal f v = scale (vx v) (frame_x f) + scale (vy v) (frame_y f) + scale (vz v) (frame_z f)"

definition SphericalDirection :: "Float \<Rightarrow> Float \<Rightarrow> Float \<Rightarrow> Vector3f" where
  "SphericalDirection sinTheta cosTheta phi =
     Vector3f (sinTheta * std_cos phi) (sinTheta * std_sin phi) cosTheta"


section \<open>The shapes and their collaborators\<close>

record Sphere =
  sph_radius :: Float
  sph_zMin :: Float
  sph_zMax :: Float
  sph_thetaZMin :: Float
  sph_thetaZMax :: Float
  sph_phiMax :: Float
  sph_renderFromObject :: Transform
  sph_objectFromRender :: Transform
  sph_reverseOrientation :: bool
  sph_transformSwapsHandedness :: bool

text \<open>The constructor \<^verbatim>\<open>Sphere::Sphere\<close>.\<close>

definition mkSphere ::
  "Transform \<Rightarrow> Transform \<Rightarrow> bool \<Rightarrow> Float \<Rightarrow> Float \<Rightarrow> Float \<Rightarrow> Float \<Rightarrow> Sphere" where
  "mkSphere renderFromObject objectFromRender reverseOrientation radius zMin zMax phiMax =
     \<lparr>sph_radius = radius,
      sph_zMin = Clamp (std_min zMin zMax) (- radius) radius,
      sph_zMax = Clamp (std_max zMin zMax) (- radius) radius,
      sph_thetaZMin = std_acos (Clamp (std_min zMin zMax / radius) (Finite (-1)) (Finite 1)),
      sph_thetaZMax = std_acos (Clamp (std_max zMin zMax / radius) (Finite (-1)) (Finite 1)),
      sph_phiMax = Radians (Clamp phiMax (Finite 0) (Finite 360)),
      sph_renderFromObject = renderFromObject,
      sph_objectFromRender = objectFromRender,
      sph_reverseOrientation = reverseOrientation,
      sph_transformSwapsHandedness = SwapsHandedness renderFromObject\<rparr>"

record Disk =
  dsk_renderFromObject :: Transform
  dsk_objectFromRender :: Transform
  dsk_reverseOrientation :: bool
  dsk_transformSwapsHandedness :: bool
  dsk_height :: Float
  dsk_radius :: Float
  dsk_innerRadius :: Float
  dsk_phiMax :: Float

text \<open>The constructor \<^verbatim>\<open>Disk::Disk\<close>.\<close>

definition mkDisk ::
  "Transform \<Rightarrow> Transform \<Rightarrow> bool \<Rightarrow> Float \<Rightarrow> Float \<Rightarrow> Float \<Rightarrow> Float \<Rightarrow> Disk" where
  "mkDisk renderFromObject objectFromRender reverseOrientation height radius innerRadius phiMax =
     \<lparr>dsk_renderFromObject = renderFromObject,
      dsk_objectFromRender = objectFromRender,
      dsk_reverseOrientation = reverseOrientation,
      dsk_transformSwapsHandedness = SwapsHandedness renderFromObject,
      dsk_height = height,
      dsk_radius = radius,
      dsk_innerRadius = innerRadius,
      dsk_phiMax = Radians (Clamp phiMax (Finite 0) (Finite 360))\<rparr>"

record Cylinder =
  cyl_renderFromObject :: Transform
  cyl_objectFromRender :: Transform
  cyl_reverseOrientation :: bool
  cyl_transformSwapsHandedness :: bool
  cyl_radius :: Float
  cyl_zMin :: Float
  cyl_zMax :: Float
  cyl_phiMax :: Float

text \<open>The constructor \<^verbatim>\<open>Cylinder::Cylinder\<close>.\<close>

definition mkCylinder ::
  "Transform \<Rightarrow> Transform \<Rightarrow> bool \<Rightarrow> Float \<Rightarrow> Float \<Rightarrow> Float \<Rightarrow> Float \<Rightarrow> Cylinder" where
  "mkCylinder renderFromObject objectFromRender reverseOrientation radius zMin zMax phiMax =
     \<lparr>cyl_renderFromObject = renderFromObject,
      cyl_objectFromRender = objectFromRender,
      cyl_reverseOrientation = reverseOrientation,
      cyl_transformSwapsHandedness = SwapsHandedness renderFromObject,
      cyl_radius = radius,
      cyl_zMin = std_min zMin zMax,
      cyl_zMax = std_max zMin zMax,
      cyl_phiMax = Radians (Clamp phiMax (Finite 0) (Finite 360))\<rparr>"

text \<open>
  A triangle is a pair of indices; its data is in the mesh. \<^verbatim>\<open>TriangleMesh\<close> is declared
  in \<^verbatim>\<open>pbrt/util/mesh.h\<close>; the record has the members that \<^verbatim>\<open>shapes.h\<close> reads. An
  array that may be \<^verbatim>\<open>nullptr\<close> is an option.
\<close>

record Triangle =
  tri_meshIndex :: nat
  tri_triIndex :: nat

record TriangleMesh =
  mesh_p :: "Point3f list"
  mesh_vertexIndices :: "nat list"
  mesh_n :: "Normal3f list option"
  mesh_s :: "Vector3f list option"
  mesh_uv :: "Point2f list option"
  mesh_faceIndices :: "int list option"
  mesh_reverseOrientation :: bool
  mesh_transformSwapsHandedness :: bool

record TriangleIntersection =
  ti_b0 :: Float
  ti_b1 :: Float
  ti_b2 :: Float
  ti_t :: Float

datatype CurveType = Flat | CylinderType | Ribbon

record CurveCommon =
  cc_type :: CurveType
  cc_cpObj :: "Point3f list"
  cc_width :: "Float \<times> Float"
  cc_n :: "Normal3f \<times> Normal3f"
  cc_normalAngle :: Float
  cc_invSinNormalAngle :: Float
  cc_renderFromObject :: Transform
  cc_objectFromRender :: Transform
  cc_reverseOrientation :: bool
  cc_transformSwapsHandedness :: bool

record Curve =
  crv_common :: CurveCommon
  crv_uMin :: Float
  crv_uMax :: Float


text \<open>
  The functions that \<^verbatim>\<open>shapes.h\<close> calls and that are not among the sources are
  parameters of the model, collected in one record: the float successor and
  predecessor and the machine epsilon (\<^verbatim>\<open>pbrt/util/float.h\<close>), the frame builders
  (\<^verbatim>\<open>pbrt/util/vecmath.h\<close>), the sampling routines (\<^verbatim>\<open>pbrt/util/sampling.h\<close>), the
  spherical triangle area (\<^verbatim>\<open>pbrt/util/math.h\<close>), \<^verbatim>\<open>SetShadingGeometry\<close>
  (\<^verbatim>\<open>pbrt/interaction.h\<close>), the members of \<^verbatim>\<open>shapes.h\<close> that are only declared there
  (\<^verbatim>\<open>Sphere::Sample(u)\<close>, \<^verbatim>\<open>Triangle::Intersect\<close>, \<^verbatim>\<open>Triangle::IntersectP\<close>), and
  the table of meshes \<^verbatim>\<open>Triangle::allMeshes\<close>. Every theorem holds for all values of
  the parameters it does not constrain.
\<close>

record Env =
  NextFloatUp :: "Float \<Rightarrow> Float"
  NextFloatDown :: "Float \<Rightarrow> Float"
  MachineEpsilon :: Float
  CoordinateSystem :: "Vector3f \<Rightarrow> Vector3f \<times> Vector3f"
  Frame_FromZ :: "Vector3f \<Rightarrow> Frame"
  SampleUniformDiskConcentric :: "Point2f \<Rightarrow> Point2f"
  SampleUniformTriangle :: "Point2f \<Rightarrow> Float \<times> Float \<times> Float"
  SampleSphericalTriangle ::
    "Point3f \<times> Point3f \<times> Point3f \<Rightarrow> Point3f \<Rightarrow> Point2f \<Rightarrow> (Float \<times> Float \<times> Float) \<times> Float"
  InvertSphericalTriangleSample ::
    "Point3f \<times> Point3f \<times> Point3f \<Rightarrow> Point3f \<Rightarrow> Vector3f \<Rightarrow> Point2f"
  SampleBilinear :: "Point2f \<Rightarrow> Float \<times> Float \<times> Float \<times> Float \<Rightarrow> Point2f"
  BilinearPDF :: "Point2f \<Rightarrow> Float \<times> Float \<times> Float \<times> Float \<Rightarrow> Float"
  SphericalTriangleArea :: "Vector3f \<Rightarrow> Vector3f \<Rightarrow> Vector3f \<Rightarrow> Float"
  SetShadingGeometry ::
    "SurfaceInteraction \<Rightarrow> Normal3f \<Rightarrow> Vector3f \<Rightarrow> Vector3f \<Rightarrow> Normal3f \<Rightarrow> Normal3f \<Rightarrow> bool
     \<Rightarrow> SurfaceInteraction"
  Sphere_Sample :: "Sphere \<Rightarrow> Point2f \<Rightarrow> ShapeSample option"
  Triangle_Intersect :: "Triangle \<Rightarrow> Ray \<Rightarrow> Float \<Rightarrow> ShapeIntersection option"
  Triangle_IntersectP :: "Triangle \<Rightarrow> Ray \<Rightarrow> Float \<Rightarrow> bool"
  allMeshes :: "TriangleMesh list"

section \<open>ShapeSampleContext\<close>

definition ctx_p :: "ShapeSampleContext \<Rightarrow> Point3f" where
  "ctx_p ctx = Point3f_of (ctx_pi ctx)"

text \<open>One step of the loop that rounds the offset point away from \<open>p\<close>.\<close>

definition roundAway :: "Env \<Rightarrow> Float \<Rightarrow> Float \<Rightarrow> Float" where
  "roundAway env off c =
     (if Finite 0 < off then NextFloatUp env c
      else if off < Finite 0 then NextFloatDown env c
      else c)"

definition OffsetRayOrigin :: "Env \<Rightarrow> ShapeSampleContext \<Rightarrow> Vector3f \<Rightarrow> Point3f" where
  "OffsetRayOrigin env ctx w =
     (let d = Dot (Abs (ctx_n ctx)) (Error (ctx_pi ctx));
          offset0 = scale d (ctx_n ctx);
          offset = (if Dot w (ctx_n ctx) < Finite 0 then - offset0 else offset0);
          po = Point3f_of (ctx_pi ctx) + offset
      in Vector3f (roundAway env (vx offset) (vx po))
                  (roundAway env (vy offset) (vy po))
                  (roundAway env (vz offset) (vz po)))"

text \<open>The overload \<^verbatim>\<open>OffsetRayOrigin(const Point3f &pt)\<close>.\<close>

definition OffsetRayOrigin_pt :: "Env \<Rightarrow> ShapeSampleContext \<Rightarrow> Point3f \<Rightarrow> Point3f" where
  "OffsetRayOrigin_pt env ctx pt = OffsetRayOrigin env ctx (pt - ctx_p ctx)"

definition SpawnRay :: "Env \<Rightarrow> ShapeSampleContext \<Rightarrow> Vector3f \<Rightarrow> Ray" where
  "SpawnRay env ctx w =
     \<lparr>ray_o = OffsetRayOrigin env ctx w, ray_d = w, ray_time = ctx_time ctx,
      ray_medium = None\<rparr>"


text \<open>
  The conversion of a density from the area measure to the solid-angle measure, which
  \<^verbatim>\<open>shapes.h\<close> writes out in each shape: in the \<^verbatim>\<open>Sample\<close> methods
  \<^verbatim>\<open>ss->pdf *= DistanceSquared(ctx.p(), ss->intr.p()) / AbsDot(ss->intr.n, -wi)\<close> with
  \<open>wi\<close> the normalised direction to the sample, and in the \<^verbatim>\<open>PDF\<close> methods
  \<^verbatim>\<open>DistanceSquared(p, si->intr.p()) / (AbsDot(si->intr.n, -wi) * Area())\<close>. The two
  functions name these values for the theorems; the models of the methods below spell
  the expressions out as the source does.
\<close>

definition solidAnglePdf_Sample :: "ShapeSampleContext \<Rightarrow> ShapeSample \<Rightarrow> Float" where
  "solidAnglePdf_Sample ctx ss =
     ss_pdf ss *
     (DistanceSquared (ctx_p ctx) (intr_p (ss_intr ss)) /
      AbsDot (intr_n (ss_intr ss)) (- Normalize (intr_p (ss_intr ss) - ctx_p ctx)))"

definition solidAnglePdf_PDF :: "Point3f \<Rightarrow> ShapeIntersection \<Rightarrow> Vector3f \<Rightarrow> Float \<Rightarrow> Float" where
  "solidAnglePdf_PDF p si wi area =
     DistanceSquared p (intr_p (isect_intr si)) /
     (AbsDot (intr_n (isect_intr si)) (- wi) * area)"

text \<open>\<^verbatim>\<open>ss->intr.time = ctx.time\<close>.\<close>

definition withTime :: "ShapeSample \<Rightarrow> Float \<Rightarrow> ShapeSample" where
  "withTime ss t = ss\<lparr>ss_intr := (ss_intr ss)\<lparr>intr_time := t\<rparr>\<rparr>"

text \<open>A sample, when there is one, has a density that is not infinite.\<close>

definition pdfNotInfinite :: "ShapeSample option \<Rightarrow> bool" where
  "pdfNotInfinite r = (case r of None \<Rightarrow> True | Some ss \<Rightarrow> \<not> std_isinf (ss_pdf ss))"

section \<open>Sphere\<close>

definition Sphere_NormalBounds :: "Sphere \<Rightarrow> DirectionCone" where
  "Sphere_NormalBounds S = EntireSphere"

text \<open>
  \<^verbatim>\<open>Sphere::SphereQuadratic\<close>. Its local variables \<open>a\<close>, \<open>b\<close>, \<open>c\<close>, \<open>discrim\<close> and \<open>q\<close>
  are functions of the arguments, so that theorems can name them. The result is
  \<open>None\<close> for \<^verbatim>\<open>false\<close> and the pair \<open>(t0, t1)\<close> of the output parameters for \<^verbatim>\<open>true\<close>.
\<close>

definition SphereQuadratic_a :: "Vector3fi \<Rightarrow> FloatInterval" where
  "SphereQuadratic_a d = SumSquares3 (ix d) (iy d) (iz d)"

definition SphereQuadratic_b :: "Point3fi \<Rightarrow> Vector3fi \<Rightarrow> FloatInterval" where
  "SphereQuadratic_b o' d = FI (Finite 2) * (ix d * ix o' + iy d * iy o' + iz d * iz o')"

definition SphereQuadratic_c :: "Sphere \<Rightarrow> Point3fi \<Rightarrow> FloatInterval" where
  "SphereQuadratic_c S o' = SumSquares3 (ix o') (iy o') (iz o') - Sqr_fi (FI (sph_radius S))"

definition SphereQuadratic_discrim :: "Sphere \<Rightarrow> Point3fi \<Rightarrow> Vector3fi \<Rightarrow> FloatInterval" where
  "SphereQuadratic_discrim S o' d =
     (let a = SphereQuadratic_a d;
          b = SphereQuadratic_b o' d;
          f = b / (FI (Finite 2) * a);
          fp = Point3fi (ix o' - f * ix d) (iy o' - f * iy d) (iz o' - f * iz d);
          sqrtf = Sqrt_fi (SumSquares3 (ix fp) (iy fp) (iz fp))
      in FI (Finite 4) * a * (FI (sph_radius S) - sqrtf) * (FI (sph_radius S) + sqrtf))"

definition SphereQuadratic_q :: "Sphere \<Rightarrow> Point3fi \<Rightarrow> Vector3fi \<Rightarrow> FloatInterval" where
  "SphereQuadratic_q S o' d =
     (let b = SphereQuadratic_b o' d;
          rootDiscrim = Sqrt_fi (SphereQuadratic_discrim S o' d)
      in if Midpoint b < Finite 0 then FI (Finite (- 0.5)) * (b - rootDiscrim)
         else FI (Finite (- 0.5)) * (b + rootDiscrim))"

definition SphereQuadratic ::
  "Sphere \<Rightarrow> Point3fi \<Rightarrow> Vector3fi \<Rightarrow> (FloatInterval \<times> FloatInterval) option" where
  "SphereQuadratic S o' d =
     (if LowerBound (SphereQuadratic_discrim S o' d) < Finite 0 then None
      else
        (let t0 = SphereQuadratic_q S o' d / SphereQuadratic_a d;
             t1 = SphereQuadratic_c S o' / SphereQuadratic_q S o' d
         in if LowerBound t1 < LowerBound t0 then Some (t1, t0) else Some (t0, t1)))"

text \<open>
  \<^verbatim>\<open>Sphere::BasicIntersect\<close>. The block "compute sphere hit position and \<open>\<phi>\<close>", which
  the source has twice, is \<open>Sphere_hitPoint\<close>, and the test against the clipping
  parameters, also there twice, is \<open>Sphere_clipped\<close>.
\<close>

definition Sphere_hitPoint :: "Sphere \<Rightarrow> Ray \<Rightarrow> FloatInterval \<Rightarrow> Point3f \<times> Float" where
  "Sphere_hitPoint S ray tShapeHit =
     (let pHit0 = Ray_at ray (Midpoint tShapeHit);
          pHit1 = scale (sph_radius S / Distance pHit0 0) pHit0;
          pHit = (if feq (vx pHit1) (Finite 0) \<and> feq (vy pHit1) (Finite 0)
                  then Vector3f (Finite (1 / 100000) * sph_radius S) (vy pHit1) (vz pHit1)
                  else pHit1);
          phi0 = std_atan2 (vy pHit) (vx pHit);
          phi = (if phi0 < Finite 0 then phi0 + Finite 2 * Pi else phi0)
      in (pHit, phi))"

definition Sphere_clipped :: "Sphere \<Rightarrow> Point3f \<Rightarrow> Float \<Rightarrow> bool" where
  "Sphere_clipped S pHit phi =
     ((- sph_radius S < sph_zMin S \<and> vz pHit < sph_zMin S)
      \<or> (sph_zMax S < sph_radius S \<and> sph_zMax S < vz pHit)
      \<or> sph_phiMax S < phi)"

definition Sphere_BasicIntersect :: "Sphere \<Rightarrow> Ray \<Rightarrow> Float \<Rightarrow> QuadricIntersection option" where
  "Sphere_BasicIntersect S r tMax =
     (let oi = applyPi (sph_objectFromRender S) (Point3fi_of (ray_o r));
          di = applyVi (sph_objectFromRender S) (Point3fi_of (ray_d r));
          ray = \<lparr>ray_o = Point3f_of oi, ray_d = Point3f_of di, ray_time = ray_time r,
                 ray_medium = ray_medium r\<rparr>
      in case SphereQuadratic S oi di of
           None \<Rightarrow> None
         | Some (t0, t1) \<Rightarrow>
             if tMax < UpperBound t0 \<or> LowerBound t1 \<le> Finite 0 then None
             else if LowerBound t0 \<le> Finite 0 \<and> tMax < UpperBound t1 then None
             else
               (let tShapeHit = (if LowerBound t0 \<le> Finite 0 then t1 else t0);
                    (pHit, phi) = Sphere_hitPoint S ray tShapeHit
                in if Sphere_clipped S pHit phi then
                     (if fi_eq tShapeHit t1 then None
                      else if tMax < UpperBound t1 then None
                      else
                        (let (pHit', phi') = Sphere_hitPoint S ray t1
                         in if Sphere_clipped S pHit' phi' then None
                            else Some \<lparr>qi_tHit = Midpoint t1, qi_pObj = pHit', qi_phi = phi'\<rparr>))
                   else Some \<lparr>qi_tHit = Midpoint tShapeHit, qi_pObj = pHit, qi_phi = phi\<rparr>))"

definition Sphere_InteractionFromIntersection ::
  "Env \<Rightarrow> Sphere \<Rightarrow> QuadricIntersection \<Rightarrow> Vector3f \<Rightarrow> Float \<Rightarrow> SurfaceInteraction" where
  "Sphere_InteractionFromIntersection env S isect wo time =
     (let pHit = qi_pObj isect;
          phi = qi_phi isect;
          phiMax = sph_phiMax S;
          radius = sph_radius S;
          dTheta = sph_thetaZMax S - sph_thetaZMin S;
          u = phi / phiMax;
          cosTheta = vz pHit / radius;
          theta = SafeACos cosTheta;
          v = (theta - sph_thetaZMin S) / dTheta;
          zRadius = std_sqrt (vx pHit * vx pHit + vy pHit * vy pHit);
          invZRadius = Finite 1 / zRadius;
          cosPhi = vx pHit * invZRadius;
          sinPhi = vy pHit * invZRadius;
          dpdu = Vector3f (- phiMax * vy pHit) (phiMax * vx pHit) (Finite 0);
          sinTheta = SafeSqrt (Finite 1 - cosTheta * cosTheta);
          dpdv = scale dTheta
                   (Vector3f (vz pHit * cosPhi) (vz pHit * sinPhi) (- radius * sinTheta));
          d2Pduu = scale (- phiMax * phiMax) (Vector3f (vx pHit) (vy pHit) (Finite 0));
          d2Pduv = scale (dTheta * vz pHit * phiMax) (Vector3f (- sinPhi) cosPhi (Finite 0));
          d2Pdvv = scale (- dTheta * dTheta) (Vector3f (vx pHit) (vy pHit) (vz pHit));
          E = Dot dpdu dpdu;
          F = Dot dpdu dpdv;
          G = Dot dpdv dpdv;
          N = Normalize (Cross dpdu dpdv);
          e = Dot N d2Pduu;
          f = Dot N d2Pduv;
          g = Dot N d2Pdvv;
          invEGF2 = Finite 1 / (E * G - F * F);
          dndu = scale ((f * F - e * G) * invEGF2) dpdu + scale ((e * F - f * E) * invEGF2) dpdv;
          dndv = scale ((g * F - f * G) * invEGF2) dpdu + scale ((f * F - g * E) * invEGF2) dpdv;
          pError = scale (gamma (MachineEpsilon env) 5) (Abs pHit)
      in applySI (sph_renderFromObject S)
           (mkSurfaceInteraction (Point3fi_err pHit pError) (u, v)
              (applyV (sph_objectFromRender S) wo) dpdu dpdv dndu dndv time
              (sph_reverseOrientation S \<noteq> sph_transformSwapsHandedness S) 0))"

definition Sphere_Intersect :: "Env \<Rightarrow> Sphere \<Rightarrow> Ray \<Rightarrow> Float \<Rightarrow> ShapeIntersection option" where
  "Sphere_Intersect env S ray tMax =
     (case Sphere_BasicIntersect S ray tMax of
        None \<Rightarrow> None
      | Some isect \<Rightarrow>
          Some \<lparr>isect_intr =
                  Sphere_InteractionFromIntersection env S isect (- ray_d ray) (ray_time ray),
                isect_tHit = qi_tHit isect\<rparr>)"


definition Sphere_Area :: "Sphere \<Rightarrow> Float" where
  "Sphere_Area S = sph_phiMax S * sph_radius S * (sph_zMax S - sph_zMin S)"

text \<open>
  \<^verbatim>\<open>Sphere::Sample(const ShapeSampleContext &, const Point2f &)\<close>. The part of the
  method after the first \<^verbatim>\<open>if\<close>, from "Compute coordinate system for sphere sampling"
  to the \<^verbatim>\<open>return\<close>, is \<open>Sphere_Sample_cone\<close>. The debug check
  \<^verbatim>\<open>DCHECK_NE(oneMinusCosThetaMax, 0)\<close> is compiled out of release builds and is not
  part of the model.
\<close>

definition Sphere_Sample_cone ::
  "Env \<Rightarrow> Sphere \<Rightarrow> ShapeSampleContext \<Rightarrow> Point2f \<Rightarrow> ShapeSample" where
  "Sphere_Sample_cone env S ctx u =
     (let pCenter = applyP (sph_renderFromObject S) 0;
          radius = sph_radius S;
          samplingFrame = Frame_FromZ env (Normalize (ctx_p ctx - pCenter));
          dc = Distance (ctx_p ctx) pCenter;
          invDc = Finite 1 / dc;
          sinThetaMax = radius * invDc;
          sinThetaMax2 = sinThetaMax * sinThetaMax;
          invSinThetaMax = Finite 1 / sinThetaMax;
          cosThetaMax = SafeSqrt (Finite 1 - sinThetaMax2);
          small = (sinThetaMax2 < Finite 0.00068523);
          sinTheta2 = (if small then sinThetaMax2 * fst u
                       else Finite 1 - ((cosThetaMax - Finite 1) * fst u + Finite 1) *
                                       ((cosThetaMax - Finite 1) * fst u + Finite 1));
          cosTheta = (if small then std_sqrt (Finite 1 - sinTheta2)
                      else (cosThetaMax - Finite 1) * fst u + Finite 1);
          oneMinusCosThetaMax = (if small then sinThetaMax2 / Finite 2
                                 else Finite 1 - cosThetaMax);
          cosAlpha = sinTheta2 * invSinThetaMax +
                     cosTheta * SafeSqrt (Finite 1 - sinTheta2 * invSinThetaMax * invSinThetaMax);
          sinAlpha = SafeSqrt (Finite 1 - cosAlpha * cosAlpha);
          phi = snd u * Finite 2 * Pi;
          nRender = FromLocal samplingFrame (SphericalDirection sinAlpha cosAlpha phi);
          pRender = pCenter + scale radius nRender;
          pError = scale (gamma (MachineEpsilon env) 5) (Abs pRender);
          n = (if sph_reverseOrientation S then - nRender else nRender)
      in \<lparr>ss_intr = mkInteraction (Point3fi_err pRender pError) n (ctx_time ctx),
          ss_pdf = Finite 1 / (Finite 2 * Pi * oneMinusCosThetaMax)\<rparr>)"

definition Sphere_Sample_ctx ::
  "Env \<Rightarrow> Sphere \<Rightarrow> ShapeSampleContext \<Rightarrow> Point2f \<Rightarrow> ShapeSample option" where
  "Sphere_Sample_ctx env S ctx u =
     (let pCenter = applyP (sph_renderFromObject S) 0;
          pOrigin = OffsetRayOrigin_pt env ctx pCenter;
          radius = sph_radius S
      in if DistanceSquared pOrigin pCenter \<le> radius * radius then
           (case Sphere_Sample env S u of
              None \<Rightarrow> None
            | Some ss \<Rightarrow>
                (let wi = intr_p (ss_intr ss) - ctx_p ctx
                 in if feq (LengthSquared wi) (Finite 0) then None
                    else
                      (let wi' = Normalize wi;
                           pdf = ss_pdf ss *
                                 (DistanceSquared (ctx_p ctx) (intr_p (ss_intr ss)) /
                                  AbsDot (intr_n (ss_intr ss)) (- wi'))
                       in if std_isinf pdf then None else Some (ss\<lparr>ss_pdf := pdf\<rparr>))))
         else Some (Sphere_Sample_cone env S ctx u))"

text \<open>
  \<^verbatim>\<open>Sphere::PDF(const ShapeSampleContext &, const Vector3f &)\<close>. \<^verbatim>\<open>Ray(pOrigin, wi)\<close> has
  time 0 and no medium, and \<^verbatim>\<open>Intersect\<close> is called with its default
  \<^verbatim>\<open>tMax = Infinity\<close>. \<^verbatim>\<open>CHECK_RARE\<close> only counts and is not part of the model.
\<close>

definition Sphere_PDF_ctx :: "Env \<Rightarrow> Sphere \<Rightarrow> ShapeSampleContext \<Rightarrow> Vector3f \<Rightarrow> Float" where
  "Sphere_PDF_ctx env S ctx wi =
     (let pCenter = applyP (sph_renderFromObject S) 0;
          pOrigin = OffsetRayOrigin_pt env ctx pCenter;
          radius = sph_radius S
      in if DistanceSquared pOrigin pCenter \<le> radius * radius then
           (case Sphere_Intersect env S
                   \<lparr>ray_o = pOrigin, ray_d = wi, ray_time = Finite 0, ray_medium = None\<rparr>
                   Infinity of
              None \<Rightarrow> Finite 0
            | Some isect \<Rightarrow>
                (let pdf = DistanceSquared pOrigin (intr_p (isect_intr isect)) /
                           (AbsDot (intr_n (isect_intr isect)) (- wi) * Sphere_Area S)
                 in if std_isinf pdf then Finite 0 else pdf))
         else
           (let sinThetaMax2 = radius * radius / DistanceSquared (ctx_p ctx) pCenter;
                cosThetaMax = SafeSqrt (Finite 1 - sinThetaMax2);
                oneMinusCosThetaMax = (if sinThetaMax2 < Finite 0.00068523
                                       then sinThetaMax2 / Finite 2
                                       else Finite 1 - cosThetaMax)
            in Finite 1 / (Finite 2 * Pi * oneMinusCosThetaMax)))"

text \<open>
  The offset origin \<^verbatim>\<open>pOrigin\<close> that \<^verbatim>\<open>Sphere::Sample\<close> and \<^verbatim>\<open>Sphere::PDF\<close> compute, and
  the test of their first branch ("\<open>p\<close> is inside the sphere").
\<close>

definition Sphere_pOrigin :: "Env \<Rightarrow> Sphere \<Rightarrow> ShapeSampleContext \<Rightarrow> Point3f" where
  "Sphere_pOrigin env S ctx = OffsetRayOrigin_pt env ctx (applyP (sph_renderFromObject S) 0)"

definition Sphere_inside :: "Env \<Rightarrow> Sphere \<Rightarrow> ShapeSampleContext \<Rightarrow> bool" where
  "Sphere_inside env S ctx =
     (DistanceSquared (Sphere_pOrigin env S ctx) (applyP (sph_renderFromObject S) 0)
      \<le> sph_radius S * sph_radius S)"

text \<open>
  The local variables \<open>sinThetaMax2\<close> and \<open>oneMinusCosThetaMax\<close> of the second branch of
  \<^verbatim>\<open>Sphere::PDF\<close>, as functions of its arguments.
\<close>

definition Sphere_PDF_sinThetaMax2 :: "Sphere \<Rightarrow> ShapeSampleContext \<Rightarrow> Float" where
  "Sphere_PDF_sinThetaMax2 S ctx =
     sph_radius S * sph_radius S /
     DistanceSquared (ctx_p ctx) (applyP (sph_renderFromObject S) 0)"

definition Sphere_PDF_oneMinusCosThetaMax :: "Sphere \<Rightarrow> ShapeSampleContext \<Rightarrow> Float" where
  "Sphere_PDF_oneMinusCosThetaMax S ctx =
     (if Sphere_PDF_sinThetaMax2 S ctx < Finite 0.00068523
      then Sphere_PDF_sinThetaMax2 S ctx / Finite 2
      else Finite 1 - SafeSqrt (Finite 1 - Sphere_PDF_sinThetaMax2 S ctx))"

text \<open>
  The local variables \<open>sinThetaMax2\<close>, \<open>oneMinusCosThetaMax\<close> and \<open>cosAlpha\<close> of the second
  branch of \<^verbatim>\<open>Sphere::Sample\<close>, as functions of its arguments.
\<close>

definition Sphere_Sample_sinThetaMax :: "Sphere \<Rightarrow> ShapeSampleContext \<Rightarrow> Float" where
  "Sphere_Sample_sinThetaMax S ctx =
     sph_radius S * (Finite 1 / Distance (ctx_p ctx) (applyP (sph_renderFromObject S) 0))"

definition Sphere_Sample_sinThetaMax2 :: "Sphere \<Rightarrow> ShapeSampleContext \<Rightarrow> Float" where
  "Sphere_Sample_sinThetaMax2 S ctx =
     Sphere_Sample_sinThetaMax S ctx * Sphere_Sample_sinThetaMax S ctx"

definition Sphere_Sample_oneMinusCosThetaMax :: "Sphere \<Rightarrow> ShapeSampleContext \<Rightarrow> Float" where
  "Sphere_Sample_oneMinusCosThetaMax S ctx =
     (if Sphere_Sample_sinThetaMax2 S ctx < Finite 0.00068523
      then Sphere_Sample_sinThetaMax2 S ctx / Finite 2
      else Finite 1 - SafeSqrt (Finite 1 - Sphere_Sample_sinThetaMax2 S ctx))"

definition Sphere_Sample_cosAlpha :: "Sphere \<Rightarrow> ShapeSampleContext \<Rightarrow> Float \<Rightarrow> Float" where
  "Sphere_Sample_cosAlpha S ctx u0 =
     (let sinThetaMax = Sphere_Sample_sinThetaMax S ctx;
          sinThetaMax2 = Sphere_Sample_sinThetaMax2 S ctx;
          invSinThetaMax = Finite 1 / sinThetaMax;
          cosThetaMax = SafeSqrt (Finite 1 - sinThetaMax2);
          small = (sinThetaMax2 < Finite 0.00068523);
          sinTheta2 = (if small then sinThetaMax2 * u0
                       else Finite 1 - ((cosThetaMax - Finite 1) * u0 + Finite 1) *
                                       ((cosThetaMax - Finite 1) * u0 + Finite 1));
          cosTheta = (if small then std_sqrt (Finite 1 - sinTheta2)
                      else (cosThetaMax - Finite 1) * u0 + Finite 1)
      in sinTheta2 * invSinThetaMax +
         cosTheta * SafeSqrt (Finite 1 - sinTheta2 * invSinThetaMax * invSinThetaMax))"

text \<open>A frame is orthonormal: what \<^verbatim>\<open>Frame::FromZ\<close> promises for a unit vector.\<close>

definition orthonormal :: "Frame \<Rightarrow> bool" where
  "orthonormal f =
     (isFinite3 (frame_x f) \<and> isFinite3 (frame_y f) \<and> isFinite3 (frame_z f)
      \<and> Dot (frame_x f) (frame_x f) = Finite 1 \<and> Dot (frame_y f) (frame_y f) = Finite 1
      \<and> Dot (frame_z f) (frame_z f) = Finite 1 \<and> Dot (frame_x f) (frame_y f) = Finite 0
      \<and> Dot (frame_x f) (frame_z f) = Finite 0 \<and> Dot (frame_y f) (frame_z f) = Finite 0)"

text \<open>
  The density of the cone as the spec words it: \<open>1 / (2\<pi> (1 - cos\<theta>max))\<close> with
  \<open>cos\<theta>max = \<surd>(1 - r\<^sup>2 / d\<^sup>2)\<close> and \<open>d\<close> the distance from the reference point to the centre.
\<close>

definition spec_conePdf :: "Sphere \<Rightarrow> ShapeSampleContext \<Rightarrow> Float" where
  "spec_conePdf S ctx =
     (let d = Distance (ctx_p ctx) (applyP (sph_renderFromObject S) 0);
          cosThetaMax = std_sqrt (Finite 1 - sph_radius S * sph_radius S / (d * d))
      in Finite 1 / (Finite 2 * Pi * (Finite 1 - cosThetaMax)))"

section \<open>Disk\<close>

definition Disk_Area :: "Disk \<Rightarrow> Float" where
  "Disk_Area D =
     dsk_phiMax D * Finite 0.5 *
     (dsk_radius D * dsk_radius D - dsk_innerRadius D * dsk_innerRadius D)"

definition Disk_BasicIntersect :: "Disk \<Rightarrow> Ray \<Rightarrow> Float \<Rightarrow> QuadricIntersection option" where
  "Disk_BasicIntersect D r tMax =
     (let oi = applyPi (dsk_objectFromRender D) (Point3fi_of (ray_o r));
          di = applyVi (dsk_objectFromRender D) (Point3fi_of (ray_d r));
          ray = \<lparr>ray_o = Point3f_of oi, ray_d = Point3f_of di, ray_time = ray_time r,
                 ray_medium = ray_medium r\<rparr>
      in if feq (vz (ray_d ray)) (Finite 0) then None
         else
           (let tShapeHit = (dsk_height D - vz (ray_o ray)) / vz (ray_d ray)
            in if tShapeHit \<le> Finite 0 \<or> tMax \<le> tShapeHit then None
               else
                 (let pHit = Ray_at ray tShapeHit;
                      dist2 = vx pHit * vx pHit + vy pHit * vy pHit
                  in if dsk_radius D * dsk_radius D < dist2
                        \<or> dist2 < dsk_innerRadius D * dsk_innerRadius D then None
                     else
                       (let phi0 = std_atan2 (vy pHit) (vx pHit);
                            phi = (if phi0 < Finite 0 then phi0 + Finite 2 * Pi else phi0)
                        in if dsk_phiMax D < phi then None
                           else Some \<lparr>qi_tHit = tShapeHit, qi_pObj = pHit, qi_phi = phi\<rparr>))))"

text \<open>
  The local variables of \<^verbatim>\<open>Disk::BasicIntersect\<close> as functions of its arguments: the ray
  in object space, the parameter of the plane hit, the hit point, its squared distance
  to the axis and its azimuth.
\<close>

definition Disk_objectRay :: "Disk \<Rightarrow> Ray \<Rightarrow> Ray" where
  "Disk_objectRay D r =
     \<lparr>ray_o = Point3f_of (applyPi (dsk_objectFromRender D) (Point3fi_of (ray_o r))),
      ray_d = Point3f_of (applyVi (dsk_objectFromRender D) (Point3fi_of (ray_d r))),
      ray_time = ray_time r, ray_medium = ray_medium r\<rparr>"

definition Disk_tShapeHit :: "Disk \<Rightarrow> Ray \<Rightarrow> Float" where
  "Disk_tShapeHit D r =
     (dsk_height D - vz (ray_o (Disk_objectRay D r))) / vz (ray_d (Disk_objectRay D r))"

definition Disk_pHit :: "Disk \<Rightarrow> Ray \<Rightarrow> Point3f" where
  "Disk_pHit D r = Ray_at (Disk_objectRay D r) (Disk_tShapeHit D r)"

definition Disk_dist2 :: "Disk \<Rightarrow> Ray \<Rightarrow> Float" where
  "Disk_dist2 D r = vx (Disk_pHit D r) * vx (Disk_pHit D r) + vy (Disk_pHit D r) * vy (Disk_pHit D r)"

definition Disk_phi :: "Disk \<Rightarrow> Ray \<Rightarrow> Float" where
  "Disk_phi D r =
     (let phi0 = std_atan2 (vy (Disk_pHit D r)) (vx (Disk_pHit D r))
      in if phi0 < Finite 0 then phi0 + Finite 2 * Pi else phi0)"

definition Disk_InteractionFromIntersection ::
  "Disk \<Rightarrow> QuadricIntersection \<Rightarrow> Vector3f \<Rightarrow> Float \<Rightarrow> SurfaceInteraction" where
  "Disk_InteractionFromIntersection D isect wo time =
     (let pHit0 = qi_pObj isect;
          phi = qi_phi isect;
          dist2 = vx pHit0 * vx pHit0 + vy pHit0 * vy pHit0;
          u = phi / dsk_phiMax D;
          rHit = std_sqrt dist2;
          v = (dsk_radius D - rHit) / (dsk_radius D - dsk_innerRadius D);
          dpdu = Vector3f (- dsk_phiMax D * vy pHit0) (dsk_phiMax D * vx pHit0) (Finite 0);
          dpdv = vdiv (scale (dsk_innerRadius D - dsk_radius D)
                         (Vector3f (vx pHit0) (vy pHit0) (Finite 0))) rHit;
          dndu = Vector3f (Finite 0) (Finite 0) (Finite 0);
          dndv = Vector3f (Finite 0) (Finite 0) (Finite 0);
          pHit = Vector3f (vx pHit0) (vy pHit0) (dsk_height D);
          pError = Vector3f (Finite 0) (Finite 0) (Finite 0)
      in applySI (dsk_renderFromObject D)
           (mkSurfaceInteraction (Point3fi_err pHit pError) (u, v)
              (applyV (dsk_objectFromRender D) wo) dpdu dpdv dndu dndv time
              (dsk_reverseOrientation D \<noteq> dsk_transformSwapsHandedness D) 0))"

definition Disk_Intersect :: "Disk \<Rightarrow> Ray \<Rightarrow> Float \<Rightarrow> ShapeIntersection option" where
  "Disk_Intersect D ray tMax =
     (case Disk_BasicIntersect D ray tMax of
        None \<Rightarrow> None
      | Some isect \<Rightarrow>
          Some \<lparr>isect_intr =
                  Disk_InteractionFromIntersection D isect (- ray_d ray) (ray_time ray),
                isect_tHit = qi_tHit isect\<rparr>)"


text \<open>\<^verbatim>\<open>Disk::Sample(const Point2f &)\<close>: \<^verbatim>\<open>Interaction(pi, n)\<close> has time 0.\<close>

definition Disk_Sample :: "Env \<Rightarrow> Disk \<Rightarrow> Point2f \<Rightarrow> ShapeSample option" where
  "Disk_Sample env D u =
     (let pd = SampleUniformDiskConcentric env u;
          pObj = Vector3f (fst pd * dsk_radius D) (snd pd * dsk_radius D) (dsk_height D);
          pi' = applyPi (dsk_renderFromObject D) (Point3fi_of pObj);
          n0 = Normalize (applyN (dsk_renderFromObject D)
                            (Vector3f (Finite 0) (Finite 0) (Finite 1)));
          n = (if dsk_reverseOrientation D then - n0 else n0)
      in Some \<lparr>ss_intr = mkInteraction pi' n (Finite 0), ss_pdf = Finite 1 / Disk_Area D\<rparr>)"

definition Disk_Sample_ctx ::
  "Env \<Rightarrow> Disk \<Rightarrow> ShapeSampleContext \<Rightarrow> Point2f \<Rightarrow> ShapeSample option" where
  "Disk_Sample_ctx env D ctx u =
     (case Disk_Sample env D u of
        None \<Rightarrow> None
      | Some ss0 \<Rightarrow>
          (let ss = ss0\<lparr>ss_intr := (ss_intr ss0)\<lparr>intr_time := ctx_time ctx\<rparr>\<rparr>;
               wi = intr_p (ss_intr ss) - ctx_p ctx
           in if feq (LengthSquared wi) (Finite 0) then None
              else
                (let wi' = Normalize wi;
                     pdf = ss_pdf ss *
                           (DistanceSquared (ctx_p ctx) (intr_p (ss_intr ss)) /
                            AbsDot (intr_n (ss_intr ss)) (- wi'))
                 in if std_isinf pdf then None else Some (ss\<lparr>ss_pdf := pdf\<rparr>))))"

definition Disk_PDF_ctx :: "Env \<Rightarrow> Disk \<Rightarrow> ShapeSampleContext \<Rightarrow> Vector3f \<Rightarrow> Float" where
  "Disk_PDF_ctx env D ctx wi =
     (let ray = SpawnRay env ctx wi
      in case Disk_Intersect D ray Infinity of
           None \<Rightarrow> Finite 0
         | Some si \<Rightarrow>
             (let pdf = DistanceSquared (ctx_p ctx) (intr_p (isect_intr si)) /
                        (AbsDot (intr_n (isect_intr si)) (- wi) * Disk_Area D)
              in if std_isinf pdf then Finite 0 else pdf))"

section \<open>Cylinder\<close>

definition Cylinder_Area :: "Cylinder \<Rightarrow> Float" where
  "Cylinder_Area C = (cyl_zMax C - cyl_zMin C) * cyl_radius C * cyl_phiMax C"

definition Cylinder_NormalBounds :: "Cylinder \<Rightarrow> DirectionCone" where
  "Cylinder_NormalBounds C = EntireSphere"

definition CylinderQuadratic ::
  "Cylinder \<Rightarrow> Point3fi \<Rightarrow> Vector3fi \<Rightarrow> (FloatInterval \<times> FloatInterval) option" where
  "CylinderQuadratic C oi di =
     (let a = SumSquares2 (ix di) (iy di);
          b = FI (Finite 2) * (ix di * ix oi + iy di * iy oi);
          c = SumSquares2 (ix oi) (iy oi) - Sqr_fi (FI (cyl_radius C));
          f = b / (FI (Finite 2) * a);
          fx = ix oi - f * ix di;
          fy = iy oi - f * iy di;
          sqrtf = Sqrt_fi (SumSquares2 fx fy);
          discrim = FI (Finite 4) * a * (FI (cyl_radius C) + sqrtf) * (FI (cyl_radius C) - sqrtf)
      in if LowerBound discrim < Finite 0 then None
         else
           (let rootDiscrim = Sqrt_fi discrim;
                q = (if Midpoint b < Finite 0 then FI (Finite (- 0.5)) * (b - rootDiscrim)
                     else FI (Finite (- 0.5)) * (b + rootDiscrim));
                t0 = q / a;
                t1 = c / q
            in if LowerBound t1 < LowerBound t0 then Some (t1, t0) else Some (t0, t1)))"

text \<open>
  \<^verbatim>\<open>Cylinder::BasicIntersect\<close>, with the block "compute cylinder hit point and \<open>\<phi>\<close>",
  which the source has twice, as \<open>Cylinder_hitPoint\<close>.
\<close>

definition Cylinder_hitPoint :: "Cylinder \<Rightarrow> Ray \<Rightarrow> FloatInterval \<Rightarrow> Point3f \<times> Float" where
  "Cylinder_hitPoint C ray tShapeHit =
     (let pHit0 = Ray_at ray (Midpoint tShapeHit);
          hitRad = std_sqrt (vx pHit0 * vx pHit0 + vy pHit0 * vy pHit0);
          pHit = Vector3f (vx pHit0 * (cyl_radius C / hitRad))
                          (vy pHit0 * (cyl_radius C / hitRad)) (vz pHit0);
          phi0 = std_atan2 (vy pHit) (vx pHit);
          phi = (if phi0 < Finite 0 then phi0 + Finite 2 * Pi else phi0)
      in (pHit, phi))"

definition Cylinder_clipped :: "Cylinder \<Rightarrow> Point3f \<Rightarrow> Float \<Rightarrow> bool" where
  "Cylinder_clipped C pHit phi =
     (vz pHit < cyl_zMin C \<or> cyl_zMax C < vz pHit \<or> cyl_phiMax C < phi)"

definition Cylinder_BasicIntersect ::
  "Cylinder \<Rightarrow> Ray \<Rightarrow> Float \<Rightarrow> QuadricIntersection option" where
  "Cylinder_BasicIntersect C r tMax =
     (let oi = applyPi (cyl_objectFromRender C) (Point3fi_of (ray_o r));
          di = applyVi (cyl_objectFromRender C) (Point3fi_of (ray_d r));
          ray = \<lparr>ray_o = Point3f_of oi, ray_d = Point3f_of di, ray_time = ray_time r,
                 ray_medium = ray_medium r\<rparr>
      in case CylinderQuadratic C oi di of
           None \<Rightarrow> None
         | Some (t0, t1) \<Rightarrow>
             if tMax < UpperBound t0 \<or> LowerBound t1 \<le> Finite 0 then None
             else if LowerBound t0 \<le> Finite 0 \<and> tMax < UpperBound t1 then None
             else
               (let tShapeHit = (if LowerBound t0 \<le> Finite 0 then t1 else t0);
                    (pHit, phi) = Cylinder_hitPoint C ray tShapeHit
                in if Cylinder_clipped C pHit phi then
                     (if fi_eq tShapeHit t1 then None
                      else if tMax < UpperBound t1 then None
                      else
                        (let (pHit', phi') = Cylinder_hitPoint C ray t1
                         in if Cylinder_clipped C pHit' phi' then None
                            else Some \<lparr>qi_tHit = Midpoint t1, qi_pObj = pHit', qi_phi = phi'\<rparr>))
                   else Some \<lparr>qi_tHit = Midpoint tShapeHit, qi_pObj = pHit, qi_phi = phi\<rparr>))"

definition Cylinder_InteractionFromIntersection ::
  "Env \<Rightarrow> Cylinder \<Rightarrow> QuadricIntersection \<Rightarrow> Vector3f \<Rightarrow> Float \<Rightarrow> SurfaceInteraction" where
  "Cylinder_InteractionFromIntersection env C isect wo time =
     (let pHit = qi_pObj isect;
          phi = qi_phi isect;
          phiMax = cyl_phiMax C;
          u = phi / phiMax;
          v = (vz pHit - cyl_zMin C) / (cyl_zMax C - cyl_zMin C);
          dpdu = Vector3f (- phiMax * vy pHit) (phiMax * vx pHit) (Finite 0);
          dpdv = Vector3f (Finite 0) (Finite 0) (cyl_zMax C - cyl_zMin C);
          d2Pduu = scale (- phiMax * phiMax) (Vector3f (vx pHit) (vy pHit) (Finite 0));
          d2Pduv = Vector3f (Finite 0) (Finite 0) (Finite 0);
          d2Pdvv = Vector3f (Finite 0) (Finite 0) (Finite 0);
          E = Dot dpdu dpdu;
          F = Dot dpdu dpdv;
          G = Dot dpdv dpdv;
          N = Normalize (Cross dpdu dpdv);
          e = Dot N d2Pduu;
          f = Dot N d2Pduv;
          g = Dot N d2Pdvv;
          invEGF2 = Finite 1 / (E * G - F * F);
          dndu = scale ((f * F - e * G) * invEGF2) dpdu + scale ((e * F - f * E) * invEGF2) dpdv;
          dndv = scale ((g * F - f * G) * invEGF2) dpdu + scale ((f * F - g * E) * invEGF2) dpdv;
          pError = scale (gamma (MachineEpsilon env) 3)
                     (Abs (Vector3f (vx pHit) (vy pHit) (Finite 0)))
      in applySI (cyl_renderFromObject C)
           (mkSurfaceInteraction (Point3fi_err pHit pError) (u, v)
              (applyV (cyl_objectFromRender C) wo) dpdu dpdv dndu dndv time
              (cyl_reverseOrientation C \<noteq> cyl_transformSwapsHandedness C) 0))"

definition Cylinder_Intersect ::
  "Env \<Rightarrow> Cylinder \<Rightarrow> Ray \<Rightarrow> Float \<Rightarrow> ShapeIntersection option" where
  "Cylinder_Intersect env C ray tMax =
     (case Cylinder_BasicIntersect C ray tMax of
        None \<Rightarrow> None
      | Some isect \<Rightarrow>
          Some \<lparr>isect_intr =
                  Cylinder_InteractionFromIntersection env C isect (- ray_d ray) (ray_time ray),
                isect_tHit = qi_tHit isect\<rparr>)"


definition Cylinder_Sample :: "Env \<Rightarrow> Cylinder \<Rightarrow> Point2f \<Rightarrow> ShapeSample option" where
  "Cylinder_Sample env C u =
     (let z = Lerp (fst u) (cyl_zMin C) (cyl_zMax C);
          phi = snd u * cyl_phiMax C;
          pObj0 = Vector3f (cyl_radius C * std_cos phi) (cyl_radius C * std_sin phi) z;
          hitRad = std_sqrt (vx pObj0 * vx pObj0 + vy pObj0 * vy pObj0);
          pObj = Vector3f (vx pObj0 * (cyl_radius C / hitRad))
                          (vy pObj0 * (cyl_radius C / hitRad)) z;
          pObjError = scale (gamma (MachineEpsilon env) 3)
                        (Abs (Vector3f (vx pObj) (vy pObj) (Finite 0)));
          pi' = applyPi (cyl_renderFromObject C) (Point3fi_err pObj pObjError);
          n0 = Normalize (applyN (cyl_renderFromObject C)
                            (Vector3f (vx pObj) (vy pObj) (Finite 0)));
          n = (if cyl_reverseOrientation C then - n0 else n0)
      in Some \<lparr>ss_intr = mkInteraction pi' n (Finite 0), ss_pdf = Finite 1 / Cylinder_Area C\<rparr>)"

definition Cylinder_Sample_ctx ::
  "Env \<Rightarrow> Cylinder \<Rightarrow> ShapeSampleContext \<Rightarrow> Point2f \<Rightarrow> ShapeSample option" where
  "Cylinder_Sample_ctx env C ctx u =
     (case Cylinder_Sample env C u of
        None \<Rightarrow> None
      | Some ss0 \<Rightarrow>
          (let ss = ss0\<lparr>ss_intr := (ss_intr ss0)\<lparr>intr_time := ctx_time ctx\<rparr>\<rparr>;
               wi = intr_p (ss_intr ss) - ctx_p ctx
           in if feq (LengthSquared wi) (Finite 0) then None
              else
                (let wi' = Normalize wi;
                     pdf = ss_pdf ss *
                           (DistanceSquared (ctx_p ctx) (intr_p (ss_intr ss)) /
                            AbsDot (intr_n (ss_intr ss)) (- wi'))
                 in if std_isinf pdf then None else Some (ss\<lparr>ss_pdf := pdf\<rparr>))))"

definition Cylinder_PDF_ctx ::
  "Env \<Rightarrow> Cylinder \<Rightarrow> ShapeSampleContext \<Rightarrow> Vector3f \<Rightarrow> Float" where
  "Cylinder_PDF_ctx env C ctx wi =
     (let ray = SpawnRay env ctx wi
      in case Cylinder_Intersect env C ray Infinity of
           None \<Rightarrow> Finite 0
         | Some si \<Rightarrow>
             (let pdf = DistanceSquared (ctx_p ctx) (intr_p (isect_intr si)) /
                        (AbsDot (intr_n (isect_intr si)) (- wi) * Cylinder_Area C)
              in if std_isinf pdf then Finite 0 else pdf))"

section \<open>Curve\<close>

definition Curve_NormalBounds :: "Curve \<Rightarrow> DirectionCone" where
  "Curve_NormalBounds c = EntireSphere"

section \<open>Triangle\<close>

text \<open>
  \<^verbatim>\<open>GetMesh()\<close> reads the table of meshes at \<^verbatim>\<open>meshIndex\<close>, and the three vertices of
  triangle \<open>i\<close> are read through \<^verbatim>\<open>vertexIndices[3 i + k]\<close>. The source does not check
  an index; the model reads the lists with \<open>!\<close>, and its theorems are about meshes
  whose indices are in range.
\<close>

definition GetMesh :: "Env \<Rightarrow> Triangle \<Rightarrow> TriangleMesh" where
  "GetMesh env T = allMeshes env ! tri_meshIndex T"

definition tri_v :: "TriangleMesh \<Rightarrow> nat \<Rightarrow> nat \<Rightarrow> nat" where
  "tri_v mesh triIndex k = mesh_vertexIndices mesh ! (3 * triIndex + k)"

definition tri_p :: "TriangleMesh \<Rightarrow> nat \<Rightarrow> nat \<Rightarrow> Point3f" where
  "tri_p mesh triIndex k = mesh_p mesh ! tri_v mesh triIndex k"

definition Triangle_Area :: "Env \<Rightarrow> Triangle \<Rightarrow> Float" where
  "Triangle_Area env T =
     (let mesh = GetMesh env T;
          p0 = tri_p mesh (tri_triIndex T) 0;
          p1 = tri_p mesh (tri_triIndex T) 1;
          p2 = tri_p mesh (tri_triIndex T) 2
      in Finite 0.5 * Length (Cross (p1 - p0) (p2 - p0)))"


text \<open>\<open>b\<^sub>0 x\<^sub>0 + b\<^sub>1 x\<^sub>1 + b\<^sub>2 x\<^sub>2\<close> for three vectors and for three pairs.\<close>

definition bary3 :: "Float \<times> Float \<times> Float \<Rightarrow> Vector3f \<Rightarrow> Vector3f \<Rightarrow> Vector3f \<Rightarrow> Vector3f" where
  "bary3 b x0 x1 x2 =
     scale (fst b) x0 + scale (fst (snd b)) x1 + scale (snd (snd b)) x2"










definition Triangle_Sample :: "Env \<Rightarrow> Triangle \<Rightarrow> Point2f \<Rightarrow> ShapeSample option" where
  "Triangle_Sample env T u =
     (let mesh = GetMesh env T;
          i = tri_triIndex T;
          p0 = tri_p mesh i 0; p1 = tri_p mesh i 1; p2 = tri_p mesh i 2;
          b = SampleUniformTriangle env u;
          b0 = fst b; b1 = fst (snd b);
          p = bary3 b p0 p1 p2;
          n0 = Normalize (Cross (p1 - p0) (p2 - p0));
          n = (case mesh_n mesh of
                 Some nn \<Rightarrow>
                   FaceForward n0
                     (scale b0 (nn ! tri_v mesh i 0) + scale b1 (nn ! tri_v mesh i 1)
                      + scale (Finite 1 - b0 - b1) (nn ! tri_v mesh i 2))
               | None \<Rightarrow>
                   if mesh_reverseOrientation mesh \<noteq> mesh_transformSwapsHandedness mesh
                   then - n0 else n0);
          pAbsSum = Abs (scale b0 p0) + Abs (scale b1 p1) + Abs (scale (Finite 1 - b0 - b1) p2);
          pError = scale (gamma (MachineEpsilon env) 6) pAbsSum
      in Some \<lparr>ss_intr = mkInteraction (Point3fi_err p pError) n (Finite 0),
               ss_pdf = Finite 1 / Triangle_Area env T\<rparr>)"

definition MinSphericalSampleArea :: Float where
  "MinSphericalSampleArea = Finite (1 / 10000)"

definition MaxSphericalSampleArea :: Float where
  "MaxSphericalSampleArea = Finite 6.28"

definition Triangle_SolidAngle :: "Env \<Rightarrow> Triangle \<Rightarrow> Point3f \<Rightarrow> Float" where
  "Triangle_SolidAngle env T p =
     (let mesh = GetMesh env T;
          i = tri_triIndex T;
          a = Normalize (tri_p mesh i 0 - p);
          b = Normalize (tri_p mesh i 1 - p);
          c = Normalize (tri_p mesh i 2 - p)
      in SphericalTriangleArea env a b c)"


text \<open>
  \<^verbatim>\<open>Triangle::Sample(const ShapeSampleContext &, const Point2f &)\<close>. The debug check
  on the warped sample is not part of the model.
\<close>

definition Triangle_Sample_ctx ::
  "Env \<Rightarrow> Triangle \<Rightarrow> ShapeSampleContext \<Rightarrow> Point2f \<Rightarrow> ShapeSample option" where
  "Triangle_Sample_ctx env T ctx uo =
     (let mesh = GetMesh env T;
          i = tri_triIndex T;
          p0 = tri_p mesh i 0; p1 = tri_p mesh i 1; p2 = tri_p mesh i 2;
          sa = Triangle_SolidAngle env T (ctx_p ctx)
      in if sa < MinSphericalSampleArea \<or> MaxSphericalSampleArea < sa then
           (case Triangle_Sample env T uo of
              None \<Rightarrow> None
            | Some ss0 \<Rightarrow>
                (let ss = ss0\<lparr>ss_intr := (ss_intr ss0)\<lparr>intr_time := ctx_time ctx\<rparr>\<rparr>;
                     wi = intr_p (ss_intr ss) - ctx_p ctx
                 in if feq (LengthSquared wi) (Finite 0) then None
                    else
                      (let wi' = Normalize wi;
                           pdf = ss_pdf ss *
                                 (DistanceSquared (ctx_p ctx) (intr_p (ss_intr ss)) /
                                  AbsDot (intr_n (ss_intr ss)) (- wi'))
                       in if std_isinf pdf then None else Some (ss\<lparr>ss_pdf := pdf\<rparr>))))
         else
           (let warp = \<not> veq (ctx_ns ctx) 0;
                rp = ctx_p ctx;
                wi0 = Normalize (p0 - rp);
                wi1 = Normalize (p1 - rp);
                wi2 = Normalize (p2 - rp);
                w = (std_max (Finite 0.01) (AbsDot (ctx_ns ctx) wi1),
                     std_max (Finite 0.01) (AbsDot (ctx_ns ctx) wi1),
                     std_max (Finite 0.01) (AbsDot (ctx_ns ctx) wi0),
                     std_max (Finite 0.01) (AbsDot (ctx_ns ctx) wi2));
                u = (if warp then SampleBilinear env uo w else uo);
                pdf0 = (if warp then Finite 1 * BilinearPDF env u w else Finite 1);
                (b, triPDF) = SampleSphericalTriangle env (p0, p1, p2) (ctx_p ctx) u
            in if feq triPDF (Finite 0) then None
               else
                 (let pdf = pdf0 * triPDF;
                      n0 = Normalize (Cross (p1 - p0) (p2 - p0));
                      n = (case mesh_n mesh of
                             Some nn \<Rightarrow>
                               FaceForward n0
                                 (bary3 b (nn ! tri_v mesh i 0) (nn ! tri_v mesh i 1)
                                    (nn ! tri_v mesh i 2))
                           | None \<Rightarrow>
                               if mesh_reverseOrientation mesh \<noteq>
                                  mesh_transformSwapsHandedness mesh
                               then - n0 else n0);
                      ps = bary3 b p0 p1 p2;
                      pAbsSum = Abs (scale (fst b) p0) + Abs (scale (fst (snd b)) p1)
                                + Abs (scale (snd (snd b)) p2);
                      pError = scale (gamma (MachineEpsilon env) 6) pAbsSum
                  in Some \<lparr>ss_intr = mkInteraction (Point3fi_err ps pError) n (ctx_time ctx),
                           ss_pdf = pdf\<rparr>)))"

definition Triangle_PDF_ctx :: "Env \<Rightarrow> Triangle \<Rightarrow> ShapeSampleContext \<Rightarrow> Vector3f \<Rightarrow> Float" where
  "Triangle_PDF_ctx env T ctx wi =
     (let sa = Triangle_SolidAngle env T (ctx_p ctx)
      in if sa < MinSphericalSampleArea \<or> MaxSphericalSampleArea < sa then
           (let ray = SpawnRay env ctx wi
            in case Triangle_Intersect env T ray Infinity of
                 None \<Rightarrow> Finite 0
               | Some si \<Rightarrow>
                   (let pdf = DistanceSquared (ctx_p ctx) (intr_p (isect_intr si)) /
                              (AbsDot (intr_n (isect_intr si)) (- wi) * Triangle_Area env T)
                    in if std_isinf pdf then Finite 0 else pdf))
         else if \<not> Triangle_IntersectP env T (SpawnRay env ctx wi) Infinity then Finite 0
         else
           (let pdf = Finite 1 / sa
            in if \<not> veq (ctx_ns ctx) 0 then
                 (let mesh = GetMesh env T;
                      i = tri_triIndex T;
                      p0 = tri_p mesh i 0; p1 = tri_p mesh i 1; p2 = tri_p mesh i 2;
                      rp = ctx_p ctx;
                      wit0 = Normalize (p0 - rp);
                      wit1 = Normalize (p1 - rp);
                      wit2 = Normalize (p2 - rp);
                      w = (std_max (Finite 0.01) (AbsDot (ctx_ns ctx) wit1),
                           std_max (Finite 0.01) (AbsDot (ctx_ns ctx) wit1),
                           std_max (Finite 0.01) (AbsDot (ctx_ns ctx) wit0),
                           std_max (Finite 0.01) (AbsDot (ctx_ns ctx) wit2));
                      u = InvertSphericalTriangleSample env (p0, p1, p2) rp wi
                  in pdf * BilinearPDF env u w)
               else pdf))"

text \<open>The test of the first branch of \<^verbatim>\<open>Triangle::Sample\<close> and \<^verbatim>\<open>Triangle::PDF\<close>.\<close>

definition Triangle_fallback :: "Env \<Rightarrow> Triangle \<Rightarrow> ShapeSampleContext \<Rightarrow> bool" where
  "Triangle_fallback env T ctx =
     (Triangle_SolidAngle env T (ctx_p ctx) < MinSphericalSampleArea
      \<or> MaxSphericalSampleArea < Triangle_SolidAngle env T (ctx_p ctx))"



definition Triangle_vertices :: "Env \<Rightarrow> Triangle \<Rightarrow> Point3f \<times> Point3f \<times> Point3f" where
  "Triangle_vertices env T =
     (tri_p (GetMesh env T) (tri_triIndex T) 0, tri_p (GetMesh env T) (tri_triIndex T) 1,
      tri_p (GetMesh env T) (tri_triIndex T) 2)"



section \<open>Bilinear patch\<close>











definition patch_finite :: "Ray \<Rightarrow> Point3f \<Rightarrow> Point3f \<Rightarrow> Point3f \<Rightarrow> Point3f \<Rightarrow> bool" where
  "patch_finite ray p00 p10 p01 p11 =
     (isFinite3 (ray_o ray) \<and> isFinite3 (ray_d ray)
      \<and> isFinite3 p00 \<and> isFinite3 p10 \<and> isFinite3 p01 \<and> isFinite3 p11)"






section \<open>Concrete instances\<close>

text \<open>
  A transform, an environment and shapes on which the theorems are exercised: the
  identity transform, exact float successors, and the unit sphere and unit disk that
  the parameter defaults of section 6 of the spec give.
\<close>

definition idTransform :: Transform where
  "idTransform =
     \<lparr>applyP = (\<lambda>p. p), applyV = (\<lambda>v. v), applyN = (\<lambda>n. n), applyPi = (\<lambda>q. q),
      applyVi = (\<lambda>q. q), applySI = (\<lambda>s. s), SwapsHandedness = False\<rparr>"

text \<open>\<^verbatim>\<open>Ray(o, d)\<close>: time 0 and no medium.\<close>

definition mkRay :: "Point3f \<Rightarrow> Vector3f \<Rightarrow> Ray" where
  "mkRay p v = \<lparr>ray_o = p, ray_d = v, ray_time = Finite 0, ray_medium = None\<rparr>"

definition V3 :: "real \<Rightarrow> real \<Rightarrow> real \<Rightarrow> Vector3f" where
  "V3 a b c = Vector3f (Finite a) (Finite b) (Finite c)"

definition unitSphere :: Sphere where
  "unitSphere =
     mkSphere idTransform idTransform False (Finite 1) (Finite (-1)) (Finite 1) (Finite 360)"

definition unitDisk :: Disk where
  "unitDisk =
     mkDisk idTransform idTransform False (Finite 0) (Finite 1) (Finite 0) (Finite 360)"

definition unitCylinder :: Cylinder where
  "unitCylinder =
     mkCylinder idTransform idTransform False (Finite 1) (Finite (-1)) (Finite 1) (Finite 360)"

text \<open>The triangle of the scenarios of section 8 of the spec, as a mesh of one triangle.\<close>

definition unitTriangleMesh :: TriangleMesh where
  "unitTriangleMesh =
     \<lparr>mesh_p = [V3 0 0 0, V3 1 0 0, V3 0 1 0],
      mesh_vertexIndices = [0, 1, 2],
      mesh_n = None, mesh_s = None, mesh_uv = None, mesh_faceIndices = None,
      mesh_reverseOrientation = False, mesh_transformSwapsHandedness = False\<rparr>"

definition exampleEnv :: Env where
  "exampleEnv =
     \<lparr>NextFloatUp = (\<lambda>v. v),
      NextFloatDown = (\<lambda>v. v),
      MachineEpsilon = Finite 0,
      CoordinateSystem = (\<lambda>v. (V3 1 0 0, V3 0 1 0)),
      Frame_FromZ = (\<lambda>v. \<lparr>frame_x = V3 1 0 0, frame_y = V3 0 1 0, frame_z = v\<rparr>),
      SampleUniformDiskConcentric = (\<lambda>u. (Finite 0, Finite 0)),
      SampleUniformTriangle = (\<lambda>u. (Finite (1 / 3), Finite (1 / 3), Finite (1 / 3))),
      SampleSphericalTriangle =
        (\<lambda>tri p u. ((Finite (1 / 3), Finite (1 / 3), Finite (1 / 3)), Finite 1)),
      InvertSphericalTriangleSample = (\<lambda>tri p w. (Finite (1 / 2), Finite (1 / 2))),
      SampleBilinear = (\<lambda>u w. u),
      BilinearPDF = (\<lambda>u w. Finite 1),
      SphericalTriangleArea = (\<lambda>a b c. Finite 1),
      SetShadingGeometry = (\<lambda>si ns ss ts dndu dndv auth. si),
      Sphere_Sample = (\<lambda>S u. None),
      Triangle_Intersect = (\<lambda>T r tMax. None),
      Triangle_IntersectP = (\<lambda>T r tMax. False),
      allMeshes = [unitTriangleMesh]\<rparr>"

text \<open>A reference point without error, with normal and shading normal \<open>(0, 0, 1)\<close>.\<close>

definition ctxAt :: "real \<Rightarrow> real \<Rightarrow> real \<Rightarrow> ShapeSampleContext" where
  "ctxAt a b c =
     \<lparr>ctx_pi = Point3fi_of (V3 a b c), ctx_n = V3 0 0 1, ctx_ns = V3 0 0 1,
      ctx_time = Finite 0\<rparr>"

text \<open>
  An environment in which the triangle subtends no solid angle and
  \<^verbatim>\<open>Triangle::Intersect\<close> reports a hit at \<open>(1, 0, 0)\<close> with normal \<open>(0, 0, 1)\<close>: a hit seen
  at grazing incidence from a reference point on the \<open>x\<close> axis.
\<close>

definition grazingEnv :: Env where
  "grazingEnv =
     exampleEnv
       \<lparr>SphericalTriangleArea := (\<lambda>a b c. Finite 0),
        Triangle_Intersect :=
          (\<lambda>T r tMax.
             Some \<lparr>isect_intr =
                     mkSurfaceInteraction (Point3fi_of (V3 1 0 0)) (Finite 0, Finite 0)
                       (V3 (-1) 0 0) (V3 1 0 0) (V3 0 1 0) 0 0 (Finite 0) False 0,
                   isect_tHit = Finite 2\<rparr>)\<rparr>"

text \<open>The ray of the unit-quad example of the bilinear patch.\<close>

definition unitQuadRay :: Ray where
  "unitQuadRay = mkRay (V3 (7/10) (6/10) 1) (V3 0 0 (-1))"



text \<open>
  A reference point on the unit sphere at \<open>(1, 0, 0)\<close> with an error bound of \<open>1/1000\<close>
  along \<open>y\<close> and the tangent normal \<open>(0, 1, 0)\<close>.
\<close>

definition tangentCtx :: ShapeSampleContext where
  "tangentCtx =
     \<lparr>ctx_pi = Point3fi_err (V3 1 0 0) (V3 0 (1 / 1000) 0), ctx_n = V3 0 1 0, ctx_ns = V3 0 1 0,
      ctx_time = Finite 0\<rparr>"

text \<open>
  The triangle of the mesh of \<open>exampleEnv\<close>, and two environments for it. In \<open>hitEnv\<close>
  the triangle subtends the solid angle 1 and every ray hits it. In \<open>centroidEnv\<close> it
  subtends no solid angle and \<^verbatim>\<open>Triangle::Intersect\<close> reports a hit at the centroid
  \<open>(1/3, 1/3, 0)\<close> with normal \<open>(0, 0, 1)\<close>.
\<close>

definition unitTriangle :: Triangle where
  "unitTriangle = \<lparr>tri_meshIndex = 0, tri_triIndex = 0\<rparr>"



section \<open>Arithmetic on finite values\<close>

lemma Finite_minus [simp]: "Finite a - Finite b = Finite (a - b)"
  by (simp add: minus_Float_def)

lemma Float_zero_one [simp]: "(0::Float) = Finite 0" "(1::Float) = Finite 1"
  by (simp_all add: zero_Float_def one_Float_def)

lemma feq_Finite [simp]: "feq (Finite a) (Finite b) = (a = b)"
  by (simp add: feq_def)

lemma vec_simps [simp]:
  "Vector3f a b c + Vector3f d e f = Vector3f (a + d) (b + e) (c + f)"
  "Vector3f a b c - Vector3f d e f = Vector3f (a - d) (b - e) (c - f)"
  "- Vector3f a b c = Vector3f (- a) (- b) (- c)"
  "scale s (Vector3f a b c) = Vector3f (s * a) (s * b) (s * c)"
  "vdiv (Vector3f a b c) s = Vector3f (a / s) (b / s) (c / s)"
  "Dot (Vector3f a b c) (Vector3f d e f) = a * d + b * e + c * f"
  "LengthSquared (Vector3f a b c) = a * a + b * b + c * c"
  by (simp_all add: plus_Vector3f_def minus_Vector3f_def uminus_Vector3f_def scale_def
      vdiv_def Dot_def LengthSquared_def Sqr_def)

lemma Length_Finite:
  "Length (Vector3f (Finite a) (Finite b) (Finite c)) = Finite (sqrt (a * a + b * b + c * c))"
proof -
  have "0 \<le> a * a + b * b + c * c" by simp
  then show ?thesis by (simp add: Length_def not_less)
qed

lemma abs_le_norm3: "\<bar>c\<bar> \<le> sqrt (a * a + b * b + c * c)"
proof -
  have "c * c \<le> a * a + b * b + c * c" by simp
  then have "sqrt (c * c) \<le> sqrt (a * a + b * b + c * c)" by (rule real_sqrt_le_mono)
  then show ?thesis by simp
qed

lemma sumsq3_pos:
  assumes "a \<noteq> 0 \<or> b \<noteq> 0 \<or> c \<noteq> 0"
  shows "0 < a * a + b * b + (c::real) * c"
proof -
  have "a * a + b * b + c * c \<noteq> 0"
    using assms by (simp add: add_nonneg_eq_0_iff)
  moreover have "0 \<le> a * a + b * b + c * c" by simp
  ultimately show ?thesis by linarith
qed

lemma fi_simps [simp]:
  "FI v = FloatInterval v v"
  "FloatInterval a b + FloatInterval c d = FloatInterval (a + c) (b + d)"
  "FloatInterval a b - FloatInterval c d = FloatInterval (a - d) (b - c)"
  by (simp_all add: FI_def plus_FloatInterval_def minus_FloatInterval_def)

lemma fi_times_point [simp]:
  "FloatInterval (Finite a) (Finite a) * FloatInterval (Finite b) (Finite b) =
   FloatInterval (Finite (a * b)) (Finite (a * b))"
  by (simp add: times_FloatInterval_def min4_def max4_def std_min_def std_max_def)

lemma fi_div_point [simp]:
  "b \<noteq> 0 \<Longrightarrow>
   FloatInterval (Finite a) (Finite a) / FloatInterval (Finite b) (Finite b) =
   FloatInterval (Finite (a / b)) (Finite (a / b))"
  by (simp add: divide_FloatInterval_def min4_def max4_def std_min_def std_max_def InRange_def)

lemma Sqr_fi_point [simp]:
  "Sqr_fi (FloatInterval (Finite a) (Finite a)) = FloatInterval (Finite (a * a)) (Finite (a * a))"
  by (auto simp add: Sqr_fi_def Let_def InRange_def)

lemma Sqrt_fi_point [simp]:
  "0 \<le> a \<Longrightarrow>
   Sqrt_fi (FloatInterval (Finite a) (Finite a)) = FloatInterval (Finite (sqrt a)) (Finite (sqrt a))"
  by (simp add: Sqrt_fi_def)

lemma Midpoint_point [simp]: "Midpoint (FloatInterval (Finite a) (Finite a)) = Finite a"
  by (simp add: Midpoint_def)

lemma std_min_Finite [simp]: "std_min (Finite a) (Finite b) = Finite (min a b)"
  by (simp add: std_min_def min_def)

lemma std_max_Finite [simp]: "std_max (Finite a) (Finite b) = Finite (max a b)"
  by (simp add: std_max_def max_def)

lemma fi_times_Finite:
  "FloatInterval (Finite a) (Finite b) * FloatInterval (Finite c) (Finite d) =
   FloatInterval (Finite (min (min (min (a * c) (b * c)) (a * d)) (b * d)))
                 (Finite (max (max (max (a * c) (b * c)) (a * d)) (b * d)))"
  by (simp add: times_FloatInterval_def min4_def max4_def)

lemma fi_div_Finite:
  "\<not> (c \<le> 0 \<and> 0 \<le> d) \<Longrightarrow> c \<noteq> 0 \<Longrightarrow> d \<noteq> 0 \<Longrightarrow>
   FloatInterval (Finite a) (Finite b) / FloatInterval (Finite c) (Finite d) =
   FloatInterval (Finite (min (min (min (a / c) (b / c)) (a / d)) (b / d)))
                 (Finite (max (max (max (a / c) (b / c)) (a / d)) (b / d)))"
  by (simp add: divide_FloatInterval_def min4_def max4_def InRange_def)

lemma Sqr_fi_Finite:
  "Sqr_fi (FloatInterval (Finite a) (Finite b)) =
     (if a \<le> 0 \<and> 0 \<le> b
      then FloatInterval (Finite 0) (Finite (max (abs a) (abs b) * max (abs a) (abs b)))
      else FloatInterval (Finite (min (abs a) (abs b) * min (abs a) (abs b)))
                         (Finite (max (abs a) (abs b) * max (abs a) (abs b))))"
  by (auto simp add: Sqr_fi_def Let_def InRange_def min_def max_def abs_if)

lemma Sqrt_fi_Finite:
  "0 \<le> a \<Longrightarrow> 0 \<le> b \<Longrightarrow>
   Sqrt_fi (FloatInterval (Finite a) (Finite b)) =
   FloatInterval (Finite (sqrt a)) (Finite (sqrt b))"
  by (simp add: Sqrt_fi_def)

lemma Float_less_asym: "a < b \<Longrightarrow> \<not> b < (a::Float)"
  by (cases a; cases b) simp_all

section \<open>The concrete instances, evaluated\<close>

lemma unitSphere_fields:
  "sph_radius unitSphere = Finite 1" "sph_zMin unitSphere = Finite (-1)"
  "sph_zMax unitSphere = Finite 1" "sph_phiMax unitSphere = Finite (2 * pi)"
  "sph_objectFromRender unitSphere = idTransform"
  "sph_renderFromObject unitSphere = idTransform"
  "sph_reverseOrientation unitSphere = False"
  by (simp_all add: unitSphere_def mkSphere_def Clamp_def std_min_def std_max_def
      Radians_def Pi_def)

lemma unitSphere_quadratic:
  "SphereQuadratic unitSphere (Point3fi_of (V3 0 0 (-5))) (Point3fi_of (V3 0 0 1)) =
   Some (FI (Finite 4), FI (Finite 6))"
  by (simp add: SphereQuadratic_def SphereQuadratic_discrim_def SphereQuadratic_a_def
      SphereQuadratic_b_def SphereQuadratic_c_def SphereQuadratic_q_def Let_def
      Point3fi_of_def SumSquares3_def unitSphere_fields V3_def)

text \<open>
  The first scenario of section 8 of the spec: the ray from \<open>(0,0,-5)\<close> along \<open>(0,0,1)\<close>
  hits the unit sphere at \<open>t = 4\<close>; the hit point \<open>(0,0,-1)\<close> has its \<open>x\<close> moved to
  \<open>10\<^sup>-\<^sup>5\<close> to keep \<open>\<phi>\<close> defined.
\<close>

lemma unitSphere_BasicIntersect:
  "Sphere_BasicIntersect unitSphere (mkRay (V3 0 0 (-5)) (V3 0 0 1)) Infinity =
   Some \<lparr>qi_tHit = Finite 4, qi_pObj = V3 (1 / 100000) 0 (-1), qi_phi = Finite 0\<rparr>"
proof -
  have q: "SphereQuadratic unitSphere
             (Point3fi_of (Vector3f (Finite 0) (Finite 0) (Finite (-5))))
             (Point3fi_of (Vector3f (Finite 0) (Finite 0) (Finite 1))) =
           Some (FloatInterval (Finite 4) (Finite 4), FloatInterval (Finite 6) (Finite 6))"
    using unitSphere_quadratic by (simp add: V3_def)
  show ?thesis
    apply (simp add: Sphere_BasicIntersect_def mkRay_def unitSphere_fields idTransform_def
        V3_def q)
    apply (simp add: Sphere_hitPoint_def Sphere_clipped_def Let_def Point3f_of_def
        Point3fi_of_def Ray_at_def Distance_def Length_def zero_Vector3f_def
        unitSphere_fields fi_eq_def atan2_real_def Pi_def)
    done
qed

section \<open>Normal bounds\<close>

lemma Inside_EntireSphere:
  assumes "a \<noteq> 0 \<or> b \<noteq> 0 \<or> c \<noteq> 0"
  shows "Inside EntireSphere (Vector3f (Finite a) (Finite b) (Finite c))"
proof -
  let ?l = "sqrt (a * a + b * b + c * c)"
  have "0 < a * a + b * b + c * c" using assms by (rule sumsq3_pos)
  then have l: "0 < ?l" by simp
  have "\<bar>c\<bar> \<le> ?l" by (rule abs_le_norm3)
  then have "- ?l \<le> c" by linarith
  then have "-1 \<le> c / ?l" using l by (simp add: pos_le_divide_eq)
  then show ?thesis using l
    by (simp add: Inside_def EntireSphere_def IsEmpty_def feq_def Normalize_def Length_Finite)
qed

text \<open>
  Claim C10. \<^verbatim>\<open>Sphere::NormalBounds\<close>, \<^verbatim>\<open>Cylinder::NormalBounds\<close> and
  \<^verbatim>\<open>Curve::NormalBounds\<close> return the entire sphere of directions whatever the shape's
  parameters are, and that cone contains every direction with finite coordinates
  that is not the zero vector, so it contains every normal these shapes return.
\<close>

theorem NormalBounds_EntireSphere:
  assumes "a \<noteq> 0 \<or> b \<noteq> 0 \<or> c \<noteq> 0"
  shows "Sphere_NormalBounds S = EntireSphere
       \<and> Cylinder_NormalBounds C = EntireSphere
       \<and> Curve_NormalBounds cv = EntireSphere
       \<and> Inside (Sphere_NormalBounds S) (Vector3f (Finite a) (Finite b) (Finite c))
       \<and> Inside (Cylinder_NormalBounds C) (Vector3f (Finite a) (Finite b) (Finite c))
       \<and> Inside (Curve_NormalBounds cv) (Vector3f (Finite a) (Finite b) (Finite c))"
  using Inside_EntireSphere [OF assms]
  by (simp add: Sphere_NormalBounds_def Cylinder_NormalBounds_def Curve_NormalBounds_def)

theorem NormalBounds_EntireSphere_witness:
  "Sphere_NormalBounds unitSphere = EntireSphere
   \<and> Cylinder_NormalBounds unitCylinder = EntireSphere
   \<and> Inside (Sphere_NormalBounds (unitSphere\<lparr>sph_zMin := Finite 0, sph_phiMax := Finite 1\<rparr>))
        (Vector3f (Finite 0) (Finite 0) (Finite (-1)))
   \<and> Inside (Cylinder_NormalBounds unitCylinder) (Vector3f (Finite 0) (Finite 0) (Finite (-1)))"
proof -
  have h: "(0::real) \<noteq> 0 \<or> (0::real) \<noteq> 0 \<or> (-1::real) \<noteq> 0" by simp
  show ?thesis
    using NormalBounds_EntireSphere [OF h,
        of "unitSphere\<lparr>sph_zMin := Finite 0, sph_phiMax := Finite 1\<rparr>" unitCylinder]
    by (simp add: Sphere_NormalBounds_def Cylinder_NormalBounds_def)
qed

section \<open>Intersect and IntersectP of the quadrics\<close>



section \<open>Disk intersection\<close>

lemma unitDisk_fields:
  "dsk_height unitDisk = Finite 0" "dsk_radius unitDisk = Finite 1"
  "dsk_innerRadius unitDisk = Finite 0" "dsk_phiMax unitDisk = Finite (2 * pi)"
  "dsk_objectFromRender unitDisk = idTransform"
  "dsk_renderFromObject unitDisk = idTransform"
  "dsk_reverseOrientation unitDisk = False"
  "dsk_transformSwapsHandedness unitDisk = False"
  by (simp_all add: unitDisk_def mkDisk_def Clamp_def Radians_def Pi_def idTransform_def)

text \<open>\<^verbatim>\<open>Disk::BasicIntersect\<close> in terms of its local variables.\<close>

lemma Disk_BasicIntersect_locals:
  "Disk_BasicIntersect D r tMax =
     (if feq (vz (ray_d (Disk_objectRay D r))) (Finite 0)
         \<or> Disk_tShapeHit D r \<le> Finite 0 \<or> tMax \<le> Disk_tShapeHit D r
         \<or> dsk_radius D * dsk_radius D < Disk_dist2 D r
         \<or> Disk_dist2 D r < dsk_innerRadius D * dsk_innerRadius D
         \<or> dsk_phiMax D < Disk_phi D r
      then None
      else Some \<lparr>qi_tHit = Disk_tShapeHit D r, qi_pObj = Disk_pHit D r, qi_phi = Disk_phi D r\<rparr>)"
  by (simp add: Disk_BasicIntersect_def Disk_objectRay_def Disk_tShapeHit_def Disk_pHit_def
      Disk_dist2_def Disk_phi_def Let_def)

lemma sqrt_quarter: "sqrt (1 / 4) = 1 / 2"
  by (simp add: real_sqrt_divide)

lemma arctan_sqrt3: "arctan (sqrt 3) = pi / 3"
proof (rule arctan_unique)
  show "- (pi / 2) < pi / 3" using pi_gt_zero by linarith
  show "pi / 3 < pi / 2" using pi_gt_zero by linarith
  show "tan (pi / 3) = sqrt 3" by (rule tan_60)
qed

lemma arctan_43_bounds: "pi / 4 < arctan (4 / 3)" "arctan (4 / 3) < pi / 3"
proof -
  have "arctan 1 < arctan (4 / 3)" by (rule arctan_monotone) simp
  then show "pi / 4 < arctan (4 / 3)" by (simp add: arctan_one)
  have "(4 / 3 :: real)\<^sup>2 < 3" by (simp add: power2_eq_square)
  then have "4 / 3 < sqrt 3" by (rule real_less_rsqrt)
  then have "arctan (4 / 3) < arctan (sqrt 3)" by (rule arctan_monotone)
  then show "arctan (4 / 3) < pi / 3" by (simp add: arctan_sqrt3)
qed

lemma atan2_04_03: "atan2_real (4 / 10) (3 / 10) = arctan (4 / 3)"
  by (simp add: atan2_real_def)

lemma disk_u_bounds:
  "1 / 8 < atan2_real (4 / 10) (3 / 10) / (2 * pi)"
  "atan2_real (4 / 10) (3 / 10) / (2 * pi) < 1 / 6"
  using arctan_43_bounds by (simp_all only: atan2_04_03) (simp_all add: field_simps)

lemma half_double [simp]: "(v + v) / Finite 2 = (v::Float)"
  by (cases v) simp_all

lemma Point3f_of_Point3fi_of [simp]: "Point3f_of (Point3fi_of p) = p"
  by (cases p) (simp add: Point3f_of_def Point3fi_of_def Midpoint_def)

lemma unitDisk_objectRay: "Disk_objectRay unitDisk (mkRay p v) = mkRay p v"
  by (simp add: Disk_objectRay_def unitDisk_fields idTransform_def mkRay_def)

lemma unitDisk_example_locals:
  "Disk_tShapeHit unitDisk (mkRay (V3 (3 / 10) (4 / 10) 1) (V3 0 0 (-1))) = Finite 1"
  "Disk_pHit unitDisk (mkRay (V3 (3 / 10) (4 / 10) 1) (V3 0 0 (-1))) = V3 (3 / 10) (4 / 10) 0"
  "Disk_dist2 unitDisk (mkRay (V3 (3 / 10) (4 / 10) 1) (V3 0 0 (-1))) = Finite (1 / 4)"
  "Disk_phi unitDisk (mkRay (V3 (3 / 10) (4 / 10) 1) (V3 0 0 (-1))) =
   Finite (atan2_real (4 / 10) (3 / 10))"
  by (simp_all only: Disk_tShapeHit_def Disk_pHit_def Disk_dist2_def Disk_phi_def
        unitDisk_objectRay atan2_04_03)
     (simp_all add: mkRay_def V3_def unitDisk_fields Ray_at_def atan2_real_def Let_def)

lemma unitDisk_example_basic:
  "Disk_BasicIntersect unitDisk (mkRay (V3 (3 / 10) (4 / 10) 1) (V3 0 0 (-1))) Infinity =
   Some \<lparr>qi_tHit = Finite 1, qi_pObj = V3 (3 / 10) (4 / 10) 0,
           qi_phi = Finite (atan2_real (4 / 10) (3 / 10))\<rparr>"
  apply (simp only: Disk_BasicIntersect_locals unitDisk_example_locals unitDisk_objectRay
      atan2_04_03)
  using arctan_43_bounds(2)
  apply (simp add: unitDisk_fields mkRay_def V3_def not_less)
  using pi_gt_zero apply linarith
  done

lemma unitDisk_example_intersect:
  "map_option (\<lambda>si. (isect_tHit si, Point3f_of (intr_pi (isect_intr si)), intr_uv (isect_intr si)))
     (Disk_Intersect unitDisk (mkRay (V3 (3 / 10) (4 / 10) 1) (V3 0 0 (-1))) Infinity) =
   Some (Finite 1, V3 (3 / 10) (4 / 10) 0,
         (Finite (atan2_real (4 / 10) (3 / 10) / (2 * pi)), Finite (1 / 2)))"
  apply (simp only: Disk_Intersect_def unitDisk_example_basic atan2_04_03)
  apply (simp add: Disk_InteractionFromIntersection_def Let_def unitDisk_fields
     idTransform_def mkSurfaceInteraction_def V3_def Point3fi_err_def FromValueAndError_def
     Point3f_of_def sqrt_quarter)
  done

text \<open>
  Claim C8, as amended. For the unit disk (height 0, radius 1, inner radius 0,
  \<open>\<phi>\<^sub>m\<^sub>a\<^sub>x = 2\<pi>\<close>) and the ray from \<open>(0.3, 0.4, 1)\<close> along \<open>(0, 0, -1)\<close>, \<^verbatim>\<open>Intersect\<close>
  returns \<open>tHit = 1\<close>, the object-space hit point \<open>(0.3, 0.4, 0)\<close>,
  \<open>u = atan2(0.4, 0.3) / (2\<pi>)\<close>, which lies strictly between \<open>1/8\<close> and \<open>1/6\<close>, and
  \<open>v = 0.5\<close>. For every disk, ray and \<open>tMax\<close>, \<^verbatim>\<open>BasicIntersect\<close> returns no intersection
  exactly when the object-space ray has \<open>d.z = 0\<close>, or the plane hit has \<open>t \<le> 0\<close> or
  \<open>t \<ge> tMax\<close>, or the hit point is outside the radial or azimuthal bounds.
\<close>

theorem Disk_Intersect_example_and_misses:
  "map_option (\<lambda>si. (isect_tHit si, Point3f_of (intr_pi (isect_intr si)), intr_uv (isect_intr si)))
     (Disk_Intersect unitDisk (mkRay (V3 (3 / 10) (4 / 10) 1) (V3 0 0 (-1))) Infinity) =
   Some (Finite 1, V3 (3 / 10) (4 / 10) 0,
         (Finite (atan2_real (4 / 10) (3 / 10) / (2 * pi)), Finite (1 / 2)))
   \<and> 1 / 8 < atan2_real (4 / 10) (3 / 10) / (2 * pi)
   \<and> atan2_real (4 / 10) (3 / 10) / (2 * pi) < 1 / 6
   \<and> (Disk_BasicIntersect D r tMax = None) =
       (feq (vz (ray_d (Disk_objectRay D r))) (Finite 0)
        \<or> Disk_tShapeHit D r \<le> Finite 0 \<or> tMax \<le> Disk_tShapeHit D r
        \<or> dsk_radius D * dsk_radius D < Disk_dist2 D r
        \<or> Disk_dist2 D r < dsk_innerRadius D * dsk_innerRadius D
        \<or> dsk_phiMax D < Disk_phi D r)"
  using unitDisk_example_intersect disk_u_bounds
  by (simp only: Disk_BasicIntersect_locals) simp

theorem Disk_Intersect_example_and_misses_witness:
  "Disk_BasicIntersect unitDisk (mkRay (V3 (3 / 10) (4 / 10) 1) (V3 1 0 0)) Infinity = None
   \<and> Disk_BasicIntersect unitDisk (mkRay (V3 (3 / 10) (4 / 10) 1) (V3 0 0 (-1))) (Finite 1) = None
   \<and> Disk_BasicIntersect unitDisk (mkRay (V3 3 4 1) (V3 0 0 (-1))) Infinity = None"
proof -
  have a: "feq (vz (ray_d (Disk_objectRay unitDisk (mkRay (V3 (3 / 10) (4 / 10) 1) (V3 1 0 0)))))
             (Finite 0)"
    by (simp only: unitDisk_objectRay) (simp add: mkRay_def V3_def)
  have b: "Finite 1 \<le> Disk_tShapeHit unitDisk (mkRay (V3 (3 / 10) (4 / 10) 1) (V3 0 0 (-1)))"
    by (simp only: unitDisk_example_locals) simp
  have c: "dsk_radius unitDisk * dsk_radius unitDisk <
           Disk_dist2 unitDisk (mkRay (V3 3 4 1) (V3 0 0 (-1)))"
    by (simp only: Disk_dist2_def Disk_pHit_def Disk_tShapeHit_def unitDisk_objectRay)
       (simp add: mkRay_def V3_def unitDisk_fields Ray_at_def)
  show ?thesis
    using a b c
      Disk_Intersect_example_and_misses
        [of unitDisk "mkRay (V3 (3 / 10) (4 / 10) 1) (V3 1 0 0)" Infinity]
      Disk_Intersect_example_and_misses
        [of unitDisk "mkRay (V3 (3 / 10) (4 / 10) 1) (V3 0 0 (-1))" "Finite 1"]
      Disk_Intersect_example_and_misses
        [of unitDisk "mkRay (V3 3 4 1) (V3 0 0 (-1))" Infinity]
    by blast
qed

text \<open>
  Claim C8 as stated gives \<open>u \<approx> 0.1762\<close> for this hit. The code returns
  \<open>u = atan2(0.4, 0.3) / (2\<pi>)\<close>, which is below \<open>1/6\<close> and so further than \<open>0.005\<close> from
  \<open>0.1762\<close>.
\<close>

theorem Disk_Intersect_example_u_counterexample:
  "map_option (\<lambda>si. fst (intr_uv (isect_intr si)))
     (Disk_Intersect unitDisk (mkRay (V3 (3 / 10) (4 / 10) 1) (V3 0 0 (-1))) Infinity) =
   Some (Finite (atan2_real (4 / 10) (3 / 10) / (2 * pi)))
   \<and> \<not> \<bar>atan2_real (4 / 10) (3 / 10) / (2 * pi) - 1762 / 10000\<bar> \<le> 5 / 1000"
proof -
  have "map_option (\<lambda>si. fst (intr_uv (isect_intr si)))
     (Disk_Intersect unitDisk (mkRay (V3 (3 / 10) (4 / 10) 1) (V3 0 0 (-1))) Infinity) =
     map_option (\<lambda>t. fst (snd (snd t)))
      (map_option (\<lambda>si. (isect_tHit si, Point3f_of (intr_pi (isect_intr si)), intr_uv (isect_intr si)))
        (Disk_Intersect unitDisk (mkRay (V3 (3 / 10) (4 / 10) 1) (V3 0 0 (-1))) Infinity))"
    by (simp only: option.map_comp comp_def) simp
  then have "map_option (\<lambda>si. fst (intr_uv (isect_intr si)))
     (Disk_Intersect unitDisk (mkRay (V3 (3 / 10) (4 / 10) 1) (V3 0 0 (-1))) Infinity) =
     Some (Finite (atan2_real (4 / 10) (3 / 10) / (2 * pi)))"
    by (simp only: unitDisk_example_intersect) simp
  moreover have "\<not> \<bar>atan2_real (4 / 10) (3 / 10) / (2 * pi) - 1762 / 10000\<bar> \<le> 5 / 1000"
    using disk_u_bounds(2) by linarith
  ultimately show ?thesis by blast
qed


section \<open>The sphere quadratic\<close>

lemma SphereQuadratic_cases:
  "SphereQuadratic S o' d =
     (if LowerBound (SphereQuadratic_discrim S o' d) < Finite 0 then None
      else if LowerBound (SphereQuadratic_c S o' / SphereQuadratic_q S o' d)
              < LowerBound (SphereQuadratic_q S o' d / SphereQuadratic_a d)
           then Some (SphereQuadratic_c S o' / SphereQuadratic_q S o' d,
                      SphereQuadratic_q S o' d / SphereQuadratic_a d)
           else Some (SphereQuadratic_q S o' d / SphereQuadratic_a d,
                      SphereQuadratic_c S o' / SphereQuadratic_q S o' d))"
  by (simp add: SphereQuadratic_def Let_def)

lemma SphereQuadratic_None_iff:
  "(SphereQuadratic S o' d = None) = (LowerBound (SphereQuadratic_discrim S o' d) < Finite 0)"
  by (simp add: SphereQuadratic_cases)

lemma SphereQuadratic_Some:
  assumes "\<not> LowerBound (SphereQuadratic_discrim S o' d) < Finite 0"
  shows "\<exists>t0 t1. SphereQuadratic S o' d = Some (t0, t1) \<and> \<not> LowerBound t1 < LowerBound t0
           \<and> ((t0 = SphereQuadratic_q S o' d / SphereQuadratic_a d
                \<and> t1 = SphereQuadratic_c S o' / SphereQuadratic_q S o' d)
              \<or> (t0 = SphereQuadratic_c S o' / SphereQuadratic_q S o' d
                \<and> t1 = SphereQuadratic_q S o' d / SphereQuadratic_a d))"
  using assms by (auto simp: SphereQuadratic_cases Float_less_asym)

lemma Sphere_BasicIntersect_root:
  assumes "Sphere_BasicIntersect S r tMax = Some qi"
  shows "\<exists>t0 t1.
           SphereQuadratic S (applyPi (sph_objectFromRender S) (Point3fi_of (ray_o r)))
             (applyVi (sph_objectFromRender S) (Point3fi_of (ray_d r))) = Some (t0, t1)
           \<and> ((qi_tHit qi = Midpoint t0 \<and> \<not> LowerBound t0 \<le> Finite 0
                \<and> \<not> tMax < UpperBound t0)
              \<or> (qi_tHit qi = Midpoint t1 \<and> \<not> LowerBound t1 \<le> Finite 0
                \<and> \<not> tMax < UpperBound t1))"
  using assms
  unfolding Sphere_BasicIntersect_def Let_def
  by (auto split: option.splits if_splits prod.splits)

text \<open>
  Claim C4, as amended. \<^verbatim>\<open>SphereQuadratic\<close> returns nothing exactly when the
  \<^emph>\<open>lower\<close> bound of the discriminant interval is negative. Otherwise it computes
  \<open>q = -\<onehalf>(b - \<surd>disc)\<close> when the midpoint of \<open>b\<close> is negative and \<open>q = -\<onehalf>(b + \<surd>disc)\<close>
  when it is not, and returns the roots \<open>q/a\<close> and \<open>c/q\<close> ordered by their lower bounds.
  Whenever \<^verbatim>\<open>BasicIntersect\<close> returns an intersection, its \<open>tHit\<close> is the midpoint of one
  of the two roots, and that root has passed the tests against \<open>(0, tMax]\<close>: its lower
  bound is not \<open>\<le> 0\<close> and its upper bound is not \<open>> tMax\<close>.
\<close>

theorem SphereQuadratic_roots:
  "(SphereQuadratic S o' d = None) = (LowerBound (SphereQuadratic_discrim S o' d) < Finite 0)
   \<and> (\<not> LowerBound (SphereQuadratic_discrim S o' d) < Finite 0 \<longrightarrow>
        (\<exists>t0 t1. SphereQuadratic S o' d = Some (t0, t1) \<and> \<not> LowerBound t1 < LowerBound t0
           \<and> ((t0 = SphereQuadratic_q S o' d / SphereQuadratic_a d
                \<and> t1 = SphereQuadratic_c S o' / SphereQuadratic_q S o' d)
              \<or> (t0 = SphereQuadratic_c S o' / SphereQuadratic_q S o' d
                \<and> t1 = SphereQuadratic_q S o' d / SphereQuadratic_a d))))
   \<and> SphereQuadratic_q S o' d =
       FI (Finite (- (1 / 2))) *
       (if Midpoint (SphereQuadratic_b o' d) < Finite 0
        then SphereQuadratic_b o' d - Sqrt_fi (SphereQuadratic_discrim S o' d)
        else SphereQuadratic_b o' d + Sqrt_fi (SphereQuadratic_discrim S o' d))
   \<and> (Sphere_BasicIntersect S r tMax = Some qi \<longrightarrow>
        (\<exists>t0 t1.
           SphereQuadratic S (applyPi (sph_objectFromRender S) (Point3fi_of (ray_o r)))
             (applyVi (sph_objectFromRender S) (Point3fi_of (ray_d r))) = Some (t0, t1)
           \<and> ((qi_tHit qi = Midpoint t0 \<and> \<not> LowerBound t0 \<le> Finite 0
                \<and> \<not> tMax < UpperBound t0)
              \<or> (qi_tHit qi = Midpoint t1 \<and> \<not> LowerBound t1 \<le> Finite 0
                \<and> \<not> tMax < UpperBound t1))))"
proof (intro conjI impI)
  show "(SphereQuadratic S o' d = None) = (LowerBound (SphereQuadratic_discrim S o' d) < Finite 0)"
    by (rule SphereQuadratic_None_iff)
  show "SphereQuadratic_q S o' d =
       FI (Finite (- (1 / 2))) *
       (if Midpoint (SphereQuadratic_b o' d) < Finite 0
        then SphereQuadratic_b o' d - Sqrt_fi (SphereQuadratic_discrim S o' d)
        else SphereQuadratic_b o' d + Sqrt_fi (SphereQuadratic_discrim S o' d))"
    by (simp add: SphereQuadratic_q_def Let_def)
qed (erule SphereQuadratic_Some, erule Sphere_BasicIntersect_root)

theorem SphereQuadratic_roots_witness:
  "\<not> LowerBound (SphereQuadratic_discrim unitSphere (Point3fi_of (V3 0 0 (-5)))
        (Point3fi_of (V3 0 0 1))) < Finite 0
   \<and> SphereQuadratic unitSphere (Point3fi_of (V3 0 0 (-5))) (Point3fi_of (V3 0 0 1)) =
       Some (FI (Finite 4), FI (Finite 6))
   \<and> Sphere_BasicIntersect unitSphere (mkRay (V3 0 0 (-5)) (V3 0 0 1)) Infinity =
       Some \<lparr>qi_tHit = Midpoint (FI (Finite 4)), qi_pObj = V3 (1 / 100000) 0 (-1),
             qi_phi = Finite 0\<rparr>"
  using SphereQuadratic_roots [of unitSphere "Point3fi_of (V3 0 0 (-5))" "Point3fi_of (V3 0 0 1)"]
    unitSphere_quadratic unitSphere_BasicIntersect
  by simp

lemma sqrt_81_100: "sqrt (81 / 100) = 9 / 10"
  by (rule real_sqrt_unique) (simp_all add: power2_eq_square)

lemma sqrt_121_100: "sqrt (121 / 100) = 11 / 10"
  by (rule real_sqrt_unique) (simp_all add: power2_eq_square)

lemma tangent_a: "SphereQuadratic_a (Point3fi_of (V3 1 0 0)) = FI (Finite 1)"
  by (simp add: SphereQuadratic_a_def Point3fi_of_def V3_def SumSquares3_def)

lemma tangent_b:
  "SphereQuadratic_b
     (Point3fi (FI (Finite (-5))) (FloatInterval (Finite (9 / 10)) (Finite (11 / 10)))
        (FI (Finite 0)))
     (Point3fi_of (V3 1 0 0)) = FI (Finite (-10))"
  by (simp add: SphereQuadratic_b_def Point3fi_of_def V3_def fi_times_Finite)

lemma tangent_discrim:
  "SphereQuadratic_discrim unitSphere
     (Point3fi (FI (Finite (-5))) (FloatInterval (Finite (9 / 10)) (Finite (11 / 10)))
        (FI (Finite 0)))
     (Point3fi_of (V3 1 0 0)) = FloatInterval (Finite (- 84 / 100)) (Finite (84 / 100))"
  apply (simp only: SphereQuadratic_discrim_def tangent_a tangent_b Let_def)
  apply (simp add: unitSphere_fields Point3fi_of_def V3_def SumSquares3_def fi_times_Finite
     fi_div_Finite Sqr_fi_Finite Sqrt_fi_Finite sqrt_81_100 sqrt_121_100)
  done

text \<open>
  Claim C4 as stated lets the solver return nothing only when the \<^emph>\<open>upper\<close> bound of the
  discriminant is negative. For the unit sphere and the ray along \<open>(1, 0, 0)\<close> whose
  origin is \<open>(-5, y, 0)\<close> with \<open>y\<close> known to lie in \<open>[0.9, 1.1]\<close>, the discriminant interval
  is \<open>[-0.84, 0.84]\<close>: its upper bound is not negative, and the solver returns nothing.
\<close>

theorem SphereQuadratic_upper_bound_counterexample:
  "SphereQuadratic_discrim unitSphere
     (Point3fi (FI (Finite (-5))) (FloatInterval (Finite (9 / 10)) (Finite (11 / 10)))
        (FI (Finite 0)))
     (Point3fi_of (V3 1 0 0)) = FloatInterval (Finite (- 84 / 100)) (Finite (84 / 100))
   \<and> \<not> UpperBound (SphereQuadratic_discrim unitSphere
        (Point3fi (FI (Finite (-5))) (FloatInterval (Finite (9 / 10)) (Finite (11 / 10)))
           (FI (Finite 0)))
        (Point3fi_of (V3 1 0 0))) < Finite 0
   \<and> SphereQuadratic unitSphere
        (Point3fi (FI (Finite (-5))) (FloatInterval (Finite (9 / 10)) (Finite (11 / 10)))
           (FI (Finite 0)))
        (Point3fi_of (V3 1 0 0)) = None"
  by (simp only: SphereQuadratic_None_iff tangent_discrim) simp

section \<open>The density of the sphere seen from outside\<close>

lemma notNegative_square: "notNegative (v * v)"
  by (cases v) simp_all

lemma notNegative_add: "notNegative a \<Longrightarrow> notNegative b \<Longrightarrow> notNegative (a + b)"
  by (cases a; cases b) simp_all

lemma notNegative_divide: "notNegative a \<Longrightarrow> notNegative b \<Longrightarrow> notNegative (a / b)"
  by (cases a; cases b) simp_all

lemma notNegative_LengthSquared: "notNegative (LengthSquared v)"
  by (simp add: LengthSquared_def Sqr_def notNegative_square notNegative_add)

lemma notNegative_sinThetaMax2: "notNegative (Sphere_PDF_sinThetaMax2 S ctx)"
  by (simp add: Sphere_PDF_sinThetaMax2_def DistanceSquared_def notNegative_divide
      notNegative_square notNegative_LengthSquared)

lemma cone_density_positive:
  assumes "notNegative s2"
  shows "Finite 0 < Finite 1 / (Finite 2 * Pi *
           (if s2 < Finite 0.00068523 then s2 / Finite 2
            else Finite 1 - SafeSqrt (Finite 1 - s2)))"
proof (cases s2)
  case (Finite s)
  with assms have s: "0 \<le> s" by simp
  show ?thesis
  proof (cases "s < 0.00068523")
    case True
    then show ?thesis using s Finite by (simp add: Pi_def)
  next
    case False
    then have "0 < s" by simp
    then have "max 0 (1 - s) < 1" by simp
    then have "sqrt (max 0 (1 - s)) < 1" by simp
    then show ?thesis using False Finite
      by (simp add: Pi_def SafeSqrt_def not_less)
  qed
next
  case Infinity
  then show ?thesis by (simp add: Pi_def SafeSqrt_def std_max_def minus_Float_def)
next
  case NegInfinity
  with assms show ?thesis by simp
next
  case NaN
  then show ?thesis by (simp add: Pi_def SafeSqrt_def std_max_def minus_Float_def)
qed

lemma Float_less_not_le: "a < b \<Longrightarrow> \<not> b \<le> (a::Float)"
  by (cases a; cases b) simp_all

lemma Sphere_PDF_ctx_outside:
  assumes "\<not> DistanceSquared (OffsetRayOrigin_pt env ctx (applyP (sph_renderFromObject S) 0))
              (applyP (sph_renderFromObject S) 0) \<le> sph_radius S * sph_radius S"
  shows "Sphere_PDF_ctx env S ctx wi =
         Finite 1 / (Finite 2 * Pi * Sphere_PDF_oneMinusCosThetaMax S ctx)"
  using assms
  by (simp add: Sphere_PDF_ctx_def Let_def Sphere_PDF_oneMinusCosThetaMax_def
      Sphere_PDF_sinThetaMax2_def)

text \<open>
  Claim C9. When the offset reference point \<^verbatim>\<open>ctx.OffsetRayOrigin(pCenter)\<close> is strictly
  outside the sphere, \<^verbatim>\<open>Sphere::PDF(ctx, wi)\<close> is the cone density
  \<open>1 / (2\<pi> (1 - cos\<theta>\<^sub>m\<^sub>a\<^sub>x))\<close>, where \<open>1 - cos\<theta>\<^sub>m\<^sub>a\<^sub>x\<close> is the variable \<^verbatim>\<open>oneMinusCosThetaMax\<close> of
  the code: \<open>1 - \<surd>(1 - sin\<^sup>2\<theta>\<^sub>m\<^sub>a\<^sub>x)\<close> with \<open>sin\<^sup>2\<theta>\<^sub>m\<^sub>a\<^sub>x = r\<^sup>2 / |ctx.p - c|\<^sup>2\<close>, computed as
  \<open>sin\<^sup>2\<theta>\<^sub>m\<^sub>a\<^sub>x / 2\<close> when \<open>sin\<^sup>2\<theta>\<^sub>m\<^sub>a\<^sub>x < 0.00068523\<close>. The value is the same for every
  direction \<open>wi\<close>, and it is strictly positive: no intersection is computed in this
  branch.
\<close>

theorem Sphere_PDF_outside_cone_density:
  assumes "sph_radius S * sph_radius S <
           DistanceSquared (OffsetRayOrigin_pt env ctx (applyP (sph_renderFromObject S) 0))
             (applyP (sph_renderFromObject S) 0)"
  shows "Sphere_PDF_ctx env S ctx wi =
           Finite 1 / (Finite 2 * Pi * Sphere_PDF_oneMinusCosThetaMax S ctx)
       \<and> Sphere_PDF_ctx env S ctx wi = Sphere_PDF_ctx env S ctx wi'
       \<and> Finite 0 < Sphere_PDF_ctx env S ctx wi"
proof -
  have out: "\<not> DistanceSquared (OffsetRayOrigin_pt env ctx (applyP (sph_renderFromObject S) 0))
                 (applyP (sph_renderFromObject S) 0) \<le> sph_radius S * sph_radius S"
    using assms by (rule Float_less_not_le)
  have v: "Sphere_PDF_ctx env S ctx w =
           Finite 1 / (Finite 2 * Pi * Sphere_PDF_oneMinusCosThetaMax S ctx)" for w
    using out by (rule Sphere_PDF_ctx_outside)
  have "Finite 0 < Finite 1 / (Finite 2 * Pi * Sphere_PDF_oneMinusCosThetaMax S ctx)"
    unfolding Sphere_PDF_oneMinusCosThetaMax_def
    using notNegative_sinThetaMax2 by (rule cone_density_positive)
  then show ?thesis by (simp add: v)
qed

lemma Error_Point3fi_of [simp]: "Error (Point3fi_of (V3 a b c)) = V3 0 0 0"
  by (simp add: Error_def Point3fi_of_def Width_def V3_def)

lemma unitSphere_miss:
  "Sphere_Intersect exampleEnv unitSphere (mkRay (V3 0 0 (-5)) (V3 1 0 0)) Infinity = None"
proof -
  have d: "SphereQuadratic_discrim unitSphere
             (Point3fi_of (Vector3f (Finite 0) (Finite 0) (Finite (-5))))
             (Point3fi_of (Vector3f (Finite 1) (Finite 0) (Finite 0))) = FI (Finite (-96))"
    by (simp add: SphereQuadratic_discrim_def SphereQuadratic_a_def SphereQuadratic_b_def
        Let_def Point3fi_of_def SumSquares3_def unitSphere_fields)
  have "SphereQuadratic unitSphere
          (Point3fi_of (Vector3f (Finite 0) (Finite 0) (Finite (-5))))
          (Point3fi_of (Vector3f (Finite 1) (Finite 0) (Finite 0))) = None"
    by (simp only: SphereQuadratic_None_iff d) simp
  then show ?thesis
    by (simp add: Sphere_Intersect_def Sphere_BasicIntersect_def mkRay_def V3_def
        unitSphere_fields idTransform_def)
qed

theorem Sphere_PDF_outside_cone_density_witness:
  "Sphere_Intersect exampleEnv unitSphere (mkRay (V3 0 0 (-5)) (V3 1 0 0)) Infinity = None
   \<and> Sphere_PDF_ctx exampleEnv unitSphere
        \<lparr>ctx_pi = Point3fi_of (V3 0 0 (-5)), ctx_n = V3 0 0 1, ctx_ns = V3 0 0 1,
          ctx_time = Finite 0\<rparr> (V3 1 0 0) =
      Finite (1 / (2 * pi * (1 - sqrt (24 / 25))))
   \<and> Finite 0 < Sphere_PDF_ctx exampleEnv unitSphere
        \<lparr>ctx_pi = Point3fi_of (V3 0 0 (-5)), ctx_n = V3 0 0 1, ctx_ns = V3 0 0 1,
          ctx_time = Finite 0\<rparr> (V3 1 0 0)"
proof -
  let ?ctx = "\<lparr>ctx_pi = Point3fi_of (V3 0 0 (-5)), ctx_n = V3 0 0 1, ctx_ns = V3 0 0 1,
               ctx_time = Finite 0\<rparr>"
  have o: "OffsetRayOrigin_pt exampleEnv ?ctx (applyP (sph_renderFromObject unitSphere) 0) =
           V3 0 0 (-5)"
    by (simp add: OffsetRayOrigin_pt_def OffsetRayOrigin_def Let_def Abs_def roundAway_def
        ctx_p_def) (simp add: V3_def)
  have h: "sph_radius unitSphere * sph_radius unitSphere <
           DistanceSquared (OffsetRayOrigin_pt exampleEnv ?ctx
              (applyP (sph_renderFromObject unitSphere) 0))
             (applyP (sph_renderFromObject unitSphere) 0)"
    by (simp only: o)
       (simp add: unitSphere_fields idTransform_def V3_def DistanceSquared_def
          zero_Vector3f_def)
  have om: "Sphere_PDF_oneMinusCosThetaMax unitSphere ?ctx = Finite (1 - sqrt (24 / 25))"
    by (simp add: Sphere_PDF_oneMinusCosThetaMax_def Sphere_PDF_sinThetaMax2_def
        unitSphere_fields idTransform_def ctx_p_def V3_def DistanceSquared_def
        zero_Vector3f_def SafeSqrt_def)
  have nz: "2 * pi * (1 - sqrt (24 / 25)) \<noteq> 0"
  proof -
    have "sqrt (24 / 25) < 1" by simp
    then show ?thesis by simp
  qed
  show ?thesis
    using Sphere_PDF_outside_cone_density [OF h, of "V3 1 0 0" "V3 1 0 0"] unitSphere_miss nz
    by (simp add: om Pi_def)
qed

section \<open>The conversion of a density to the solid-angle measure\<close>

text \<open>Each method in terms of the value of the conversion.\<close>

lemma intr_p_withTime [simp]: "intr_p (ss_intr (withTime ss t)) = intr_p (ss_intr ss)"
  by (simp add: withTime_def intr_p_def)

lemma Disk_PDF_ctx_cases:
  "Disk_PDF_ctx env D ctx wi =
     (case Disk_Intersect D (SpawnRay env ctx wi) Infinity of
        None \<Rightarrow> Finite 0
      | Some si \<Rightarrow>
          if std_isinf (solidAnglePdf_PDF (ctx_p ctx) si wi (Disk_Area D)) then Finite 0
          else solidAnglePdf_PDF (ctx_p ctx) si wi (Disk_Area D))"
  by (simp add: Disk_PDF_ctx_def solidAnglePdf_PDF_def Let_def split: option.split)

lemma Cylinder_PDF_ctx_cases:
  "Cylinder_PDF_ctx env C ctx wi =
     (case Cylinder_Intersect env C (SpawnRay env ctx wi) Infinity of
        None \<Rightarrow> Finite 0
      | Some si \<Rightarrow>
          if std_isinf (solidAnglePdf_PDF (ctx_p ctx) si wi (Cylinder_Area C)) then Finite 0
          else solidAnglePdf_PDF (ctx_p ctx) si wi (Cylinder_Area C))"
  by (simp add: Cylinder_PDF_ctx_def solidAnglePdf_PDF_def Let_def split: option.split)

lemma Triangle_PDF_ctx_fallback:
  assumes "Triangle_fallback env T ctx"
  shows "Triangle_PDF_ctx env T ctx wi =
     (case Triangle_Intersect env T (SpawnRay env ctx wi) Infinity of
        None \<Rightarrow> Finite 0
      | Some si \<Rightarrow>
          if std_isinf (solidAnglePdf_PDF (ctx_p ctx) si wi (Triangle_Area env T)) then Finite 0
          else solidAnglePdf_PDF (ctx_p ctx) si wi (Triangle_Area env T))"
  using assms
  by (simp add: Triangle_PDF_ctx_def Triangle_fallback_def solidAnglePdf_PDF_def Let_def
      split: option.split)

lemma Sphere_PDF_ctx_inside:
  assumes "Sphere_inside env S ctx"
  shows "Sphere_PDF_ctx env S ctx wi =
     (case Sphere_Intersect env S
             \<lparr>ray_o = Sphere_pOrigin env S ctx, ray_d = wi, ray_time = Finite 0,
               ray_medium = None\<rparr> Infinity of
        None \<Rightarrow> Finite 0
      | Some si \<Rightarrow>
          if std_isinf (solidAnglePdf_PDF (Sphere_pOrigin env S ctx) si wi (Sphere_Area S))
          then Finite 0
          else solidAnglePdf_PDF (Sphere_pOrigin env S ctx) si wi (Sphere_Area S))"
  using assms
  by (simp add: Sphere_PDF_ctx_def Sphere_inside_def Sphere_pOrigin_def solidAnglePdf_PDF_def
      Let_def split: option.split)

text \<open>The conversion in the Sample methods, after the area sample \<open>ss\<close> has been drawn.\<close>

lemma Disk_Sample_ctx_cases:
  "Disk_Sample_ctx env D ctx u =
     (case Disk_Sample env D u of
        None \<Rightarrow> None
      | Some ss0 \<Rightarrow>
          if feq (LengthSquared (intr_p (ss_intr ss0) - ctx_p ctx)) (Finite 0) then None
          else if std_isinf (solidAnglePdf_Sample ctx (withTime ss0 (ctx_time ctx))) then None
          else Some ((withTime ss0 (ctx_time ctx))
                 \<lparr>ss_pdf := solidAnglePdf_Sample ctx (withTime ss0 (ctx_time ctx))\<rparr>))"
  by (simp add: Disk_Sample_ctx_def solidAnglePdf_Sample_def Let_def withTime_def intr_p_def
      split: option.split)

lemma Cylinder_Sample_ctx_cases:
  "Cylinder_Sample_ctx env C ctx u =
     (case Cylinder_Sample env C u of
        None \<Rightarrow> None
      | Some ss0 \<Rightarrow>
          if feq (LengthSquared (intr_p (ss_intr ss0) - ctx_p ctx)) (Finite 0) then None
          else if std_isinf (solidAnglePdf_Sample ctx (withTime ss0 (ctx_time ctx))) then None
          else Some ((withTime ss0 (ctx_time ctx))
                 \<lparr>ss_pdf := solidAnglePdf_Sample ctx (withTime ss0 (ctx_time ctx))\<rparr>))"
  by (simp add: Cylinder_Sample_ctx_def solidAnglePdf_Sample_def Let_def withTime_def intr_p_def
      split: option.split)

lemma Triangle_Sample_ctx_fallback:
  assumes "Triangle_fallback env T ctx"
  shows "Triangle_Sample_ctx env T ctx u =
     (case Triangle_Sample env T u of
        None \<Rightarrow> None
      | Some ss0 \<Rightarrow>
          if feq (LengthSquared (intr_p (ss_intr ss0) - ctx_p ctx)) (Finite 0) then None
          else if std_isinf (solidAnglePdf_Sample ctx (withTime ss0 (ctx_time ctx))) then None
          else Some ((withTime ss0 (ctx_time ctx))
                 \<lparr>ss_pdf := solidAnglePdf_Sample ctx (withTime ss0 (ctx_time ctx))\<rparr>))"
  using assms
  by (simp add: Triangle_Sample_ctx_def Triangle_fallback_def solidAnglePdf_Sample_def Let_def
      withTime_def intr_p_def split: option.split)

lemma Sphere_Sample_ctx_inside:
  assumes "Sphere_inside env S ctx"
  shows "Sphere_Sample_ctx env S ctx u =
     (case Sphere_Sample env S u of
        None \<Rightarrow> None
      | Some ss \<Rightarrow>
          if feq (LengthSquared (intr_p (ss_intr ss) - ctx_p ctx)) (Finite 0) then None
          else if std_isinf (solidAnglePdf_Sample ctx ss) then None
          else Some (ss\<lparr>ss_pdf := solidAnglePdf_Sample ctx ss\<rparr>))"
  using assms
  by (simp add: Sphere_Sample_ctx_def Sphere_inside_def Sphere_pOrigin_def
      solidAnglePdf_Sample_def Let_def split: option.split)


text \<open>
  Claim C6. In the sphere (first branch), the disk, the cylinder and the triangle
  (area-sampling fallback), the density converted from the area measure is never
  returned when it is infinite. Every \<^verbatim>\<open>PDF\<close> method returns a value that is not
  infinite, and returns 0 when the converted density
  \<open>|p - p'|\<^sup>2 / (|n \<cdot> (-\<omega>\<^sub>i)| \<cdot> Area)\<close> is infinite; every \<^verbatim>\<open>Sample\<close> method returns either
  nothing or a sample whose density is not infinite, and returns nothing when the
  converted density is infinite.
\<close>

theorem pdf_conversion_never_returns_infinity:
  "\<not> std_isinf (Disk_PDF_ctx env D ctx wi)
   \<and> \<not> std_isinf (Cylinder_PDF_ctx env C ctx wi)
   \<and> (Triangle_fallback env T ctx \<longrightarrow> \<not> std_isinf (Triangle_PDF_ctx env T ctx wi))
   \<and> (Sphere_inside env S ctx \<longrightarrow> \<not> std_isinf (Sphere_PDF_ctx env S ctx wi))
   \<and> pdfNotInfinite (Disk_Sample_ctx env D ctx u)
   \<and> pdfNotInfinite (Cylinder_Sample_ctx env C ctx u)
   \<and> (Triangle_fallback env T ctx \<longrightarrow> pdfNotInfinite (Triangle_Sample_ctx env T ctx u))
   \<and> (Sphere_inside env S ctx \<longrightarrow> pdfNotInfinite (Sphere_Sample_ctx env S ctx u))
   \<and> (Disk_Intersect D (SpawnRay env ctx wi) Infinity = Some si
        \<and> std_isinf (solidAnglePdf_PDF (ctx_p ctx) si wi (Disk_Area D))
        \<longrightarrow> Disk_PDF_ctx env D ctx wi = Finite 0)
   \<and> (Cylinder_Intersect env C (SpawnRay env ctx wi) Infinity = Some si
        \<and> std_isinf (solidAnglePdf_PDF (ctx_p ctx) si wi (Cylinder_Area C))
        \<longrightarrow> Cylinder_PDF_ctx env C ctx wi = Finite 0)
   \<and> (Triangle_fallback env T ctx
        \<and> Triangle_Intersect env T (SpawnRay env ctx wi) Infinity = Some si
        \<and> std_isinf (solidAnglePdf_PDF (ctx_p ctx) si wi (Triangle_Area env T))
        \<longrightarrow> Triangle_PDF_ctx env T ctx wi = Finite 0)
   \<and> (Sphere_inside env S ctx
        \<and> Sphere_Intersect env S
             \<lparr>ray_o = Sphere_pOrigin env S ctx, ray_d = wi, ray_time = Finite 0,
               ray_medium = None\<rparr> Infinity = Some si
        \<and> std_isinf (solidAnglePdf_PDF (Sphere_pOrigin env S ctx) si wi (Sphere_Area S))
        \<longrightarrow> Sphere_PDF_ctx env S ctx wi = Finite 0)
   \<and> (Disk_Sample env D u = Some ss
        \<and> std_isinf (solidAnglePdf_Sample ctx (withTime ss (ctx_time ctx)))
        \<longrightarrow> Disk_Sample_ctx env D ctx u = None)
   \<and> (Cylinder_Sample env C u = Some ss
        \<and> std_isinf (solidAnglePdf_Sample ctx (withTime ss (ctx_time ctx)))
        \<longrightarrow> Cylinder_Sample_ctx env C ctx u = None)
   \<and> (Triangle_fallback env T ctx \<and> Triangle_Sample env T u = Some ss
        \<and> std_isinf (solidAnglePdf_Sample ctx (withTime ss (ctx_time ctx)))
        \<longrightarrow> Triangle_Sample_ctx env T ctx u = None)
   \<and> (Sphere_inside env S ctx \<and> Sphere_Sample env S u = Some ss
        \<and> std_isinf (solidAnglePdf_Sample ctx ss)
        \<longrightarrow> Sphere_Sample_ctx env S ctx u = None)"
proof (intro conjI impI)
  show "\<not> std_isinf (Disk_PDF_ctx env D ctx wi)"
    by (simp add: Disk_PDF_ctx_cases split: option.split)
  show "\<not> std_isinf (Cylinder_PDF_ctx env C ctx wi)"
    by (simp add: Cylinder_PDF_ctx_cases split: option.split)
  show "pdfNotInfinite (Disk_Sample_ctx env D ctx u)"
    by (simp add: Disk_Sample_ctx_cases pdfNotInfinite_def split: option.split)
  show "pdfNotInfinite (Cylinder_Sample_ctx env C ctx u)"
    by (simp add: Cylinder_Sample_ctx_cases pdfNotInfinite_def split: option.split)
  show "Disk_PDF_ctx env D ctx wi = Finite 0"
    if "Disk_Intersect D (SpawnRay env ctx wi) Infinity = Some si
        \<and> std_isinf (solidAnglePdf_PDF (ctx_p ctx) si wi (Disk_Area D))"
    using that by (simp add: Disk_PDF_ctx_cases)
  show "Cylinder_PDF_ctx env C ctx wi = Finite 0"
    if "Cylinder_Intersect env C (SpawnRay env ctx wi) Infinity = Some si
        \<and> std_isinf (solidAnglePdf_PDF (ctx_p ctx) si wi (Cylinder_Area C))"
    using that by (simp add: Cylinder_PDF_ctx_cases)
  show "Disk_Sample_ctx env D ctx u = None"
    if "Disk_Sample env D u = Some ss
        \<and> std_isinf (solidAnglePdf_Sample ctx (withTime ss (ctx_time ctx)))"
    using that by (simp add: Disk_Sample_ctx_cases)
  show "Cylinder_Sample_ctx env C ctx u = None"
    if "Cylinder_Sample env C u = Some ss
        \<and> std_isinf (solidAnglePdf_Sample ctx (withTime ss (ctx_time ctx)))"
    using that by (simp add: Cylinder_Sample_ctx_cases)
next
  assume f: "Triangle_fallback env T ctx"
  show "\<not> std_isinf (Triangle_PDF_ctx env T ctx wi)"
    by (simp add: Triangle_PDF_ctx_fallback [OF f] split: option.split)
  show "pdfNotInfinite (Triangle_Sample_ctx env T ctx u)"
    by (simp add: Triangle_Sample_ctx_fallback [OF f] pdfNotInfinite_def split: option.split)
next
  assume i: "Sphere_inside env S ctx"
  show "\<not> std_isinf (Sphere_PDF_ctx env S ctx wi)"
    by (simp add: Sphere_PDF_ctx_inside [OF i] split: option.split)
  show "pdfNotInfinite (Sphere_Sample_ctx env S ctx u)"
    by (simp add: Sphere_Sample_ctx_inside [OF i] pdfNotInfinite_def split: option.split)
next
  assume "Triangle_fallback env T ctx
        \<and> Triangle_Intersect env T (SpawnRay env ctx wi) Infinity = Some si
        \<and> std_isinf (solidAnglePdf_PDF (ctx_p ctx) si wi (Triangle_Area env T))"
  then show "Triangle_PDF_ctx env T ctx wi = Finite 0"
    by (simp add: Triangle_PDF_ctx_fallback)
next
  assume "Sphere_inside env S ctx
        \<and> Sphere_Intersect env S
             \<lparr>ray_o = Sphere_pOrigin env S ctx, ray_d = wi, ray_time = Finite 0,
               ray_medium = None\<rparr> Infinity = Some si
        \<and> std_isinf (solidAnglePdf_PDF (Sphere_pOrigin env S ctx) si wi (Sphere_Area S))"
  then show "Sphere_PDF_ctx env S ctx wi = Finite 0"
    by (simp add: Sphere_PDF_ctx_inside)
next
  assume "Triangle_fallback env T ctx \<and> Triangle_Sample env T u = Some ss
        \<and> std_isinf (solidAnglePdf_Sample ctx (withTime ss (ctx_time ctx)))"
  then show "Triangle_Sample_ctx env T ctx u = None"
    by (simp add: Triangle_Sample_ctx_fallback)
next
  assume "Sphere_inside env S ctx \<and> Sphere_Sample env S u = Some ss
        \<and> std_isinf (solidAnglePdf_Sample ctx ss)"
  then show "Sphere_Sample_ctx env S ctx u = None"
    by (simp add: Sphere_Sample_ctx_inside)
qed

lemma unitDisk_Area: "Disk_Area unitDisk = Finite pi"
  by (simp add: Disk_Area_def unitDisk_fields)

lemma unitDisk_Sample:
  "Disk_Sample exampleEnv unitDisk u =
   Some \<lparr>ss_intr = mkInteraction (Point3fi_of (V3 0 0 0)) (V3 0 0 1) (Finite 0),
         ss_pdf = Finite (1 / pi)\<rparr>"
  by (simp add: Disk_Sample_def Let_def exampleEnv_def unitDisk_fields unitDisk_Area
      idTransform_def Normalize_def Length_def V3_def)

lemma ctx_p_ctxAt [simp]: "ctx_p (ctxAt a b c) = V3 a b c"
  by (simp add: ctx_p_def ctxAt_def)

lemma unitDisk_grazing:
  "solidAnglePdf_Sample (ctxAt 2 0 0)
     (withTime \<lparr>ss_intr = mkInteraction (Point3fi_of (V3 0 0 0)) (V3 0 0 1) (Finite 0),
                ss_pdf = Finite (1 / pi)\<rparr> (ctx_time (ctxAt 2 0 0))) = Infinity"
  by (simp add: solidAnglePdf_Sample_def withTime_def intr_p_def mkInteraction_def
      V3_def DistanceSquared_def Normalize_def Length_def AbsDot_def)

lemma unitDisk_from_above:
  "map_option ss_pdf (Disk_Sample_ctx exampleEnv unitDisk (ctxAt 0 0 1) u) =
   Some (Finite (1 / pi))"
  apply (simp only: Disk_Sample_ctx_cases unitDisk_Sample)
  apply (simp add: solidAnglePdf_Sample_def withTime_def intr_p_def mkInteraction_def
      V3_def DistanceSquared_def Normalize_def Length_def AbsDot_def)
  done

lemma grazing_fallback:
  "Triangle_fallback grazingEnv \<lparr>tri_meshIndex = 0, tri_triIndex = 0\<rparr> (ctxAt (-1) 0 0)"
  by (simp add: Triangle_fallback_def Triangle_SolidAngle_def Let_def grazingEnv_def
      MinSphericalSampleArea_def)

lemma grazing_Area:
  "Triangle_Area grazingEnv \<lparr>tri_meshIndex = 0, tri_triIndex = 0\<rparr> = Finite (1 / 2)"
  by (simp add: Triangle_Area_def GetMesh_def grazingEnv_def exampleEnv_def
      unitTriangleMesh_def tri_p_def tri_v_def Let_def V3_def Cross_def
      DifferenceOfProducts_def Length_def)

lemma grazing_inf:
  "solidAnglePdf_PDF (ctx_p (ctxAt (-1) 0 0))
     \<lparr>isect_intr =
        mkSurfaceInteraction (Point3fi_of (V3 1 0 0)) (Finite 0, Finite 0)
          (V3 (-1) 0 0) (V3 1 0 0) (V3 0 1 0) 0 0 (Finite 0) False 0,
      isect_tHit = Finite 2\<rparr>
     (V3 1 0 0) (Triangle_Area grazingEnv \<lparr>tri_meshIndex = 0, tri_triIndex = 0\<rparr>) = Infinity"
  by (simp only: grazing_Area ctx_p_ctxAt)
     (simp add: solidAnglePdf_PDF_def mkSurfaceInteraction_def Let_def intr_p_def V3_def
        DistanceSquared_def AbsDot_def Cross_def DifferenceOfProducts_def Normalize_def
        Length_def)

theorem pdf_conversion_never_returns_infinity_witness:
  "Disk_Sample_ctx exampleEnv unitDisk (ctxAt 2 0 0) (Finite (1 / 2), Finite (1 / 2)) = None
   \<and> map_option ss_pdf
        (Disk_Sample_ctx exampleEnv unitDisk (ctxAt 0 0 1) (Finite (1 / 2), Finite (1 / 2))) =
      Some (Finite (1 / pi))
   \<and> pdfNotInfinite
        (Disk_Sample_ctx exampleEnv unitDisk (ctxAt 0 0 1) (Finite (1 / 2), Finite (1 / 2)))
   \<and> Triangle_PDF_ctx grazingEnv \<lparr>tri_meshIndex = 0, tri_triIndex = 0\<rparr> (ctxAt (-1) 0 0)
        (V3 1 0 0) = Finite 0"
proof -
  let ?T = "\<lparr>tri_meshIndex = 0, tri_triIndex = 0\<rparr>"
  let ?u = "(Finite (1 / 2), Finite (1 / 2))"
  let ?ss = "\<lparr>ss_intr = mkInteraction (Point3fi_of (V3 0 0 0)) (V3 0 0 1) (Finite 0),
              ss_pdf = Finite (1 / pi)\<rparr>"
  let ?si = "\<lparr>isect_intr =
        mkSurfaceInteraction (Point3fi_of (V3 1 0 0)) (Finite 0, Finite 0)
          (V3 (-1) 0 0) (V3 1 0 0) (V3 0 1 0) 0 0 (Finite 0) False 0,
      isect_tHit = Finite 2\<rparr>"
  have a: "Disk_Sample exampleEnv unitDisk ?u = Some ?ss
           \<and> std_isinf (solidAnglePdf_Sample (ctxAt 2 0 0) (withTime ?ss (ctx_time (ctxAt 2 0 0))))"
    by (simp only: unitDisk_Sample unitDisk_grazing) simp
  have b: "Triangle_fallback grazingEnv ?T (ctxAt (-1) 0 0)
           \<and> Triangle_Intersect grazingEnv ?T (SpawnRay grazingEnv (ctxAt (-1) 0 0) (V3 1 0 0))
               Infinity = Some ?si
           \<and> std_isinf (solidAnglePdf_PDF (ctx_p (ctxAt (-1) 0 0)) ?si (V3 1 0 0)
               (Triangle_Area grazingEnv ?T))"
    by (simp only: grazing_inf grazing_fallback) (simp add: grazingEnv_def)
  have c: "Disk_Sample exampleEnv unitDisk ?u = Some ?ss
           \<and> std_isinf (solidAnglePdf_Sample (ctxAt 2 0 0) (withTime ?ss (ctx_time (ctxAt 2 0 0))))
           \<longrightarrow> Disk_Sample_ctx exampleEnv unitDisk (ctxAt 2 0 0) ?u = None"
    using pdf_conversion_never_returns_infinity
        [of exampleEnv unitDisk "ctxAt 2 0 0" "V3 1 0 0" unitCylinder ?T unitSphere ?u ?si ?ss]
    by (elim conjE) assumption
  have d: "pdfNotInfinite (Disk_Sample_ctx exampleEnv unitDisk (ctxAt 0 0 1) ?u)"
    using pdf_conversion_never_returns_infinity
        [of exampleEnv unitDisk "ctxAt 0 0 1" "V3 1 0 0" unitCylinder ?T unitSphere ?u ?si ?ss]
    by (elim conjE) assumption
  have e: "Triangle_fallback grazingEnv ?T (ctxAt (-1) 0 0)
           \<and> Triangle_Intersect grazingEnv ?T (SpawnRay grazingEnv (ctxAt (-1) 0 0) (V3 1 0 0))
               Infinity = Some ?si
           \<and> std_isinf (solidAnglePdf_PDF (ctx_p (ctxAt (-1) 0 0)) ?si (V3 1 0 0)
               (Triangle_Area grazingEnv ?T))
           \<longrightarrow> Triangle_PDF_ctx grazingEnv ?T (ctxAt (-1) 0 0) (V3 1 0 0) = Finite 0"
    using pdf_conversion_never_returns_infinity
        [of grazingEnv unitDisk "ctxAt (-1) 0 0" "V3 1 0 0" unitCylinder ?T unitSphere ?u ?si ?ss]
    by (elim conjE) assumption
  from c a have "Disk_Sample_ctx exampleEnv unitDisk (ctxAt 2 0 0) ?u = None" by (rule mp)
  moreover from e b have "Triangle_PDF_ctx grazingEnv ?T (ctxAt (-1) 0 0) (V3 1 0 0) = Finite 0"
    by (rule mp)
  ultimately show ?thesis
    using d unitDisk_from_above [of ?u] by (intro conjI)
qed


section \<open>Intersection with a bilinear patch\<close>




lemma isFinite_ex: "isFinite a \<Longrightarrow> \<exists>r. a = Finite r"
  by (cases a) simp_all

lemma isFinite3_ex: "isFinite3 v \<Longrightarrow> \<exists>a b c. v = V3 a b c"
  by (cases v) (auto simp: isFinite3_def V3_def dest!: isFinite_ex)



















lemma unitQuad_finite:
  "patch_finite unitQuadRay (V3 0 0 0) (V3 1 0 0) (V3 0 1 0) (V3 1 1 0)"
  by (simp add: patch_finite_def isFinite3_def unitQuadRay_def mkRay_def V3_def)









lemma NaN_absorb [simp]:
  "NaN * x = NaN" "x * NaN = NaN" "NaN + x = NaN" "x + NaN = NaN"
  "NaN - x = NaN" "x - NaN = NaN" "- NaN = NaN"
  by (cases x; simp add: minus_Float_def)+

lemma Float_le_NaN [simp]: "\<not> x \<le> NaN" "\<not> NaN \<le> x" "\<not> x < NaN" "\<not> NaN < x"
  by (cases x; simp)+






















lemma veq_V3 [simp]: "veq (V3 a b c) (V3 x y z) = (a = x \<and> b = y \<and> c = z)"
  by (simp add: veq_def V3_def)

























section \<open>Triangles with a degenerate parameterisation\<close>



















section \<open>Sampling a sphere from a reference point\<close>

lemma Sphere_Sample_ctx_outside:
  "\<not> Sphere_inside env S ctx \<Longrightarrow>
     Sphere_Sample_ctx env S ctx u = Some (Sphere_Sample_cone env S ctx u)"
  by (simp add: Sphere_Sample_ctx_def Sphere_inside_def Sphere_pOrigin_def Let_def)

lemma Sphere_Sample_cone_pdf:
  "ss_pdf (Sphere_Sample_cone env S ctx u)
     = Finite 1 / (Finite 2 * Pi * Sphere_Sample_oneMinusCosThetaMax S ctx)"
  by (simp add: Sphere_Sample_cone_def Sphere_Sample_oneMinusCosThetaMax_def
      Sphere_Sample_sinThetaMax2_def Sphere_Sample_sinThetaMax_def Let_def)

lemma Sphere_Sample_cone_pi:
  "intr_pi (ss_intr (Sphere_Sample_cone env S ctx u))
     = (let ca = Sphere_Sample_cosAlpha S ctx (fst u);
            pCenter = applyP (sph_renderFromObject S) 0;
            nRender = FromLocal (Frame_FromZ env (Normalize (ctx_p ctx - pCenter)))
                        (SphericalDirection (SafeSqrt (Finite 1 - ca * ca)) ca
                           (snd u * Finite 2 * Pi));
            pRender = pCenter + scale (sph_radius S) nRender
        in Point3fi_err pRender (scale (gamma (MachineEpsilon env) 5) (Abs pRender)))"
  by (simp add: Sphere_Sample_cone_def Sphere_Sample_cosAlpha_def
      Sphere_Sample_sinThetaMax2_def Sphere_Sample_sinThetaMax_def Let_def mkInteraction_def)

lemma cosAlpha_sq_le_1:
  fixes S \<sigma> k :: real
  assumes S: "0 < S" and s0: "0 \<le> \<sigma>" and s1: "\<sigma> \<le> S * S" and k: "k * k + \<sigma> = 1"
  shows "(\<sigma> * (1 / S) + k * sqrt (1 - \<sigma> * (1 / S) * (1 / S)))\<^sup>2 \<le> 1"
proof -
  define s where "s = sqrt \<sigma>"
  define p where "p = s / S"
  define q where "q = sqrt (1 - p * p)"
  have ss: "s * s = \<sigma>" using s0 by (simp add: s_def)
  have pp: "p * p = \<sigma> * (1 / S) * (1 / S)" using ss by (simp add: p_def)
  have "\<sigma> / (S * S) \<le> 1" using s1 S by (simp add: divide_le_eq)
  then have pp1: "p * p \<le> 1" using pp by (simp add: field_simps)
  then have qq: "q * q = 1 - p * p" by (simp add: q_def)
  have e1: "\<sigma> * (1 / S) = p * s" using ss by (simp add: p_def)
  have "(p * s + q * k)\<^sup>2 + (p * k - q * s)\<^sup>2 = (p * p + q * q) * (s * s + k * k)"
    by (simp add: power2_eq_square algebra_simps)
  also have "\<dots> = 1" using qq ss k by simp
  finally have "(p * s + q * k)\<^sup>2 \<le> 1"
    using zero_le_power2 [of "p * k - q * s"] by linarith
  moreover have "p * s + q * k = \<sigma> * (1 / S) + k * sqrt (1 - \<sigma> * (1 / S) * (1 / S))"
    unfolding e1 [symmetric] q_def pp by (simp only: mult.commute)
  ultimately show ?thesis by simp
qed

lemma orthonormal_norm:
  fixes a b c :: real
  assumes "x1 * x1 + x2 * x2 + x3 * x3 = 1" "y1 * y1 + y2 * y2 + y3 * y3 = 1"
    "z1 * z1 + z2 * z2 + z3 * z3 = 1" "x1 * y1 + x2 * y2 + x3 * y3 = 0"
    "x1 * z1 + x2 * z2 + x3 * z3 = 0" "y1 * z1 + y2 * z2 + y3 * z3 = 0"
  shows "(a * x1 + b * y1 + c * z1) * (a * x1 + b * y1 + c * z1)
       + (a * x2 + b * y2 + c * z2) * (a * x2 + b * y2 + c * z2)
       + (a * x3 + b * y3 + c * z3) * (a * x3 + b * y3 + c * z3) = a * a + b * b + c * c"
proof -
  have "(a * x1 + b * y1 + c * z1) * (a * x1 + b * y1 + c * z1)
       + (a * x2 + b * y2 + c * z2) * (a * x2 + b * y2 + c * z2)
       + (a * x3 + b * y3 + c * z3) * (a * x3 + b * y3 + c * z3)
     = a * a * (x1 * x1 + x2 * x2 + x3 * x3) + b * b * (y1 * y1 + y2 * y2 + y3 * y3)
       + c * c * (z1 * z1 + z2 * z2 + z3 * z3) + 2 * a * b * (x1 * y1 + x2 * y2 + x3 * y3)
       + 2 * a * c * (x1 * z1 + x2 * z2 + x3 * z3) + 2 * b * c * (y1 * z1 + y2 * z2 + y3 * z3)"
    by (simp add: algebra_simps)
  then show ?thesis using assms by simp
qed

lemma in_cone_real:
  fixes r d2 t :: real
  assumes r: "0 < r" and rd: "r * r \<le> d2" and t: "t * t \<le> d2"
  shows "0 \<le> d2 + r * t" "(d2 - r * r) * (d2 + 2 * r * t + r * r) \<le> (d2 + r * t) * (d2 + r * t)"
proof -
  have d0: "0 \<le> d2" using t zero_le_square [of t] by linarith
  have "(r * t) * (r * t) \<le> d2 * d2"
  proof -
    have "(r * t) * (r * t) = (r * r) * (t * t)" by simp
    also have "\<dots> \<le> d2 * d2" using rd t r d0 by (intro mult_mono) simp_all
    finally show ?thesis .
  qed
  then have "\<bar>r * t\<bar> \<le> \<bar>d2\<bar>" by (simp add: abs_le_square_iff power2_eq_square)
  moreover note d0
  ultimately show "0 \<le> d2 + r * t" by linarith
  have "(d2 + r * t) * (d2 + r * t) - (d2 - r * r) * (d2 + 2 * r * t + r * r)
        = (r * (t + r)) * (r * (t + r))" by (simp add: algebra_simps)
  moreover have "0 \<le> (r * (t + r)) * (r * (t + r))" by simp
  ultimately show "(d2 - r * r) * (d2 + 2 * r * t + r * r) \<le> (d2 + r * t) * (d2 + r * t)"
    by linarith
qed

lemma SafeSqrt_Finite: "SafeSqrt (Finite x) = Finite (sqrt (max 0 x))"
  by (simp add: SafeSqrt_def std_max_def max_def)

lemma Sphere_Sample_sinThetaMax_Finite:
  assumes "Distance (ctx_p ctx) (applyP (sph_renderFromObject S) 0) = Finite d"
    and "sph_radius S = Finite r" and "0 < r" and "r \<le> d"
  shows "Sphere_Sample_sinThetaMax S ctx = Finite (r * (1 / d))"
    and "Sphere_Sample_sinThetaMax2 S ctx = Finite (r * (1 / d) * (r * (1 / d)))"
    and "0 < r * (1 / d)" and "r * (1 / d) \<le> 1"
  using assms by (simp_all add: Sphere_Sample_sinThetaMax2_def Sphere_Sample_sinThetaMax_def)

lemma Sphere_Sample_cosAlpha_bound:
  assumes d: "Distance (ctx_p ctx) (applyP (sph_renderFromObject S) 0) = Finite d"
    and r: "sph_radius S = Finite r" "0 < r" "r \<le> d"
    and u: "0 \<le> u0" "u0 \<le> 1"
  shows "\<exists>ca. Sphere_Sample_cosAlpha S ctx (Finite u0) = Finite ca \<and> ca * ca \<le> 1"
proof -
  define Sv where "Sv = r * (1 / d)"
  note sm = Sphere_Sample_sinThetaMax_Finite [OF d r, folded Sv_def]
  have S1: "Sv * Sv \<le> 1" using sm(3,4) by (simp add: mult_le_one)
  show ?thesis
  proof (cases "Sv * Sv < 0.00068523")
    case True
    define \<sigma> where "\<sigma> = Sv * Sv * u0"
    define k where "k = sqrt (1 - \<sigma>)"
    have s0: "0 \<le> \<sigma>" using u by (simp add: \<sigma>_def)
    have "Sv * Sv * u0 \<le> Sv * Sv * 1" using u by (intro mult_left_mono) simp_all
    then have s1: "\<sigma> \<le> Sv * Sv" by (simp add: \<sigma>_def)
    with S1 have s2: "\<sigma> \<le> 1" by linarith
    then have kk: "k * k + \<sigma> = 1" by (simp add: k_def)
    have x0: "0 \<le> 1 - \<sigma> * (1 / Sv) * (1 / Sv)"
      using s1 sm(3) by (simp add: field_simps)
    have "Sphere_Sample_cosAlpha S ctx (Finite u0)
            = Finite (\<sigma> * (1 / Sv) + k * sqrt (1 - \<sigma> * (1 / Sv) * (1 / Sv)))"
      unfolding Sphere_Sample_cosAlpha_def sm Let_def
      using True s2 x0 sm(3)
      by (simp add: SafeSqrt_Finite \<sigma>_def [symmetric] k_def [symmetric] max_def)
    moreover have "(\<sigma> * (1 / Sv) + k * sqrt (1 - \<sigma> * (1 / Sv) * (1 / Sv)))\<^sup>2 \<le> 1"
      by (rule cosAlpha_sq_le_1 [OF sm(3) s0 s1 kk])
    ultimately show ?thesis by (auto simp: power2_eq_square)
  next
    case False
    define cM where "cM = sqrt (1 - Sv * Sv)"
    define k where "k = (cM - 1) * u0 + 1"
    define \<sigma> where "\<sigma> = 1 - k * k"
    have c0: "0 \<le> cM" "cM \<le> 1" "cM * cM = 1 - Sv * Sv" using S1 by (simp_all add: cM_def)
    have "k = cM * u0 + (1 - u0)" by (simp add: k_def algebra_simps)
    have k1: "k \<le> 1" 
    proof -
      have "(cM - 1) * u0 \<le> 0" using c0 u by (simp add: mult_le_0_iff)
      then show ?thesis by (simp add: k_def)
    qed
    have kc: "cM \<le> k"
    proof -
      have "(1 - cM) * u0 \<le> (1 - cM) * 1" using c0 u by (intro mult_left_mono) simp_all
      then show ?thesis by (simp add: k_def algebra_simps)
    qed
    have k0: "0 \<le> k" using kc c0 by linarith
    have "k * k \<le> 1 * 1" using k0 k1 by (intro mult_mono) simp_all
    then have s0: "0 \<le> \<sigma>" by (simp add: \<sigma>_def)
    have "cM * cM \<le> k * k" using kc c0 k0 by (intro mult_mono) simp_all
    then have s1: "\<sigma> \<le> Sv * Sv" using c0 by (simp add: \<sigma>_def)
    have kk: "k * k + \<sigma> = 1" by (simp add: \<sigma>_def)
    have x0: "0 \<le> 1 - \<sigma> * (1 / Sv) * (1 / Sv)"
      using s1 sm(3) by (simp add: field_simps)
    have "Sphere_Sample_cosAlpha S ctx (Finite u0)
            = Finite (\<sigma> * (1 / Sv) + k * sqrt (1 - \<sigma> * (1 / Sv) * (1 / Sv)))"
      unfolding Sphere_Sample_cosAlpha_def sm Let_def
      using False S1 x0 sm(3)
      by (simp add: SafeSqrt_Finite cM_def [symmetric] k_def [symmetric] \<sigma>_def [symmetric] max_def)
    moreover have "(\<sigma> * (1 / Sv) + k * sqrt (1 - \<sigma> * (1 / Sv) * (1 / Sv)))\<^sup>2 \<le> 1"
      by (rule cosAlpha_sq_le_1 [OF sm(3) s0 s1 kk])
    ultimately show ?thesis by (auto simp: power2_eq_square)
  qed
qed

lemma cauchy_schwarz3:
  fixes n1 n2 n3 a1 a2 a3 :: real
  shows "(n1 * a1 + n2 * a2 + n3 * a3) * (n1 * a1 + n2 * a2 + n3 * a3)
         \<le> (n1 * n1 + n2 * n2 + n3 * n3) * (a1 * a1 + a2 * a2 + a3 * a3)"
proof -
  have "(n1 * n1 + n2 * n2 + n3 * n3) * (a1 * a1 + a2 * a2 + a3 * a3)
        - (n1 * a1 + n2 * a2 + n3 * a3) * (n1 * a1 + n2 * a2 + n3 * a3)
        = (n1 * a2 - n2 * a1) * (n1 * a2 - n2 * a1) + (n1 * a3 - n3 * a1) * (n1 * a3 - n3 * a1)
          + (n2 * a3 - n3 * a2) * (n2 * a3 - n3 * a2)"
    by (simp add: algebra_simps)
  moreover have "0 \<le> (n1 * a2 - n2 * a1) * (n1 * a2 - n2 * a1)
     + (n1 * a3 - n3 * a1) * (n1 * a3 - n3 * a1) + (n2 * a3 - n3 * a2) * (n2 * a3 - n3 * a2)"
    by (intro add_nonneg_nonneg) simp_all
  ultimately show ?thesis by linarith
qed

lemma FromLocal_unit:
  assumes f: "orthonormal f" and sc: "sa * sa + ca * ca = 1"
  shows "\<exists>n1 n2 n3. FromLocal f (SphericalDirection (Finite sa) (Finite ca) (Finite \<phi>))
                       = V3 n1 n2 n3 \<and> n1 * n1 + n2 * n2 + n3 * n3 = 1"
proof -
  from f obtain x1 x2 x3 y1 y2 y3 z1 z2 z3 where
    X: "frame_x f = V3 x1 x2 x3" and Y: "frame_y f = V3 y1 y2 y3" and Z: "frame_z f = V3 z1 z2 z3"
    unfolding orthonormal_def by (meson isFinite3_ex)
  from f have o: "x1 * x1 + x2 * x2 + x3 * x3 = 1" "y1 * y1 + y2 * y2 + y3 * y3 = 1"
    "z1 * z1 + z2 * z2 + z3 * z3 = 1" "x1 * y1 + x2 * y2 + x3 * y3 = 0"
    "x1 * z1 + x2 * z2 + x3 * z3 = 0" "y1 * z1 + y2 * z2 + y3 * z3 = 0"
    unfolding orthonormal_def X Y Z by (simp_all add: V3_def)
  define a where "a = sa * cos \<phi>"
  define b where "b = sa * sin \<phi>"
  have "a * a + b * b = sa * sa * (cos \<phi> * cos \<phi> + sin \<phi> * sin \<phi>)"
    unfolding a_def b_def by (simp only: algebra_simps)
  then have ab: "a * a + b * b + ca * ca = 1"
    using sc by (simp only: sin_cos_squared_add3 mult_1_right)
  have "FromLocal f (SphericalDirection (Finite sa) (Finite ca) (Finite \<phi>))
          = V3 (a * x1 + b * y1 + ca * z1) (a * x2 + b * y2 + ca * z2) (a * x3 + b * y3 + ca * z3)"
    by (simp add: FromLocal_def SphericalDirection_def X Y Z V3_def a_def b_def)
  moreover have "(a * x1 + b * y1 + ca * z1) * (a * x1 + b * y1 + ca * z1)
       + (a * x2 + b * y2 + ca * z2) * (a * x2 + b * y2 + ca * z2)
       + (a * x3 + b * y3 + ca * z3) * (a * x3 + b * y3 + ca * z3) = 1"
    using orthonormal_norm [OF o, of a b ca] ab by simp
  ultimately show ?thesis by blast
qed

lemma FromValueAndError_Midpoint:
  "Midpoint (FromValueAndError (Finite v) (Finite e)) = Finite v"
  by (simp add: FromValueAndError_def Midpoint_def)

lemma Point3f_of_Point3fi_err:
  "Point3f_of (Point3fi_err (V3 a b c) (V3 e1 e2 e3)) = V3 a b c"
  by (simp add: Point3f_of_def Point3fi_err_def V3_def FromValueAndError_Midpoint)

lemma le_sqrt_imp_sq_le:
  fixes r x :: real
  assumes "0 \<le> r" "r \<le> sqrt x"
  shows "r * r \<le> x"
proof -
  have "sqrt (r * r) \<le> sqrt x" using assms by simp
  then show ?thesis by (simp only: real_sqrt_le_iff)
qed

lemma Sphere_Sample_cone_geometry:
  fixes u :: Point2f
  assumes fp: "isFinite3 (ctx_p ctx)" and fc: "isFinite3 (applyP (sph_renderFromObject S) 0)"
    and r0: "Finite 0 < sph_radius S"
    and rd: "sph_radius S \<le> Distance (ctx_p ctx) (applyP (sph_renderFromObject S) 0)"
    and u0: "Finite 0 \<le> fst u" "fst u \<le> Finite 1" and u1: "isFinite (snd u)"
    and fr: "orthonormal (Frame_FromZ env
               (Normalize (ctx_p ctx - applyP (sph_renderFromObject S) 0)))"
    and ge: "isFinite (gamma (MachineEpsilon env) 5)"
  defines "pc \<equiv> applyP (sph_renderFromObject S) 0"
    and "p \<equiv> intr_p (ss_intr (Sphere_Sample_cone env S ctx u))"
  shows "DistanceSquared p pc = sph_radius S * sph_radius S"
    and "Finite 0 \<le> Dot (p - ctx_p ctx) (pc - ctx_p ctx)"
    and "(DistanceSquared (ctx_p ctx) pc - sph_radius S * sph_radius S)
           * LengthSquared (p - ctx_p ctx)
         \<le> Dot (p - ctx_p ctx) (pc - ctx_p ctx) * Dot (p - ctx_p ctx) (pc - ctx_p ctx)"
proof -
  obtain p1 p2 p3 where P: "ctx_p ctx = V3 p1 p2 p3" using isFinite3_ex [OF fp] by blast
  obtain c1 c2 c3 where C: "applyP (sph_renderFromObject S) 0 = V3 c1 c2 c3"
    using isFinite3_ex [OF fc] by blast
  define d2 where "d2 = (p1 - c1) * (p1 - c1) + (p2 - c2) * (p2 - c2) + (p3 - c3) * (p3 - c3)"
  have D: "Distance (ctx_p ctx) (applyP (sph_renderFromObject S) 0) = Finite (sqrt d2)"
    unfolding P C by (simp add: Distance_def V3_def Length_Finite d2_def)
  from r0 rd obtain r where R: "sph_radius S = Finite r" and rp: "0 < r" and rl: "r \<le> sqrt d2"
    unfolding D by (cases "sph_radius S") simp_all
  from u0 obtain u0v where U0: "fst u = Finite u0v" and u0r: "0 \<le> u0v" "u0v \<le> 1"
    by (cases "fst u") simp_all
  from u1 obtain u1v where U1: "snd u = Finite u1v" by (cases "snd u") simp_all
  from ge obtain g where G: "gamma (MachineEpsilon env) 5 = Finite g"
    by (cases "gamma (MachineEpsilon env) 5") simp_all
  obtain ca where CA: "Sphere_Sample_cosAlpha S ctx (fst u) = Finite ca" and ca1: "ca * ca \<le> 1"
    using Sphere_Sample_cosAlpha_bound [OF D R rp rl u0r] unfolding U0 by blast
  define sa where "sa = sqrt (1 - ca * ca)"
  have SA: "SafeSqrt (Finite 1 - Finite ca * Finite ca) = Finite sa"
    using ca1 by (simp add: SafeSqrt_Finite sa_def max_def)
  have sc: "sa * sa + ca * ca = 1" using ca1 by (simp add: sa_def)
  have PHI: "snd u * Finite 2 * Pi = Finite (u1v * 2 * pi)" by (simp add: U1 Pi_def)
  obtain n1 n2 n3 where
    N: "FromLocal (Frame_FromZ env (Normalize (ctx_p ctx - applyP (sph_renderFromObject S) 0)))
          (SphericalDirection (Finite sa) (Finite ca) (Finite (u1v * 2 * pi))) = V3 n1 n2 n3"
    and nn: "n1 * n1 + n2 * n2 + n3 * n3 = 1"
    using FromLocal_unit [OF fr sc] by blast
  have PI: "intr_pi (ss_intr (Sphere_Sample_cone env S ctx u))
              = Point3fi_err (V3 (c1 + r * n1) (c2 + r * n2) (c3 + r * n3))
                  (V3 (g * \<bar>c1 + r * n1\<bar>) (g * \<bar>c2 + r * n2\<bar>) (g * \<bar>c3 + r * n3\<bar>))"
    unfolding Sphere_Sample_cone_pi Let_def CA SA PHI N R G
    by (simp add: C V3_def Abs_def)
  have p: "p = V3 (c1 + r * n1) (c2 + r * n2) (c3 + r * n3)"
    unfolding p_def intr_p_def PI by (rule Point3f_of_Point3fi_err)
  have "(r * n1) * (r * n1) + (r * n2) * (r * n2) + (r * n3) * (r * n3)
          = r * r * (n1 * n1 + n2 * n2 + n3 * n3)" by (simp add: algebra_simps)
  then have rn: "(r * n1) * (r * n1) + (r * n2) * (r * n2) + (r * n3) * (r * n3) = r * r"
    using nn by simp
  show "DistanceSquared p pc = sph_radius S * sph_radius S"
    unfolding p pc_def C R using rn by (simp add: DistanceSquared_def V3_def Sqr_def)
  define a1 where "a1 = c1 - p1"
  define a2 where "a2 = c2 - p2"
  define a3 where "a3 = c3 - p3"
  define t where "t = n1 * a1 + n2 * a2 + n3 * a3"
  define e2 where "e2 = a1 * a1 + a2 * a2 + a3 * a3"
  have e2: "e2 = d2" by (simp add: e2_def d2_def a1_def a2_def a3_def algebra_simps)
  have rr: "r * r \<le> e2" unfolding e2 using rp rl by (intro le_sqrt_imp_sq_le) simp_all
  have tt: "t * t \<le> e2"
    using cauchy_schwarz3 [of n1 a1 n2 a2 n3 a3] nn by (simp add: t_def e2_def)
  have dot: "Dot (p - ctx_p ctx) (pc - ctx_p ctx) = Finite (e2 + r * t)"
    unfolding p pc_def C P
    by (simp add: V3_def e2_def t_def a1_def a2_def a3_def algebra_simps)
  have len: "LengthSquared (p - ctx_p ctx) = Finite (e2 + 2 * r * t + r * r)"
  proof -
    have "(a1 + r * n1) * (a1 + r * n1) + (a2 + r * n2) * (a2 + r * n2)
            + (a3 + r * n3) * (a3 + r * n3)
          = e2 + 2 * r * t + ((r * n1) * (r * n1) + (r * n2) * (r * n2) + (r * n3) * (r * n3))"
      by (simp add: e2_def t_def algebra_simps)
    then have "(a1 + r * n1) * (a1 + r * n1) + (a2 + r * n2) * (a2 + r * n2)
            + (a3 + r * n3) * (a3 + r * n3) = e2 + 2 * r * t + r * r"
      using rn by simp
    moreover have "LengthSquared (p - ctx_p ctx)
          = Finite ((a1 + r * n1) * (a1 + r * n1) + (a2 + r * n2) * (a2 + r * n2)
            + (a3 + r * n3) * (a3 + r * n3))"
      unfolding p P by (simp add: V3_def a1_def a2_def a3_def algebra_simps)
    ultimately show ?thesis by simp
  qed
  have dist: "DistanceSquared (ctx_p ctx) pc = Finite e2"
    unfolding e2 pc_def P C by (simp add: DistanceSquared_def V3_def d2_def)
  note ic = in_cone_real [OF rp rr tt]
  show "Finite 0 \<le> Dot (p - ctx_p ctx) (pc - ctx_p ctx)"
    unfolding dot using ic(1) by simp
  show "(DistanceSquared (ctx_p ctx) pc - sph_radius S * sph_radius S)
           * LengthSquared (p - ctx_p ctx)
         \<le> Dot (p - ctx_p ctx) (pc - ctx_p ctx) * Dot (p - ctx_p ctx) (pc - ctx_p ctx)"
    unfolding dot len dist R using ic(2) by (simp add: minus_Float_def)
qed

lemma ctxAt_offset: "OffsetRayOrigin_pt env (ctxAt a b c) pt = V3 a b c"
  by (simp add: OffsetRayOrigin_pt_def OffsetRayOrigin_def Let_def Abs_def roundAway_def
      ctx_p_def ctxAt_def) (simp add: V3_def)

lemma unitSphere_inside_iff:
  "Sphere_inside env unitSphere (ctxAt a b c) = (a * a + b * b + c * c \<le> 1)"
  by (simp add: Sphere_inside_def Sphere_pOrigin_def ctxAt_offset)
     (simp add: unitSphere_fields idTransform_def V3_def DistanceSquared_def zero_Vector3f_def)

lemma unitSphere_Distance:
  "Distance (ctx_p (ctxAt 0 0 c)) (applyP (sph_renderFromObject unitSphere) 0) = Finite \<bar>c\<bar>"
  by (simp add: unitSphere_fields idTransform_def V3_def Distance_def zero_Vector3f_def
      Length_Finite)

lemma unitSphere_far_oneMinus:
  "Sphere_Sample_oneMinusCosThetaMax unitSphere (ctxAt 0 0 (-100)) = Finite (1 / 20000)"
  unfolding Sphere_Sample_oneMinusCosThetaMax_def Sphere_Sample_sinThetaMax2_def
    Sphere_Sample_sinThetaMax_def unitSphere_Distance
  by (simp add: unitSphere_fields)

lemma unitSphere_near_oneMinus:
  "Sphere_Sample_oneMinusCosThetaMax unitSphere (ctxAt 0 0 (-5)) = Finite (1 - sqrt (24 / 25))"
  unfolding Sphere_Sample_oneMinusCosThetaMax_def Sphere_Sample_sinThetaMax2_def
    Sphere_Sample_sinThetaMax_def unitSphere_Distance
  by (simp add: unitSphere_fields SafeSqrt_Finite)

lemma unitSphere_far_spec:
  "spec_conePdf unitSphere (ctxAt 0 0 (-100)) = Finite (1 / (2 * pi * (1 - sqrt (9999 / 10000))))"
proof -
  have "sqrt (9999 / 10000) < 1" by simp
  then have nz: "2 * pi * (1 - sqrt (9999 / 10000)) \<noteq> 0" by simp
  show ?thesis
    unfolding spec_conePdf_def unitSphere_Distance Let_def using nz
    by (simp add: unitSphere_fields Pi_def)
qed

lemma taylor_differs: "1 - sqrt (9999 / 10000) \<noteq> (1 / 20000 :: real)"
proof
  assume "1 - sqrt (9999 / 10000) = (1 / 20000 :: real)"
  then have "sqrt (9999 / 10000) = (19999 / 20000 :: real)" by linarith
  then have "(sqrt (9999 / 10000))\<^sup>2 = (19999 / 20000 :: real)\<^sup>2" by (simp only:)
  moreover have "(sqrt (9999 / 10000 :: real))\<^sup>2 = 9999 / 10000"
    by (rule real_sqrt_pow2) simp
  ultimately have "9999 / 10000 = (19999 / 20000 :: real)\<^sup>2" by (simp only:)
  then show False by (simp add: power2_eq_square)
qed

lemma unitSphere_example_hyps:
  "isFinite3 (ctx_p (ctxAt 0 0 (-5)))"
  "isFinite3 (applyP (sph_renderFromObject unitSphere) 0)"
  "Finite 0 < sph_radius unitSphere"
  "sph_radius unitSphere
     \<le> Distance (ctx_p (ctxAt 0 0 (-5))) (applyP (sph_renderFromObject unitSphere) 0)"
  "orthonormal (Frame_FromZ exampleEnv
     (Normalize (ctx_p (ctxAt 0 0 (-5)) - applyP (sph_renderFromObject unitSphere) 0)))"
  "isFinite (gamma (MachineEpsilon exampleEnv) 5)"
proof -
  show "isFinite3 (ctx_p (ctxAt 0 0 (-5)))" by (simp add: isFinite3_def V3_def)
  show "isFinite3 (applyP (sph_renderFromObject unitSphere) 0)"
    by (simp add: unitSphere_fields idTransform_def isFinite3_def zero_Vector3f_def)
  show "Finite 0 < sph_radius unitSphere" by (simp add: unitSphere_fields)
  show "sph_radius unitSphere
     \<le> Distance (ctx_p (ctxAt 0 0 (-5))) (applyP (sph_renderFromObject unitSphere) 0)"
    unfolding unitSphere_Distance by (simp add: unitSphere_fields)
  have "Normalize (ctx_p (ctxAt 0 0 (-5)) - applyP (sph_renderFromObject unitSphere) 0)
          = V3 0 0 (-1)"
    by (simp add: unitSphere_fields idTransform_def zero_Vector3f_def V3_def Normalize_def
        Length_Finite)
  then show "orthonormal (Frame_FromZ exampleEnv
     (Normalize (ctx_p (ctxAt 0 0 (-5)) - applyP (sph_renderFromObject unitSphere) 0)))"
    by (simp add: orthonormal_def exampleEnv_def isFinite3_def V3_def)
  show "isFinite (gamma (MachineEpsilon exampleEnv) 5)"
    by (simp add: gamma_def exampleEnv_def)
qed

text \<open>
  The test of the first branch reads the offset point \<open>ctx.OffsetRayOrigin(pCenter)\<close>, not
  \<open>ctx.p()\<close>: a reference point on the unit sphere whose error bound moves it along a
  tangent normal is not inside for \<open>Sphere::Sample\<close>.
\<close>

lemma Sphere_inside_offset_example:
  "DistanceSquared (ctx_p tangentCtx) (applyP (sph_renderFromObject unitSphere) 0)
     \<le> sph_radius unitSphere * sph_radius unitSphere
   \<and> \<not> Sphere_inside exampleEnv unitSphere tangentCtx"
proof -
  have p: "ctx_p tangentCtx = V3 1 0 0"
    unfolding ctx_p_def tangentCtx_def by (simp add: Point3f_of_Point3fi_err)
  have e: "Error (ctx_pi tangentCtx) = V3 0 (1 / 1000) 0"
    by (simp add: tangentCtx_def Error_def Point3fi_err_def FromValueAndError_def Width_def
        V3_def)
  have o: "Sphere_pOrigin exampleEnv unitSphere tangentCtx = V3 1 (1 / 1000) 0"
    unfolding Sphere_pOrigin_def OffsetRayOrigin_pt_def OffsetRayOrigin_def Let_def p e
    unfolding ctx_p_def [symmetric] p
    by (simp add: tangentCtx_def unitSphere_fields idTransform_def zero_Vector3f_def V3_def
        Abs_def roundAway_def exampleEnv_def)
  show ?thesis
    unfolding Sphere_inside_def o p
    by (simp add: unitSphere_fields idTransform_def zero_Vector3f_def V3_def DistanceSquared_def)
qed

text \<open>
  Claim C2, as the code has it. \<open>Sphere::Sample(ctx, u)\<close> takes its first branch when the
  offset point \<open>ctx.OffsetRayOrigin(pCenter)\<close> is within the radius of the centre: the
  sample is the one of \<open>Sample(u)\<close>, its density multiplied by
  \<open>|ctx.p - p|\<^sup>2 / |n \<cdot> (-\<omega>\<^sub>i)|\<close>, and there is no sample when \<open>Sample(u)\<close> gives none, when
  the direction has length zero or when the density is infinite. Otherwise a sample is
  returned, with density \<open>1 / (2\<pi> (1 - cos\<theta>max))\<close> where \<open>sin\<theta>max = r / d\<close> and
  \<open>1 - cos\<theta>max\<close> is \<open>sin\<^sup>2\<theta>max / 2\<close> when \<open>sin\<^sup>2\<theta>max < 0.00068523\<close> and
  \<open>1 - \<surd>(1 - sin\<^sup>2\<theta>max)\<close> otherwise. For a finite reference point at distance at least
  \<open>r > 0\<close> of the centre, \<open>u\<^sub>0\<close> in \<open>[0, 1]\<close> and an orthonormal sampling frame, the returned
  point is at distance \<open>r\<close> of the centre and inside the cone that the sphere subtends:
  with \<open>w\<close> the vector to the point and \<open>a\<close> the vector to the centre,
  \<open>w \<cdot> a \<ge> 0\<close> and \<open>(w \<cdot> a)\<^sup>2 \<ge> (d\<^sup>2 - r\<^sup>2) |w|\<^sup>2\<close>.
\<close>

theorem Sphere_Sample_ctx_branches:
  "(Sphere_inside env S ctx \<longrightarrow>
      Sphere_Sample_ctx env S ctx u =
        (case Sphere_Sample env S u of
           None \<Rightarrow> None
         | Some ss \<Rightarrow>
             if feq (LengthSquared (intr_p (ss_intr ss) - ctx_p ctx)) (Finite 0) then None
             else if std_isinf (solidAnglePdf_Sample ctx ss) then None
             else Some (ss\<lparr>ss_pdf := solidAnglePdf_Sample ctx ss\<rparr>)))
   \<and> (\<not> Sphere_inside env S ctx \<longrightarrow>
        Sphere_Sample_ctx env S ctx u = Some (Sphere_Sample_cone env S ctx u)
      \<and> ss_pdf (Sphere_Sample_cone env S ctx u)
          = Finite 1 / (Finite 2 * Pi * Sphere_Sample_oneMinusCosThetaMax S ctx)
      \<and> (isFinite3 (ctx_p ctx) \<and> isFinite3 (applyP (sph_renderFromObject S) 0)
          \<and> Finite 0 < sph_radius S
          \<and> sph_radius S \<le> Distance (ctx_p ctx) (applyP (sph_renderFromObject S) 0)
          \<and> Finite 0 \<le> fst u \<and> fst u \<le> Finite 1 \<and> isFinite (snd u)
          \<and> orthonormal (Frame_FromZ env
                (Normalize (ctx_p ctx - applyP (sph_renderFromObject S) 0)))
          \<and> isFinite (gamma (MachineEpsilon env) 5) \<longrightarrow>
            DistanceSquared (intr_p (ss_intr (Sphere_Sample_cone env S ctx u)))
                (applyP (sph_renderFromObject S) 0) = sph_radius S * sph_radius S
          \<and> Finite 0 \<le> Dot (intr_p (ss_intr (Sphere_Sample_cone env S ctx u)) - ctx_p ctx)
                            (applyP (sph_renderFromObject S) 0 - ctx_p ctx)
          \<and> (DistanceSquared (ctx_p ctx) (applyP (sph_renderFromObject S) 0)
                - sph_radius S * sph_radius S)
              * LengthSquared (intr_p (ss_intr (Sphere_Sample_cone env S ctx u)) - ctx_p ctx)
              \<le> Dot (intr_p (ss_intr (Sphere_Sample_cone env S ctx u)) - ctx_p ctx)
                    (applyP (sph_renderFromObject S) 0 - ctx_p ctx)
                * Dot (intr_p (ss_intr (Sphere_Sample_cone env S ctx u)) - ctx_p ctx)
                      (applyP (sph_renderFromObject S) 0 - ctx_p ctx)))"
proof (intro conjI impI)
  assume "Sphere_inside env S ctx"
  then show "Sphere_Sample_ctx env S ctx u =
        (case Sphere_Sample env S u of
           None \<Rightarrow> None
         | Some ss \<Rightarrow>
             if feq (LengthSquared (intr_p (ss_intr ss) - ctx_p ctx)) (Finite 0) then None
             else if std_isinf (solidAnglePdf_Sample ctx ss) then None
             else Some (ss\<lparr>ss_pdf := solidAnglePdf_Sample ctx ss\<rparr>))"
    by (rule Sphere_Sample_ctx_inside)
next
  assume "\<not> Sphere_inside env S ctx"
  then show "Sphere_Sample_ctx env S ctx u = Some (Sphere_Sample_cone env S ctx u)"
    by (rule Sphere_Sample_ctx_outside)
next
  show "ss_pdf (Sphere_Sample_cone env S ctx u)
          = Finite 1 / (Finite 2 * Pi * Sphere_Sample_oneMinusCosThetaMax S ctx)"
    by (rule Sphere_Sample_cone_pdf)
next
  assume h: "isFinite3 (ctx_p ctx) \<and> isFinite3 (applyP (sph_renderFromObject S) 0)
          \<and> Finite 0 < sph_radius S
          \<and> sph_radius S \<le> Distance (ctx_p ctx) (applyP (sph_renderFromObject S) 0)
          \<and> Finite 0 \<le> fst u \<and> fst u \<le> Finite 1 \<and> isFinite (snd u)
          \<and> orthonormal (Frame_FromZ env
                (Normalize (ctx_p ctx - applyP (sph_renderFromObject S) 0)))
          \<and> isFinite (gamma (MachineEpsilon env) 5)"
  then have g: "isFinite3 (ctx_p ctx)" "isFinite3 (applyP (sph_renderFromObject S) 0)"
    "Finite 0 < sph_radius S"
    "sph_radius S \<le> Distance (ctx_p ctx) (applyP (sph_renderFromObject S) 0)"
    "Finite 0 \<le> fst u" "fst u \<le> Finite 1" "isFinite (snd u)"
    "orthonormal (Frame_FromZ env (Normalize (ctx_p ctx - applyP (sph_renderFromObject S) 0)))"
    "isFinite (gamma (MachineEpsilon env) 5)"
    by simp_all
  show "DistanceSquared (intr_p (ss_intr (Sphere_Sample_cone env S ctx u)))
          (applyP (sph_renderFromObject S) 0) = sph_radius S * sph_radius S"
    by (rule Sphere_Sample_cone_geometry(1) [OF g])
  show "Finite 0 \<le> Dot (intr_p (ss_intr (Sphere_Sample_cone env S ctx u)) - ctx_p ctx)
                            (applyP (sph_renderFromObject S) 0 - ctx_p ctx)"
    by (rule Sphere_Sample_cone_geometry(2) [OF g])
  show "(DistanceSquared (ctx_p ctx) (applyP (sph_renderFromObject S) 0)
                - sph_radius S * sph_radius S)
              * LengthSquared (intr_p (ss_intr (Sphere_Sample_cone env S ctx u)) - ctx_p ctx)
              \<le> Dot (intr_p (ss_intr (Sphere_Sample_cone env S ctx u)) - ctx_p ctx)
                    (applyP (sph_renderFromObject S) 0 - ctx_p ctx)
                * Dot (intr_p (ss_intr (Sphere_Sample_cone env S ctx u)) - ctx_p ctx)
                      (applyP (sph_renderFromObject S) 0 - ctx_p ctx)"
    by (rule Sphere_Sample_cone_geometry(3) [OF g])
qed

theorem Sphere_Sample_ctx_branches_witness:
  "Sphere_inside exampleEnv unitSphere (ctxAt 0 0 0)
   \<and> Sphere_Sample_ctx exampleEnv unitSphere (ctxAt 0 0 0) (Finite (1/2), Finite (1/4)) = None
   \<and> map_option ss_pdf
       (Sphere_Sample_ctx exampleEnv unitSphere (ctxAt 0 0 (-5)) (Finite (1/2), Finite (1/4)))
       = Some (Finite (1 / (2 * pi * (1 - sqrt (24 / 25)))))
   \<and> DistanceSquared
        (intr_p (ss_intr (Sphere_Sample_cone exampleEnv unitSphere (ctxAt 0 0 (-5))
                            (Finite (1/2), Finite (1/4)))))
        (applyP (sph_renderFromObject unitSphere) 0) = Finite 1"
proof -
  note T0 = Sphere_Sample_ctx_branches [of exampleEnv unitSphere "ctxAt 0 0 0"
      "(Finite (1/2), Finite (1/4))"]
  note T5 = Sphere_Sample_ctx_branches [of exampleEnv unitSphere "ctxAt 0 0 (-5)"
      "(Finite (1/2), Finite (1/4))"]
  have i0: "Sphere_inside exampleEnv unitSphere (ctxAt 0 0 0)"
    by (simp add: unitSphere_inside_iff)
  have i5: "\<not> Sphere_inside exampleEnv unitSphere (ctxAt 0 0 (-5))"
    by (simp add: unitSphere_inside_iff)
  from T0 i0 have "Sphere_Sample_ctx exampleEnv unitSphere (ctxAt 0 0 0)
      (Finite (1/2), Finite (1/4)) =
        (case Sphere_Sample exampleEnv unitSphere (Finite (1/2), Finite (1/4)) of
           None \<Rightarrow> None
         | Some ss \<Rightarrow>
             if feq (LengthSquared (intr_p (ss_intr ss) - ctx_p (ctxAt 0 0 0))) (Finite 0) then None
             else if std_isinf (solidAnglePdf_Sample (ctxAt 0 0 0) ss) then None
             else Some (ss\<lparr>ss_pdf := solidAnglePdf_Sample (ctxAt 0 0 0) ss\<rparr>))"
    by (elim conjE) (erule (1) mp)
  then have a: "Sphere_Sample_ctx exampleEnv unitSphere (ctxAt 0 0 0)
      (Finite (1/2), Finite (1/4)) = None"
    by (simp add: exampleEnv_def)
  from T5 i5 have c: "Sphere_Sample_ctx exampleEnv unitSphere (ctxAt 0 0 (-5))
        (Finite (1/2), Finite (1/4))
      = Some (Sphere_Sample_cone exampleEnv unitSphere (ctxAt 0 0 (-5)) (Finite (1/2), Finite (1/4)))
    \<and> ss_pdf (Sphere_Sample_cone exampleEnv unitSphere (ctxAt 0 0 (-5)) (Finite (1/2), Finite (1/4)))
      = Finite 1 / (Finite 2 * Pi * Sphere_Sample_oneMinusCosThetaMax unitSphere (ctxAt 0 0 (-5)))
    \<and> DistanceSquared
        (intr_p (ss_intr (Sphere_Sample_cone exampleEnv unitSphere (ctxAt 0 0 (-5))
                            (Finite (1/2), Finite (1/4)))))
        (applyP (sph_renderFromObject unitSphere) 0) = sph_radius unitSphere * sph_radius unitSphere"
    using unitSphere_example_hyps by simp
  have "sqrt (24 / 25) < 1" by simp
  then have nz: "2 * pi * (1 - sqrt (24 / 25)) \<noteq> 0" by simp
  have b: "map_option ss_pdf
       (Sphere_Sample_ctx exampleEnv unitSphere (ctxAt 0 0 (-5)) (Finite (1/2), Finite (1/4)))
       = Some (Finite (1 / (2 * pi * (1 - sqrt (24 / 25)))))"
    using c nz by (simp add: unitSphere_near_oneMinus Pi_def)
  have d: "DistanceSquared
        (intr_p (ss_intr (Sphere_Sample_cone exampleEnv unitSphere (ctxAt 0 0 (-5))
                            (Finite (1/2), Finite (1/4)))))
        (applyP (sph_renderFromObject unitSphere) 0) = Finite 1"
    using c by (simp add: unitSphere_fields)
  from i0 a b d show ?thesis by (intro conjI)
qed

text \<open>
  From \<open>(0, 0, -100)\<close> the unit sphere has \<open>sin\<^sup>2\<theta>max = 1/10000\<close>, below \<open>0.00068523\<close>: the
  density returned is \<open>1 / (2\<pi> \<cdot> (1/10000) / 2) = 10000 / \<pi>\<close>, which is not
  \<open>1 / (2\<pi> (1 - \<surd>(1 - 1/10000)))\<close>.
\<close>

theorem Sphere_Sample_small_angle_counterexample:
  "sph_radius unitSphere * sph_radius unitSphere
     < DistanceSquared (ctx_p (ctxAt 0 0 (-100))) (applyP (sph_renderFromObject unitSphere) 0)
   \<and> map_option ss_pdf
       (Sphere_Sample_ctx exampleEnv unitSphere (ctxAt 0 0 (-100)) (Finite (1/2), Finite (1/4)))
       = Some (Finite (10000 / pi))
   \<and> spec_conePdf unitSphere (ctxAt 0 0 (-100))
       = Finite (1 / (2 * pi * (1 - sqrt (9999 / 10000))))
   \<and> Finite (10000 / pi) \<noteq> Finite (1 / (2 * pi * (1 - sqrt (9999 / 10000))))"
proof (intro conjI)
  show "sph_radius unitSphere * sph_radius unitSphere
     < DistanceSquared (ctx_p (ctxAt 0 0 (-100))) (applyP (sph_renderFromObject unitSphere) 0)"
    by (simp add: unitSphere_fields idTransform_def zero_Vector3f_def V3_def DistanceSquared_def)
  have "\<not> Sphere_inside exampleEnv unitSphere (ctxAt 0 0 (-100))"
    by (simp add: unitSphere_inside_iff)
  then show "map_option ss_pdf
       (Sphere_Sample_ctx exampleEnv unitSphere (ctxAt 0 0 (-100)) (Finite (1/2), Finite (1/4)))
       = Some (Finite (10000 / pi))"
    by (simp add: Sphere_Sample_ctx_outside Sphere_Sample_cone_pdf unitSphere_far_oneMinus Pi_def)
  show "spec_conePdf unitSphere (ctxAt 0 0 (-100))
       = Finite (1 / (2 * pi * (1 - sqrt (9999 / 10000))))"
    by (rule unitSphere_far_spec)
  show "Finite (10000 / pi) \<noteq> Finite (1 / (2 * pi * (1 - sqrt (9999 / 10000))))"
  proof
    assume "Finite (10000 / pi) = Finite (1 / (2 * pi * (1 - sqrt (9999 / 10000))))"
    then have e: "10000 / pi = 1 / (2 * pi * (1 - sqrt (9999 / 10000)))" by (simp only: Float.inject)
    have "sqrt (9999 / 10000) < 1" by simp
    then have p: "0 < 1 - sqrt (9999 / 10000)" by simp
    from e p have "1 - sqrt (9999 / 10000) = 1 / 20000"
      using pi_gt_zero by (simp add: field_simps)
    with taylor_differs show False by contradiction
  qed
qed


section \<open>Sampling a triangle and evaluating its density\<close>









lemma unitTriangle_vertices:
  "allMeshes env = [unitTriangleMesh] \<Longrightarrow>
     Triangle_vertices env unitTriangle = (V3 0 0 0, V3 1 0 0, V3 0 1 0)"
  by (simp add: Triangle_vertices_def GetMesh_def unitTriangle_def unitTriangleMesh_def
      tri_p_def tri_v_def)



lemma ctxAt_fields [simp]:
  "ctx_time (ctxAt a b c) = Finite 0" "ctx_ns (ctxAt a b c) = V3 0 0 1"
  "ctx_n (ctxAt a b c) = V3 0 0 1"
  by (simp_all add: ctxAt_def)










end
